theory Spec2Isabelle
  imports Main "HOL-Library.Word" "HOL-Library.Multiset" "HOL-Library.AList"
begin

section \<open>Pipeline build lifecycle: engine/api/pipeline/pipeline_build.go\<close>

text \<open>
  A shallow embedding of the pipeline build store of the CDS engine. Go's \<open>int64\<close> is a
  64-bit word read as two's complement; \<open>time.Time\<close> is an instant counted from the
  zero value \<open>time.Time{}\<close>; a nullable SQL column and a \<open>sql.Null*\<close> value are
  options; a Go \<open>(value, error)\<close> result is a sum with the error on the left.
\<close>

subsection \<open>Values of the sdk package\<close>

type_synonym int64 = "64 word"

type_synonym Time = nat

definition zeroTime :: Time where
  \<comment> \<open>\<open>time.Time{}\<close>\<close>
  "zeroTime = 0"

text \<open>
  Errors. \<open>WrapError\<close> stands for \<open>sdk.WrapError(err, msg)\<close>; the wrapped error is
  optional because the source also wraps an \<open>err\<close> that is nil at that point. Where the
  function returns a pointer beside the error, \<open>Inl (WrapError None msg)\<close> is the return
  of the nil pointer: no value is returned, whatever \<open>sdk.WrapError\<close> makes of the nil
  error. Where the function returns the error alone, what \<open>sdk.WrapError\<close> makes of a
  nil error decides how the caller goes on, and is a parameter of the model
  (\<open>WrapError_nil\<close> below).
\<close>

datatype error =
    ErrNoRows
  | ErrNoPipelineBuild
  | ErrNoBranch
  | DriverError string
  | JSONError string
  | VCSError string
  | ProcessError string
  | WrapError "error option" string

text \<open>
  Modelled from the spec: \<open>sdk.Status\<close> is declared in the sdk package; the data
  model lists the seven statuses. \<open>StatusUnknown\<close> stands for every other text of the
  status column.
\<close>

datatype Status =
    StatusBuilding | StatusSuccess | StatusFail | StatusStopped
  | StatusSkipped | StatusWaiting | StatusDisabled | StatusUnknown

fun Status_String :: "Status \<Rightarrow> string" where
  "Status_String StatusBuilding = ''Building''"
| "Status_String StatusSuccess = ''Success''"
| "Status_String StatusFail = ''Fail''"
| "Status_String StatusStopped = ''Stopped''"
| "Status_String StatusSkipped = ''Skipped''"
| "Status_String StatusWaiting = ''Waiting''"
| "Status_String StatusDisabled = ''Disabled''"
| "Status_String StatusUnknown = ''Unknown''"

definition StatusFromString :: "string \<Rightarrow> Status" where
  "StatusFromString s =
     (if s = ''Building'' then StatusBuilding
      else if s = ''Success'' then StatusSuccess
      else if s = ''Fail'' then StatusFail
      else if s = ''Stopped'' then StatusStopped
      else if s = ''Skipped'' then StatusSkipped
      else if s = ''Waiting'' then StatusWaiting
      else if s = ''Disabled'' then StatusDisabled
      else StatusUnknown)"

text \<open>The terminal statuses of the glossary.\<close>

definition terminal :: "Status \<Rightarrow> bool" where
  "terminal s \<longleftrightarrow> s \<in> {StatusSuccess, StatusFail, StatusStopped, StatusSkipped, StatusDisabled}"

record Parameter =
  Name :: string
  Type :: string
  Value :: string

definition StringParameter :: string where
  "StringParameter = ''string''"

record User =
  usr_ID :: int64
  usr_Username :: string
  usr_Fullname :: string
  usr_Email :: string

record PipelineBuildJob =
  job_ID :: int64
  job_Status :: string

record Stage =
  stage_Name :: string
  stage_Enabled :: bool
  stage_Status :: Status
  stage_PipelineBuildJobs :: "PipelineBuildJob list"

record VCSCommit =
  commit_Hash :: string
  commit_AuthorName :: string
  commit_Message :: string

record VCSBranch =
  branch_DisplayID :: string
  branch_Default :: bool
  branch_LatestCommit :: string

record VCSRepo =
  repo_SSHCloneURL :: string
  repo_HTTPCloneURL :: string

text \<open>
  \<open>RepositoriesManager\<close> is a pointer in the source; only its being nil and its name
  are read here.
\<close>

record Application =
  app_ID :: int64
  app_Name :: string
  app_ProjectKey :: string
  app_RepositoriesManager :: "string option"
  app_RepositoryFullname :: string

record Pipeline =
  pip_ID :: int64
  pip_Name :: string
  pip_Type :: string
  pip_ProjectKey :: string
  pip_ProjectID :: int64
  pip_Parameter :: "Parameter list"
  pip_Stages :: "Stage list"

record Environment =
  env_ID :: int64
  env_Name :: string
  env_ProjectKey :: string
  env_ProjectID :: int64

record Project =
  proj_ID :: int64
  proj_Key :: string

text \<open>
  The trigger points to its parent build. Of the parent, the code reads the id and the
  application id only, so the pointer is an optional pair of the two.
\<close>

record ParentPipelineBuild =
  parent_ID :: int64
  parent_ApplicationID :: int64

record PipelineBuildTrigger =
  trig_ManualTrigger :: bool
  trig_ScheduledTrigger :: bool
  trig_TriggeredBy :: "User option"
  trig_ParentPipelineBuild :: "ParentPipelineBuild option"
  trig_VCSChangesBranch :: string
  trig_VCSChangesHash :: string
  trig_VCSChangesAuthor :: string

record PipelineBuild =
  pb_ID :: int64
  pb_BuildNumber :: int64
  pb_Version :: int64
  pb_Parameters :: "Parameter list"
  pb_Status :: Status
  pb_Start :: Time
  pb_Done :: Time
  pb_Stages :: "Stage list"
  pb_Pipeline :: Pipeline
  pb_Application :: Application
  pb_Environment :: Environment
  pb_Trigger :: PipelineBuildTrigger
  pb_Commits :: "VCSCommit list"

text \<open>The zero values that Go gives to a freshly declared struct.\<close>

definition zeroApplication :: Application where
  "zeroApplication = \<lparr>app_ID = 0, app_Name = [], app_ProjectKey = [],
     app_RepositoriesManager = None, app_RepositoryFullname = []\<rparr>"

definition zeroPipeline :: Pipeline where
  "zeroPipeline = \<lparr>pip_ID = 0, pip_Name = [], pip_Type = [], pip_ProjectKey = [],
     pip_ProjectID = 0, pip_Parameter = [], pip_Stages = []\<rparr>"

definition zeroEnvironment :: Environment where
  "zeroEnvironment = \<lparr>env_ID = 0, env_Name = [], env_ProjectKey = [], env_ProjectID = 0\<rparr>"

definition zeroTrigger :: PipelineBuildTrigger where
  "zeroTrigger = \<lparr>trig_ManualTrigger = False, trig_ScheduledTrigger = False,
     trig_TriggeredBy = None, trig_ParentPipelineBuild = None, trig_VCSChangesBranch = [],
     trig_VCSChangesHash = [], trig_VCSChangesAuthor = []\<rparr>"

definition zeroPipelineBuild :: PipelineBuild where
  "zeroPipelineBuild = \<lparr>pb_ID = 0, pb_BuildNumber = 0, pb_Version = 0, pb_Parameters = [],
     pb_Status = StatusUnknown, pb_Start = zeroTime, pb_Done = zeroTime, pb_Stages = [],
     pb_Pipeline = zeroPipeline, pb_Application = zeroApplication,
     pb_Environment = zeroEnvironment, pb_Trigger = zeroTrigger, pb_Commits = []\<rparr>"

subsection \<open>The row that the select statement returns\<close>

record PipelineBuildDbResult =
  res_ID :: int64
  res_ApplicationID :: int64
  res_PipelineID :: int64
  res_EnvironmentID :: int64
  res_ProjectID :: int64
  res_ApplicatioName :: string
  res_PipelineName :: string
  res_PipelineType :: string
  res_EnvironmentName :: string
  res_ProjectKey :: string
  res_BuildNumber :: int64
  res_Version :: int64
  res_Status :: string
  res_Args :: string
  res_Stages :: string
  res_Commits :: string
  res_Start :: Time
  res_Done :: "Time option"
  res_ManualTrigger :: bool
  res_TriggeredBy :: "int64 option"
  res_VCSChangesBranch :: "string option"
  res_VCSChangesHash :: "string option"
  res_VCSChangesAuthor :: "string option"
  res_ParentPipelineBuildID :: "int64 option"
  res_Username :: "string option"
  res_ScheduledTrigger :: bool

subsection \<open>Collaborators outside the package\<close>

text \<open>
  The version-control client (\<open>sdk.RepositoriesManagerClient\<close>). \<open>Branches\<close> returns
  its list together with the error, because the caller reads the list and drops the
  error; \<open>Branch\<close> returns a pointer that the caller tests against nil.
\<close>

record VCSClient =
  RepoByFullname :: "string \<Rightarrow> error + VCSRepo"
  Branches :: "string \<Rightarrow> VCSBranch list \<times> error option"
  Branch :: "string \<Rightarrow> string \<Rightarrow> error + VCSBranch option"
  Commit :: "string \<Rightarrow> string \<Rightarrow> error + VCSCommit"
  Commits :: "string \<Rightarrow> string \<Rightarrow> string \<Rightarrow> string \<Rightarrow> error + VCSCommit list"

text \<open>
  What the functions of this file call and other packages define:
  \<open>encoding/json\<close> on the three column types, the repositories manager, the loader of
  a pipeline's stages, the resolver of build variables, the order in which the Go
  runtime visits the entries of a map in a \<open>range\<close> loop, and the result of
  \<open>sdk.WrapError\<close> on a nil error (nil, or an error). They are parameters of the
  model.
\<close>

record Ext =
  Marshal_params :: "Parameter list \<Rightarrow> error + string"
  Unmarshal_params :: "string \<Rightarrow> error + Parameter list"
  Marshal_stages :: "Stage list \<Rightarrow> error + string"
  Unmarshal_stages :: "string \<Rightarrow> error + Stage list"
  Marshal_commits :: "VCSCommit list \<Rightarrow> error + string"
  Unmarshal_commits :: "string \<Rightarrow> error + VCSCommit list"
  AuthorizedClient :: "string \<Rightarrow> string \<Rightarrow> error + VCSClient"
  LoadFromApplicationByID :: "int64 \<Rightarrow> string \<times> string option"
  LoadPipelineStage :: "Pipeline \<Rightarrow> error + Stage list"
  ProcessPipelineBuildVariables ::
    "Parameter list \<Rightarrow> Parameter list \<Rightarrow> Parameter list \<Rightarrow> error + (string \<times> Parameter) list"
  map_range :: "(string \<times> Parameter) list \<Rightarrow> (string \<times> Parameter) list"
  WrapError_nil :: "string \<Rightarrow> error option"

subsection \<open>scanPipelineBuild\<close>

definition scanPipelineBuild :: "Ext \<Rightarrow> PipelineBuildDbResult \<Rightarrow> error + PipelineBuild" where
  "scanPipelineBuild X pbResult =
    (let pb = zeroPipelineBuild\<lparr>
           pb_ID := res_ID pbResult,
           pb_Application := zeroApplication\<lparr>
             app_ID := res_ApplicationID pbResult,
             app_Name := res_ApplicatioName pbResult,
             app_ProjectKey := res_ProjectKey pbResult\<rparr>,
           pb_Pipeline := zeroPipeline\<lparr>
             pip_ID := res_PipelineID pbResult,
             pip_Name := res_PipelineName pbResult,
             pip_Type := res_PipelineType pbResult,
             pip_ProjectKey := res_ProjectKey pbResult,
             pip_ProjectID := res_ProjectID pbResult\<rparr>,
           pb_Environment := zeroEnvironment\<lparr>
             env_ID := res_EnvironmentID pbResult,
             env_Name := res_EnvironmentName pbResult,
             env_ProjectKey := res_ProjectKey pbResult,
             env_ProjectID := res_ProjectID pbResult\<rparr>,
           pb_BuildNumber := res_BuildNumber pbResult,
           pb_Version := res_Version pbResult,
           pb_Status := StatusFromString (res_Status pbResult),
           pb_Start := res_Start pbResult,
           pb_Trigger := zeroTrigger\<lparr>
             trig_ManualTrigger := res_ManualTrigger pbResult,
             trig_ScheduledTrigger := res_ScheduledTrigger pbResult\<rparr>\<rparr>;
         pb = (case res_Done pbResult of
                 Some t \<Rightarrow> pb\<lparr>pb_Done := t\<rparr>
               | None \<Rightarrow> pb);
         pb = (case (res_TriggeredBy pbResult, res_Username pbResult) of
                 (Some uid, Some uname) \<Rightarrow>
                   pb\<lparr>pb_Trigger := (pb_Trigger pb)\<lparr>trig_TriggeredBy :=
                     Some \<lparr>usr_ID = uid, usr_Username = uname, usr_Fullname = [], usr_Email = []\<rparr>\<rparr>\<rparr>
               | _ \<Rightarrow> pb);
         pb = (case res_VCSChangesAuthor pbResult of
                 Some a \<Rightarrow> pb\<lparr>pb_Trigger := (pb_Trigger pb)\<lparr>trig_VCSChangesAuthor := a\<rparr>\<rparr>
               | None \<Rightarrow> pb);
         pb = (case res_VCSChangesBranch pbResult of
                 Some b \<Rightarrow> pb\<lparr>pb_Trigger := (pb_Trigger pb)\<lparr>trig_VCSChangesBranch := b\<rparr>\<rparr>
               | None \<Rightarrow> pb);
         pb = (case res_VCSChangesHash pbResult of
                 Some h \<Rightarrow> pb\<lparr>pb_Trigger := (pb_Trigger pb)\<lparr>trig_VCSChangesHash := h\<rparr>\<rparr>
               | None \<Rightarrow> pb)
     in case Unmarshal_params X (res_Args pbResult) of
          Inl err \<Rightarrow> Inl (WrapError (Some err) ''scanPipelineBuild> Unable to Unmarshal parameter'')
        | Inr ps \<Rightarrow>
       (case Unmarshal_stages X (res_Stages pbResult) of
          Inl err \<Rightarrow> Inl (WrapError (Some err) ''scanPipelineBuild> Unable to Unmarshal stages'')
        | Inr ss \<Rightarrow>
       (let pb = pb\<lparr>pb_Parameters := ps, pb_Stages := ss\<rparr>
        in if res_Commits pbResult \<noteq> []
           then (case Unmarshal_commits X (res_Commits pbResult) of
                   Inl err \<Rightarrow> Inl (WrapError (Some err) ''scanPipelineBuild> Unable to Unmarshal commits'')
                 | Inr cs \<Rightarrow> Inr (pb\<lparr>pb_Commits := cs\<rparr>))
           else Inr pb)))"

subsection \<open>The relational store\<close>

text \<open>
  The database as the executor of a function sees it (\<open>db\<close> or \<open>tx\<close>, a
  \<open>gorp.SqlExecutor\<close>): the tables the statements of this file read and write, with the
  columns they name. \<open>next_id\<close> is the sequence behind \<open>pipeline_build.id\<close>.
  \<open>locked\<close> is the transaction of the executor: the ids of the build rows it has locked
  with \<open>FOR UPDATE\<close>. A transaction keeps its locks until it commits or rolls back, and
  no function modelled here commits or rolls back the executor it is given; every
  statement of a function goes to the executor it was handed. \<open>faults\<close> is the schedule
  of the driver: every statement sent to the database takes the head of the schedule, and
  fails with that message when there is one; with an empty schedule every statement
  succeeds. \<open>published\<close> is the event bus: the builds handed to
  \<open>event.PublishPipelineBuild\<close>, each with the previous build passed along.
  Other sessions of the database and the process-wide cache are not part of the state.
\<close>

record pipeline_build_row =
  c_id :: int64
  c_pipeline_id :: int64
  c_build_number :: int64
  c_version :: int64
  c_status :: string
  c_args :: string
  c_start :: Time
  c_application_id :: int64
  c_environment_id :: int64
  c_done :: "Time option"
  c_manual_trigger :: bool
  c_triggered_by :: "int64 option"
  c_parent_pipeline_build_id :: "int64 option"
  c_vcs_changes_branch :: "string option"
  c_vcs_changes_hash :: "string option"
  c_vcs_changes_author :: "string option"
  c_scheduled_trigger :: bool
  c_stages :: string
  c_commits :: string

record application_row =
  a_id :: int64
  a_name :: string
  a_project_id :: int64

record pipeline_row =
  p_id :: int64
  p_name :: string
  p_type :: string

record environment_row =
  e_id :: int64
  e_name :: string

record project_row =
  pr_id :: int64
  pr_projectkey :: string

record user_row =
  u_id :: int64
  u_username :: string

record pipeline_build_job_row =
  j_id :: int64
  j_pipeline_build_id :: int64
  j_status :: string

record build_log_row =
  l_pipeline_build_job_id :: int64
  l_value :: string

record artifact_row =
  art_id :: int64
  art_pipeline_id :: int64
  art_application_id :: int64
  art_environment_id :: int64
  art_build_number :: int64

record pipeline_test_result_row =
  tr_pipeline_build_id :: int64

record store =
  pipeline_build :: "pipeline_build_row list"
  tbl_application :: "application_row list"
  tbl_pipeline :: "pipeline_row list"
  tbl_environment :: "environment_row list"
  tbl_project :: "project_row list"
  tbl_user :: "user_row list"
  pipeline_build_job :: "pipeline_build_job_row list"
  build_log :: "build_log_row list"
  artifact :: "artifact_row list"
  pipeline_test_result :: "pipeline_test_result_row list"
  next_id :: int64
  locked :: "int64 list"
  faults :: "string option list"
  published :: "(PipelineBuild \<times> PipelineBuild option) list"

definition driver :: "store \<Rightarrow> string option \<times> store" where
  "driver db = (case faults db of [] \<Rightarrow> (None, db) | f # fs \<Rightarrow> (f, db\<lparr>faults := fs\<rparr>))"

text \<open>
  The constant \<open>selectPipelineBuild\<close>: the build rows joined with their application,
  pipeline, environment and project (inner joins: a build without one of them is not
  returned) and with the triggering user (left join). The ids of the joined tables are
  primary keys, so each build meets at most one row of each.
\<close>

definition selectPipelineBuild :: "store \<Rightarrow> PipelineBuildDbResult list" where
  "selectPipelineBuild db = List.map_filter (\<lambda>pb.
     case find (\<lambda>a. a_id a = c_application_id pb) (tbl_application db) of None \<Rightarrow> None | Some a \<Rightarrow>
     (case find (\<lambda>p. p_id p = c_pipeline_id pb) (tbl_pipeline db) of None \<Rightarrow> None | Some p \<Rightarrow>
     (case find (\<lambda>e. e_id e = c_environment_id pb) (tbl_environment db) of None \<Rightarrow> None | Some e \<Rightarrow>
     (case find (\<lambda>pr. pr_id pr = a_project_id a) (tbl_project db) of None \<Rightarrow> None | Some pr \<Rightarrow>
       Some \<lparr>res_ID = c_id pb,
             res_ApplicationID = c_application_id pb,
             res_PipelineID = c_pipeline_id pb,
             res_EnvironmentID = c_environment_id pb,
             res_ProjectID = pr_id pr,
             res_ApplicatioName = a_name a,
             res_PipelineName = p_name p,
             res_PipelineType = p_type p,
             res_EnvironmentName = e_name e,
             res_ProjectKey = pr_projectkey pr,
             res_BuildNumber = c_build_number pb,
             res_Version = c_version pb,
             res_Status = c_status pb,
             res_Args = c_args pb,
             res_Stages = c_stages pb,
             res_Commits = c_commits pb,
             res_Start = c_start pb,
             res_Done = c_done pb,
             res_ManualTrigger = c_manual_trigger pb,
             res_TriggeredBy = c_triggered_by pb,
             res_VCSChangesBranch = c_vcs_changes_branch pb,
             res_VCSChangesHash = c_vcs_changes_hash pb,
             res_VCSChangesAuthor = c_vcs_changes_author pb,
             res_ParentPipelineBuildID = c_parent_pipeline_build_id pb,
             res_Username = (case c_triggered_by pb of None \<Rightarrow> None
                             | Some uid \<Rightarrow> map_option u_username (find (\<lambda>u. u_id u = uid) (tbl_user db))),
             res_ScheduledTrigger = c_scheduled_trigger pb\<rparr>))))
     (pipeline_build db)"

text \<open>The loop \<open>for _, r := range rows\<close> of every loader: the first row that fails stops it.\<close>

fun scanRows :: "Ext \<Rightarrow> PipelineBuildDbResult list \<Rightarrow> error + PipelineBuild list" where
  "scanRows X [] = Inr []"
| "scanRows X (r # rs) =
     (case scanPipelineBuild X r of
        Inl errScan \<Rightarrow> Inl errScan
      | Inr pb \<Rightarrow> (case scanRows X rs of Inl e \<Rightarrow> Inl e | Inr pbs \<Rightarrow> Inr (pb # pbs)))"

definition LoadPipelineBuildByApplicationAndBranch ::
    "Ext \<Rightarrow> store \<Rightarrow> int64 \<Rightarrow> string \<Rightarrow> (error + PipelineBuild list) \<times> store" where
  "LoadPipelineBuildByApplicationAndBranch X db appID branch =
     (case driver db of
        (Some m, db') \<Rightarrow> (Inl (DriverError m), db')
      | (None, db') \<Rightarrow>
          (scanRows X
             (sort_key (\<lambda>r. sint (res_ID r))
                (filter (\<lambda>r. res_ApplicationID r = appID \<and> res_VCSChangesBranch r = Some branch)
                   (selectPipelineBuild db'))), db'))"

text \<open>
  \<open>ORDER BY pb.version DESC, pb.id DESC LIMIT $4\<close>, with the four shapes of the
  \<open>WHERE\<close> clause. A column that is \<open>NULL\<close> equals no branch name.
  \<open>AttachPipelinesWarnings\<close> adds nothing to the fields modelled here.
\<close>

definition LoadPipelineBuildsByApplicationAndPipeline ::
    "Ext \<Rightarrow> store \<Rightarrow> int64 \<Rightarrow> int64 \<Rightarrow> int64 \<Rightarrow> nat \<Rightarrow> string \<Rightarrow> string
       \<Rightarrow> (error + PipelineBuild list) \<times> store" where
  "LoadPipelineBuildsByApplicationAndPipeline X db applicationID pipelineID environmentID
       limit status branchName =
     (case driver db of
        (Some m, db') \<Rightarrow> (Inl (DriverError m), db')
      | (None, db') \<Rightarrow>
          (let triple = (\<lambda>r. res_ApplicationID r = applicationID \<and> res_PipelineID r = pipelineID
                               \<and> res_EnvironmentID r = environmentID);
               cond =
                 (if status = [] \<and> branchName = [] then triple
                  else if status \<noteq> [] \<and> branchName = [] then
                    (\<lambda>r. triple r \<and> res_Status r = status)
                  else if status = [] \<and> branchName \<noteq> [] then
                    (\<lambda>r. triple r \<and> res_VCSChangesBranch r = Some branchName)
                  else
                    (\<lambda>r. triple r \<and> res_Status r = status \<and> res_VCSChangesBranch r = Some branchName));
               rows = take limit
                 (sort_key (\<lambda>r. - sint (res_Version r))
                    (sort_key (\<lambda>r. - sint (res_ID r)) (filter cond (selectPipelineBuild db'))))
           in (scanRows X rows, db')))"

text \<open>
  The loop that follows every history lookup: with exactly two builds loaded, the one
  with the lower build number.
\<close>

definition previousOf :: "PipelineBuild list \<Rightarrow> PipelineBuild option" where
  "previousOf history =
     (if length history = 2
      then foldl (\<lambda>previous h.
             case previous of
               None \<Rightarrow> Some h
             | Some p \<Rightarrow> if pb_BuildNumber h <s pb_BuildNumber p then Some h else previous)
           None history
      else None)"

text \<open>A loader's list after \<open>if err != nil { log.Error(...) }\<close>: nil when it failed.\<close>

definition orNil :: "error + 'a list \<Rightarrow> 'a list" where
  "orNil r = (case r of Inl e \<Rightarrow> [] | Inr xs \<Rightarrow> xs)"

definition PublishPipelineBuild :: "store \<Rightarrow> PipelineBuild \<Rightarrow> PipelineBuild option \<Rightarrow> store" where
  "PublishPipelineBuild db pb previous = db\<lparr>published := published db @ [(pb, previous)]\<rparr>"

subsection \<open>UpdatePipelineBuildStatusAndStage\<close>

text \<open>
  The function mutates the build it is given; the model returns the error, the store and
  the build as the caller sees them afterwards.
\<close>

definition UpdatePipelineBuildStatusAndStage ::
    "Ext \<Rightarrow> store \<Rightarrow> PipelineBuild \<Rightarrow> Status \<Rightarrow> error option \<times> store \<times> PipelineBuild" where
  "UpdatePipelineBuildStatusAndStage X db pb newStatus =
     (case Marshal_stages X (pb_Stages pb) of
        Inl errStage \<Rightarrow> (Some errStage, db, pb)
      | Inr stagesB \<Rightarrow>
     (case driver db of
        (Some m, db1) \<Rightarrow> (Some (DriverError m), db1, pb)
      | (None, db1) \<Rightarrow>
          (let db2 = db1\<lparr>pipeline_build :=
                 map (\<lambda>r. if c_id r = pb_ID pb
                           then r\<lparr>c_status := Status_String newStatus, c_stages := stagesB,
                                  c_done := Some (pb_Done pb)\<rparr>
                           else r) (pipeline_build db1)\<rparr>;
               branch = (case find (\<lambda>param. Name param = ''.git.branch'') (pb_Parameters pb) of
                           Some param \<Rightarrow> Value param
                         | None \<Rightarrow> []);
               (history, db3) = LoadPipelineBuildsByApplicationAndPipeline X db2
                   (app_ID (pb_Application pb)) (pip_ID (pb_Pipeline pb))
                   (env_ID (pb_Environment pb)) 2 [] branch;
               previous = previousOf (orNil history);
               pb = (if app_RepositoriesManager (pb_Application pb) = None
                        \<or> app_RepositoryFullname (pb_Application pb) = []
                     then (case LoadFromApplicationByID X (app_ID (pb_Application pb)) of
                             (rfn, rm) \<Rightarrow> pb\<lparr>pb_Application := (pb_Application pb)
                                \<lparr>app_RepositoryFullname := rfn, app_RepositoriesManager := rm\<rparr>\<rparr>)
                     else pb);
               db4 = (if pb_Status pb \<noteq> newStatus
                      then PublishPipelineBuild db3 (pb\<lparr>pb_Status := newStatus\<rparr>) previous
                      else db3)
           in (None, db4, pb\<lparr>pb_Status := newStatus\<rparr>))))"

subsection \<open>Logs, jobs, artifacts and test results\<close>


definition DeleteBuildLogsByPipelineBuildID :: "store \<Rightarrow> int64 \<Rightarrow> error option \<times> store" where
  "DeleteBuildLogsByPipelineBuildID db pbID =
     (case driver db of
        (Some m, db') \<Rightarrow> (Some (DriverError m), db')
      | (None, db') \<Rightarrow>
          (None, db'\<lparr>build_log :=
             filter (\<lambda>l. l_pipeline_build_job_id l \<notin>
                       set (map j_id (filter (\<lambda>j. j_pipeline_build_id j = pbID) (pipeline_build_job db'))))
               (build_log db')\<rparr>))"

definition DeletePipelineBuildJob :: "store \<Rightarrow> int64 \<Rightarrow> error option \<times> store" where
  "DeletePipelineBuildJob db pbID =
     (case driver db of
        (Some m, db') \<Rightarrow> (Some (DriverError m), db')
      | (None, db') \<Rightarrow>
          (None, db'\<lparr>pipeline_build_job :=
             filter (\<lambda>j. j_pipeline_build_id j \<noteq> pbID) (pipeline_build_job db')\<rparr>))"

definition StopBuildingPipelineBuildJob :: "store \<Rightarrow> PipelineBuild \<Rightarrow> error option \<times> store" where
  "StopBuildingPipelineBuildJob db pb =
     (case driver db of
        (Some m, db') \<Rightarrow> (Some (DriverError m), db')
      | (None, db') \<Rightarrow>
          (None, db'\<lparr>pipeline_build_job :=
             map (\<lambda>j. if j_pipeline_build_id j = pb_ID pb \<and> \<not> terminal (StatusFromString (j_status j))
                       then j\<lparr>j_status := Status_String StatusStopped\<rparr> else j)
               (pipeline_build_job db')\<rparr>))"




subsection \<open>DeletePipelineBuildByID, StopPipelineBuild, DeleteBranchBuilds\<close>

definition DeletePipelineBuildByID :: "store \<Rightarrow> int64 \<Rightarrow> error option \<times> store" where
  "DeletePipelineBuildByID db pbID =
     (case DeleteBuildLogsByPipelineBuildID db pbID of
        (Some err, db1) \<Rightarrow> (Some err, db1)
      | (None, db1) \<Rightarrow>
     (case DeletePipelineBuildJob db1 pbID of
        (Some err, db2) \<Rightarrow> (Some err, db2)
      | (None, db2) \<Rightarrow>
     (case driver db2 of
        (Some m, db3) \<Rightarrow> (Some (DriverError m), db3)
      | (None, db3) \<Rightarrow>
          (None, db3\<lparr>pipeline_build := filter (\<lambda>r. c_id r \<noteq> pbID) (pipeline_build db3)\<rparr>))))"

definition StopPipelineBuild :: "Ext \<Rightarrow> store \<Rightarrow> PipelineBuild \<Rightarrow> error option \<times> store" where
  "StopPipelineBuild X db pb =
     (case StopBuildingPipelineBuildJob db pb of
        (Some err, db1) \<Rightarrow> (Some err, db1)
      | (None, db1) \<Rightarrow>
          (let (history, db2) = LoadPipelineBuildsByApplicationAndPipeline X db1
                   (app_ID (pb_Application pb)) (pip_ID (pb_Pipeline pb))
                   (env_ID (pb_Environment pb)) 2 [] (trig_VCSChangesBranch (pb_Trigger pb));
               previous = previousOf (orNil history)
           in (None, PublishPipelineBuild db2 pb previous)))"

text \<open>The loop of \<open>DeleteBranchBuilds\<close> over the loaded builds.\<close>

fun deleteBranchBuildsLoop :: "Ext \<Rightarrow> store \<Rightarrow> PipelineBuild list \<Rightarrow> store" where
  "deleteBranchBuildsLoop X db [] = db"
| "deleteBranchBuildsLoop X db (pb # pbs) =
     (if pb_Status pb \<noteq> StatusBuilding then deleteBranchBuildsLoop X db pbs
      else (case StopPipelineBuild X db pb of
              (Some err, db1) \<Rightarrow> deleteBranchBuildsLoop X db1 pbs
            | (None, db1) \<Rightarrow>
                (case DeletePipelineBuildByID db1 (pb_ID pb) of
                   (Some err, db2) \<Rightarrow> deleteBranchBuildsLoop X db2 pbs
                 | (None, db2) \<Rightarrow> deleteBranchBuildsLoop X db2 pbs)))"

definition DeleteBranchBuilds :: "Ext \<Rightarrow> store \<Rightarrow> int64 \<Rightarrow> string \<Rightarrow> error option \<times> store" where
  "DeleteBranchBuilds X db appID branch =
     (case LoadPipelineBuildByApplicationAndBranch X db appID branch of
        (Inl errPB, db1) \<Rightarrow> (Some errPB, db1)
      | (Inr pbs, db1) \<Rightarrow> (None, deleteBranchBuildsLoop X db1 pbs))"

subsection \<open>RestartPipelineBuild\<close>








subsection \<open>GetLastBuildNumber and insertPipelineBuild\<close>

text \<open>
  \<open>ORDER BY build_number DESC LIMIT 1 FOR UPDATE\<close>: the row that is returned is locked
  by the transaction of the executor. The result is Go's pair: the number and the error;
  \<open>sql.ErrNoRows\<close> leaves the number at 0 and is not returned.
\<close>

definition GetLastBuildNumber ::
    "store \<Rightarrow> int64 \<Rightarrow> int64 \<Rightarrow> int64 \<Rightarrow> (int64 \<times> error option) \<times> store" where
  "GetLastBuildNumber db pipID appID envID =
     (case driver db of
        (Some m, db') \<Rightarrow> ((0, Some (DriverError m)), db')
      | (None, db') \<Rightarrow>
          (case sort_key (\<lambda>r. - sint (c_build_number r))
                  (filter (\<lambda>r. c_pipeline_id r = pipID \<and> c_application_id r = appID
                               \<and> c_environment_id r = envID) (pipeline_build db')) of
             [] \<Rightarrow> ((0, None), db')
           | r # rs \<Rightarrow>
               ((c_build_number r, None), db'\<lparr>locked := List.insert (c_id r) (locked db')\<rparr>)))"

text \<open>
  The row gets the next value of the id sequence, which \<open>RETURNING id\<close> hands back into
  the build. \<open>now\<close> is the reading of \<open>time.Now()\<close>, which the statement receives both
  as \<open>start\<close> and as \<open>done\<close>.
\<close>

definition insertPipelineBuild ::
    "Ext \<Rightarrow> Time \<Rightarrow> store \<Rightarrow> string \<Rightarrow> int64 \<Rightarrow> int64 \<Rightarrow> PipelineBuild \<Rightarrow> int64 \<Rightarrow> string
       \<Rightarrow> VCSCommit list \<Rightarrow> error option \<times> store \<times> PipelineBuild" where
  "insertPipelineBuild X now db args applicationID pipelineID pb envID stages commits =
     (let triggeredBy = (case trig_TriggeredBy (pb_Trigger pb) of Some u \<Rightarrow> usr_ID u | None \<Rightarrow> 0);
          parentPipelineID = (case trig_ParentPipelineBuild (pb_Trigger pb) of
                                Some parent \<Rightarrow> parent_ID parent | None \<Rightarrow> 0)
      in case Marshal_commits X commits of
           Inl errMarshal \<Rightarrow>
             (Some (WrapError (Some errMarshal) ''insertPipelineBuild> Unable to marshal commits''), db, pb)
         | Inr commitsBtes \<Rightarrow>
        (case driver db of
           (Some m, db') \<Rightarrow>
             (Some (WrapError (Some (DriverError m)) ''insertPipelineBuild> Unable to insert pipeline_build''),
              db', pb)
         | (None, db') \<Rightarrow>
             (None,
              db'\<lparr>pipeline_build := pipeline_build db' @
                    [\<lparr>c_id = next_id db',
                      c_pipeline_id = pipelineID,
                      c_build_number = pb_BuildNumber pb,
                      c_version = pb_Version pb,
                      c_status = Status_String StatusBuilding,
                      c_args = args,
                      c_start = now,
                      c_application_id = applicationID,
                      c_environment_id = envID,
                      c_done = Some now,
                      c_manual_trigger = trig_ManualTrigger (pb_Trigger pb),
                      c_triggered_by = (if triggeredBy \<noteq> 0 then Some triggeredBy else None),
                      c_parent_pipeline_build_id =
                        (if parentPipelineID \<noteq> 0 then Some parentPipelineID else None),
                      c_vcs_changes_branch = Some (trig_VCSChangesBranch (pb_Trigger pb)),
                      c_vcs_changes_hash = Some (trig_VCSChangesHash (pb_Trigger pb)),
                      c_vcs_changes_author = Some (trig_VCSChangesAuthor (pb_Trigger pb)),
                      c_scheduled_trigger = trig_ScheduledTrigger (pb_Trigger pb),
                      c_stages = stages,
                      c_commits = commitsBtes\<rparr>],
                  next_id := next_id db' + 1\<rparr>,
              pb\<lparr>pb_ID := next_id db'\<rparr>)))"

subsection \<open>Parameters\<close>

text \<open>
  Modelled from the spec: \<open>sdk.AddParameter\<close> and \<open>sdk.ParameterValue\<close> belong to the
  sdk package. The resolver of the spec keeps the order in which parameters were given,
  so adding a parameter appends it to the array, as \<open>InsertBuildVariable\<close> of this file
  does; the value of a name is the value of the first parameter that carries it, and the
  empty string when there is none.
\<close>

definition AddParameter :: "Parameter list \<Rightarrow> string \<Rightarrow> string \<Rightarrow> string \<Rightarrow> Parameter list" where
  "AddParameter array name parameterType v = array @ [\<lparr>Name = name, Type = parameterType, Value = v\<rparr>]"

definition ParameterValue :: "Parameter list \<Rightarrow> string \<Rightarrow> string" where
  "ParameterValue params name =
     (case find (\<lambda>p. Name p = name) params of Some p \<Rightarrow> Value p | None \<Rightarrow> [])"

text \<open>\<open>strconv.FormatInt(i, 10)\<close>.\<close>

fun digits10 :: "nat \<Rightarrow> string" where
  "digits10 n =
     (if n < 10 then [''0123456789'' ! n]
      else digits10 (n div 10) @ [''0123456789'' ! (n mod 10)])"

definition FormatInt :: "int64 \<Rightarrow> string" where
  "FormatInt i =
     (if sint i < 0 then CHR ''-'' # digits10 (nat (- sint i)) else digits10 (nat (sint i)))"

text \<open>
  Modelled from the spec: the constant \<open>sdk.BuildPipeline\<close>; the glossary names the
  pipeline types \<open>build\<close>, \<open>deployment\<close> and \<open>testing\<close>, and the history query of this
  file selects \<open>pipeline.type = 'build'\<close>.
\<close>

definition BuildPipeline :: string where
  "BuildPipeline = ''build''"

subsection \<open>InsertPipelineBuild\<close>

text \<open>The reset of the version number.\<close>

definition resolveVersion ::
    "int64 \<Rightarrow> int64 \<Rightarrow> Pipeline \<Rightarrow> Application \<Rightarrow> PipelineBuildTrigger \<Rightarrow> int64" where
  "resolveVersion version buildNumber p app trigger =
     (if version \<le>s 0
         \<or> (case trig_ParentPipelineBuild trigger of
               None \<Rightarrow> True
             | Some parent \<Rightarrow> app_ID app \<noteq> parent_ApplicationID parent \<and> pip_Type p = BuildPipeline)
      then buildNumber else version)"

definition canonicalParams ::
    "Parameter list \<Rightarrow> Pipeline \<Rightarrow> Application \<Rightarrow> Environment \<Rightarrow> PipelineBuild \<Rightarrow> Parameter list" where
  "canonicalParams params p app env pb =
     (let params = AddParameter params ''cds.pipeline'' StringParameter (pip_Name p);
          params = AddParameter params ''cds.project'' StringParameter (pip_ProjectKey p);
          params = AddParameter params ''cds.application'' StringParameter (app_Name app);
          params = AddParameter params ''cds.environment'' StringParameter (env_Name env);
          params = AddParameter params ''cds.buildNumber'' StringParameter (FormatInt (pb_BuildNumber pb));
          params = AddParameter params ''cds.version'' StringParameter (FormatInt (pb_Version pb))
      in params)"

definition repoParams :: "VCSClient option \<Rightarrow> Application \<Rightarrow> Parameter list \<Rightarrow> error + Parameter list" where
  "repoParams client app params =
     (case client of
        None \<Rightarrow> Inr params
      | Some c \<Rightarrow>
          (case RepoByFullname c (app_RepositoryFullname app) of
             Inl err \<Rightarrow> Inl err
           | Inr repo \<Rightarrow>
               Inr (AddParameter (AddParameter params ''git.url'' StringParameter (repo_SSHCloneURL repo))
                      ''git.http_url'' StringParameter (repo_HTTPCloneURL repo))))"

definition triggeredByParams :: "PipelineBuildTrigger \<Rightarrow> Parameter list \<Rightarrow> Parameter list" where
  "triggeredByParams trigger params =
     (case trig_TriggeredBy trigger of
        None \<Rightarrow> params
      | Some u \<Rightarrow>
          (let params = AddParameter params ''cds.triggered_by.username'' StringParameter (usr_Username u);
               params = AddParameter params ''cds.triggered_by.fullname'' StringParameter (usr_Fullname u);
               params = AddParameter params ''cds.triggered_by.email'' StringParameter (usr_Email u)
           in params))"

text \<open>
  The loop over the branches of the repository: the default branch (\<open>master\<close> unless a
  branch says otherwise) and the map \<open>lastGitHash\<close>, which reads as the empty string at a
  key it does not hold.
\<close>

definition branchesLoop :: "VCSBranch list \<Rightarrow> string \<times> (string \<Rightarrow> string)" where
  "branchesLoop branches =
     foldl (\<lambda>(defautlBranch, lastGitHash) b.
              ((if branch_Default b then branch_DisplayID b else defautlBranch),
               lastGitHash(branch_DisplayID b := branch_LatestCommit b)))
       (''master'', \<lambda>k. []) branches"

text \<open>The loop over the parameters that looks for \<open>git.branch\<close> and \<open>git.hash\<close>.\<close>

definition paramsLoop :: "Parameter list \<Rightarrow> PipelineBuildTrigger \<Rightarrow> bool \<times> bool \<times> PipelineBuildTrigger" where
  "paramsLoop params trigger =
     foldl (\<lambda>(found, hashFound, t) p.
              (let (found, t) = (if Name p = ''git.branch'' \<and> Value p \<noteq> []
                                 then (True, t\<lparr>trig_VCSChangesBranch := Value p\<rparr>) else (found, t));
                   (hashFound, t) = (if Name p = ''git.hash'' \<and> Value p \<noteq> []
                                     then (True, t\<lparr>trig_VCSChangesHash := Value p\<rparr>) else (hashFound, t))
               in (found, hashFound, t)))
       (False, False, trigger) params"

definition gitBranchAndHash ::
    "VCSClient option \<Rightarrow> Application \<Rightarrow> Parameter list \<Rightarrow> PipelineBuildTrigger
       \<Rightarrow> Parameter list \<times> PipelineBuildTrigger" where
  "gitBranchAndHash client app params trigger =
     (if trig_VCSChangesBranch trigger \<noteq> []
      then (AddParameter
              (AddParameter params ''git.branch'' StringParameter (trig_VCSChangesBranch trigger))
              ''git.hash'' StringParameter (trig_VCSChangesHash trigger), trigger)
      else
        (let (defautlBranch, lastGitHash) =
               (case client of
                  None \<Rightarrow> (''master'', \<lambda>k. [])
                | Some c \<Rightarrow> branchesLoop (fst (Branches c (app_RepositoryFullname app))));
             (found, hashFound, trigger) = paramsLoop params trigger
         in if \<not> found
            then (let params = AddParameter params ''git.branch'' StringParameter defautlBranch;
                      trigger = trigger\<lparr>trig_VCSChangesBranch := defautlBranch\<rparr>
                  in if lastGitHash defautlBranch \<noteq> []
                     then (AddParameter params ''git.hash'' StringParameter (lastGitHash defautlBranch),
                           trigger\<lparr>trig_VCSChangesHash := lastGitHash defautlBranch\<rparr>)
                     else (params, trigger))
            else if \<not> hashFound \<and> lastGitHash (trig_VCSChangesBranch trigger) \<noteq> []
                 then (AddParameter params ''git.hash'' StringParameter
                         (lastGitHash (trig_VCSChangesBranch trigger)),
                       trigger\<lparr>trig_VCSChangesHash := lastGitHash (trig_VCSChangesBranch trigger)\<rparr>)
                 else (params, trigger)))"

definition commitParams ::
    "VCSClient option \<Rightarrow> Application \<Rightarrow> Parameter list \<Rightarrow> PipelineBuildTrigger
       \<Rightarrow> Parameter list \<times> PipelineBuildTrigger" where
  "commitParams client app params trigger =
     (case client of
        None \<Rightarrow> (params, trigger)
      | Some c \<Rightarrow>
          (if trig_VCSChangesHash trigger \<noteq> []
           then (case Commit c (app_RepositoryFullname app) (trig_VCSChangesHash trigger) of
                   Inl err \<Rightarrow> (params, trigger)
                 | Inr commit \<Rightarrow>
                     (AddParameter
                        (AddParameter params ''git.author'' StringParameter (commit_AuthorName commit))
                        ''git.message'' StringParameter (commit_Message commit),
                      trigger\<lparr>trig_VCSChangesAuthor := commit_AuthorName commit\<rparr>))
           else (params, trigger)))"

text \<open>
  From the build number to the parameters: the build as it stands before
  \<open>ProcessPipelineBuildVariables\<close> is called, and the array \<open>params\<close>.
\<close>

definition buildParameters ::
    "VCSClient option \<Rightarrow> Pipeline \<Rightarrow> Application \<Rightarrow> Parameter list \<Rightarrow> Environment \<Rightarrow> int64
       \<Rightarrow> PipelineBuildTrigger \<Rightarrow> int64 \<Rightarrow> error + PipelineBuild \<times> Parameter list" where
  "buildParameters client p app params env version trigger buildNumber =
     (let pb = zeroPipelineBuild\<lparr>pb_BuildNumber := buildNumber + 1, pb_Trigger := trigger\<rparr>;
          pb = pb\<lparr>pb_Version := resolveVersion version (pb_BuildNumber pb) p app trigger\<rparr>;
          params = canonicalParams params p app env pb
      in case repoParams client app params of
           Inl err \<Rightarrow> Inl err
         | Inr params \<Rightarrow>
             (let params = triggeredByParams (pb_Trigger pb) params;
                  (params, trigger) = gitBranchAndHash client app params (pb_Trigger pb);
                  (params, trigger) = commitParams client app params trigger
              in Inr (pb\<lparr>pb_Trigger := trigger\<rparr>, params)))"

text \<open>
  \<open>ProcessPipelineBuildVariables\<close> returns a Go map, here the list of its entries. The
  loop \<open>for _, v := range mapVar\<close> appends the values in the order in which the runtime
  visits the entries.
\<close>

definition rangeValues :: "Ext \<Rightarrow> (string \<times> Parameter) list \<Rightarrow> Parameter list" where
  "rangeValues X mapVar = map snd (map_range X mapVar)"

definition firstStageWaiting :: "Stage list \<Rightarrow> Stage list" where
  "firstStageWaiting stages =
     (case stages of [] \<Rightarrow> [] | stage # rest \<Rightarrow> stage\<lparr>stage_Status := StatusWaiting\<rparr> # rest)"

text \<open>
  From the parameters to the inserted row. \<open>err\<close> is the error variable of the build
  number query, which the source wraps when the stages cannot be marshalled.
\<close>

definition storeBuild ::
    "Ext \<Rightarrow> Time \<Rightarrow> store \<Rightarrow> Pipeline \<Rightarrow> Application \<Rightarrow> Parameter list \<Rightarrow> Environment
       \<Rightarrow> error option \<Rightarrow> PipelineBuild \<Rightarrow> Parameter list
       \<Rightarrow> (error + PipelineBuild \<times> Parameter list) \<times> store" where
  "storeBuild X now tx p app applicationPipelineArgs env err pb params =
     (case ProcessPipelineBuildVariables X (pip_Parameter p) applicationPipelineArgs params of
        Inl errprocess \<Rightarrow> (Inl errprocess, tx)
      | Inr mapVar \<Rightarrow>
     (let argsFinal = rangeValues X mapVar
      in case Marshal_params X argsFinal of
        Inl errmarshal \<Rightarrow>
          (Inl (WrapError (Some errmarshal) ''InsertPipelineBuild> Cannot marshal build parameters''), tx)
      | Inr argsJSON \<Rightarrow>
     (case LoadPipelineStage X p of
        Inl errStage \<Rightarrow>
          (Inl (WrapError (Some errStage) ''InsertPipelineBuild> Unable to load pipeline stages''), tx)
      | Inr loaded \<Rightarrow>
     (let p = p\<lparr>pip_Stages := firstStageWaiting loaded\<rparr>
      in case Marshal_stages X (pip_Stages p) of
        Inl errJSON \<Rightarrow> (Inl (WrapError err ''InsertPipelineBuild> Unable to marshall stages''), tx)
      | Inr stages \<Rightarrow>
     (case insertPipelineBuild X now tx argsJSON (app_ID app) (pip_ID p) pb (env_ID env) stages [] of
        (Some errInsert, tx', pb') \<Rightarrow>
          (Inl (WrapError (Some errInsert) ''InsertPipelineBuild> Cannot insert pipeline build''), tx')
      | (None, tx', pb') \<Rightarrow>
          (Inr (pb'\<lparr>pb_Status := StatusBuilding, pb_Pipeline := p, pb_Parameters := params,
                    pb_Application := app, pb_Environment := env\<rparr>, argsFinal), tx'))))))"

text \<open>
  After the insert: the previous build, the update of the arguments with
  \<open>git.previousHash\<close>, and the event. \<open>stats.PipelineEvent\<close> touches nothing that is
  modelled here.
\<close>

definition notifyPrevious ::
    "Ext \<Rightarrow> store \<Rightarrow> PipelineBuild \<Rightarrow> Parameter list \<Rightarrow> (error + PipelineBuild) \<times> store" where
  "notifyPrevious X tx pb argsFinal =
     (let branch = (case find (\<lambda>param. Name param = ''.git.branch'') (pb_Parameters pb) of
                      Some param \<Rightarrow> Value param
                    | None \<Rightarrow> []);
          (history, tx1) = LoadPipelineBuildsByApplicationAndPipeline X tx
              (app_ID (pb_Application pb)) (pip_ID (pb_Pipeline pb))
              (env_ID (pb_Environment pb)) 2 [] branch;
          previous = previousOf (orNil history)
      in case previous of
           None \<Rightarrow> (Inr pb, PublishPipelineBuild tx1 pb previous)
         | Some prev \<Rightarrow>
             (let previousHash = ParameterValue (pb_Parameters prev) ''git.hash''
              in if previousHash \<noteq> []
                 then (let argsFinal = AddParameter argsFinal ''git.previousHash'' StringParameter previousHash
                       in case Marshal_params X argsFinal of
                            Inl errmarshal \<Rightarrow>
                              (Inl (WrapError (Some errmarshal)
                                     ''InsertPipelineBuild> Cannot marshal build parameters''), tx1)
                          | Inr argsJSON \<Rightarrow>
                              (case driver tx1 of
                                 (Some m, tx2) \<Rightarrow>
                                   (Inl (WrapError (Some (DriverError m))
                                          ''InsertPipelineBuild> Cannot update build parameters''), tx2)
                               | (None, tx2) \<Rightarrow>
                                   (Inr pb,
                                    PublishPipelineBuild
                                      (tx2\<lparr>pipeline_build :=
                                         map (\<lambda>r. if c_id r = pb_ID pb then r\<lparr>c_args := argsJSON\<rparr> else r)
                                           (pipeline_build tx2)\<rparr>)
                                      pb previous)))
                 else (Inr pb, PublishPipelineBuild tx1 pb previous)))"

text \<open>
  The client of the repositories manager, nil when the application is bound to none or
  the client cannot be had (the error is dropped).
\<close>

definition repositoryClient :: "Ext \<Rightarrow> Project \<Rightarrow> Application \<Rightarrow> VCSClient option" where
  "repositoryClient X project app =
     (case app_RepositoriesManager app of
        None \<Rightarrow> None
      | Some rm \<Rightarrow>
          if app_RepositoryFullname app \<noteq> []
          then (case AuthorizedClient X (proj_Key project) rm of
                  Inl e \<Rightarrow> None
                | Inr c \<Rightarrow> Some c)
          else None)"

definition InsertPipelineBuild ::
    "Ext \<Rightarrow> Time \<Rightarrow> store \<Rightarrow> Project \<Rightarrow> Pipeline \<Rightarrow> Application \<Rightarrow> Parameter list \<Rightarrow> Parameter list
       \<Rightarrow> Environment \<Rightarrow> int64 \<Rightarrow> PipelineBuildTrigger \<Rightarrow> (error + PipelineBuild) \<times> store" where
  "InsertPipelineBuild X now tx project p app applicationPipelineArgs params env version trigger =
     (let client = repositoryClient X project app
      in case GetLastBuildNumber tx (pip_ID p) (app_ID app) (env_ID env) of
           ((buildNumber, err), tx1) \<Rightarrow>
             (case (case err of Some e \<Rightarrow> if e \<noteq> ErrNoRows then Some e else None | None \<Rightarrow> None) of
                Some e \<Rightarrow> (Inl e, tx1)
              | None \<Rightarrow>
             (case buildParameters client p app params env version trigger buildNumber of
                Inl e \<Rightarrow> (Inl e, tx1)
              | Inr (pb, params) \<Rightarrow>
             (case storeBuild X now tx1 p app applicationPipelineArgs env err pb params of
                (Inl e, tx2) \<Rightarrow> (Inl e, tx2)
              | (Inr (pb, argsFinal), tx2) \<Rightarrow> notifyPrevious X tx2 pb argsFinal))))"

subsection \<open>The commits of a build\<close>

record BuildNumberAndHash =
  bnh_BuildNumber :: int64
  bnh_Hash :: string
  bnh_Branch :: string

text \<open>
  The query joins the current build with the earlier builds of the same pipeline,
  application and environment whose branch equals its own (a \<open>NULL\<close> branch equals
  none), and orders by the earlier build's number, highest first and a missing one before
  all. \<open>currentAndPreviousRows\<close> is the result before \<open>LIMIT 1\<close>.
\<close>

definition currentAndPreviousRows ::
    "store \<Rightarrow> int64 \<Rightarrow> int64 \<Rightarrow> int64 \<Rightarrow> int64
       \<Rightarrow> (pipeline_build_row \<times> pipeline_build_row option) list" where
  "currentAndPreviousRows db buildNumber pipelineID applicationID environmentID =
     (let triple = (\<lambda>r. c_pipeline_id r = pipelineID \<and> c_application_id r = applicationID
                          \<and> c_environment_id r = environmentID);
          current_pipeline =
            filter (\<lambda>r. c_build_number r = buildNumber \<and> triple r) (pipeline_build db);
          previous_pipeline =
            sort_key (\<lambda>r. - sint (c_build_number r))
              (filter (\<lambda>r. c_build_number r <s buildNumber \<and> triple r) (pipeline_build db));
          joined = concat (map (\<lambda>cur.
              case filter (\<lambda>prev. c_pipeline_id prev = c_pipeline_id cur
                             \<and> c_vcs_changes_branch prev \<noteq> None
                             \<and> c_vcs_changes_branch prev = c_vcs_changes_branch cur)
                     previous_pipeline of
                [] \<Rightarrow> [(cur, None)]
              | prevs \<Rightarrow> map (\<lambda>prev. (cur, Some prev)) prevs) current_pipeline)
      in sort_key (\<lambda>(cur, prev). case prev of
                      None \<Rightarrow> - (2 ^ 64)
                    | Some r \<Rightarrow> - sint (c_build_number r)) joined)"

text \<open>
  The build number, hash and branch of a row as \<open>Scan\<close> reads them: a column that is
  \<open>NULL\<close> leaves the zero value.
\<close>

definition bnhOfRow :: "pipeline_build_row \<Rightarrow> BuildNumberAndHash" where
  "bnhOfRow r = \<lparr>bnh_BuildNumber = c_build_number r,
                 bnh_Hash = (case c_vcs_changes_hash r of Some h \<Rightarrow> h | None \<Rightarrow> []),
                 bnh_Branch = (case c_vcs_changes_branch r of Some b \<Rightarrow> b | None \<Rightarrow> [])\<rparr>"

definition CurrentAndPreviousPipelineBuildNumberAndHash ::
    "store \<Rightarrow> int64 \<Rightarrow> int64 \<Rightarrow> int64 \<Rightarrow> int64
       \<Rightarrow> (error + BuildNumberAndHash \<times> BuildNumberAndHash option) \<times> store" where
  "CurrentAndPreviousPipelineBuildNumberAndHash db buildNumber pipelineID applicationID environmentID =
     (case driver db of
        (Some m, db') \<Rightarrow> (Inl (DriverError m), db')
      | (None, db') \<Rightarrow>
          (case currentAndPreviousRows db' buildNumber pipelineID applicationID environmentID of
             [] \<Rightarrow> (Inl ErrNoPipelineBuild, db')
           | (c, prev) # rest \<Rightarrow>
               (let cur = bnhOfRow c
                in case prev of
                     None \<Rightarrow> (Inr (cur, None), db')
                   | Some r \<Rightarrow> (Inr (cur, Some (bnhOfRow r)), db'))))"

text \<open>
  When the statement fails the function returns \<open>sdk.WrapError(errMarshal, ...)\<close>, and
  \<open>errMarshal\<close> is nil there.
\<close>

definition updatePipelineBuildCommits ::
    "Ext \<Rightarrow> store \<Rightarrow> int64 \<Rightarrow> VCSCommit list \<Rightarrow> error option \<times> store" where
  "updatePipelineBuildCommits X db pbID commits =
     (case Marshal_commits X commits of
        Inl errMarshal \<Rightarrow>
          (Some (WrapError (Some errMarshal) ''insertPipelineBuild> Unable to marshal commits''), db)
      | Inr commitsBtes \<Rightarrow>
          (case driver db of
             (Some m, db') \<Rightarrow>
               (WrapError_nil X ''insertPipelineBuild> Unable to update pipeline_build'', db')
           | (None, db') \<Rightarrow>
               (None, db'\<lparr>pipeline_build :=
                  map (\<lambda>r. if c_id r = pbID then r\<lparr>c_commits := commitsBtes\<rparr> else r)
                    (pipeline_build db')\<rparr>)))"

text \<open>
  The case analysis on the current and the previous build. Go's nil slice and empty
  slice are both the empty list.
\<close>

definition commitsBetween ::
    "VCSClient \<Rightarrow> Application \<Rightarrow> BuildNumberAndHash \<Rightarrow> BuildNumberAndHash option
       \<Rightarrow> error + VCSCommit list" where
  "commitsBetween client app cur prev =
     (if (case prev of Some pv \<Rightarrow> bnh_Hash cur = bnh_Hash pv | None \<Rightarrow> False) then Inr []
      else if (case prev of Some pv \<Rightarrow> bnh_Hash cur \<noteq> [] \<and> bnh_Hash pv \<noteq> [] | None \<Rightarrow> False)
      then (case Commits client (app_RepositoryFullname app) (bnh_Branch cur)
                   (case prev of Some pv \<Rightarrow> bnh_Hash pv | None \<Rightarrow> []) (bnh_Hash cur) of
              Inl err \<Rightarrow> Inl (WrapError (Some err) ''UpdatePipelineBuildCommits> Cannot get commits'')
            | Inr commits \<Rightarrow> Inr commits)
      else if bnh_Hash cur \<noteq> []
      then (case Commits client (app_RepositoryFullname app) (bnh_Branch cur) [] (bnh_Hash cur) of
              Inl err \<Rightarrow> Inl (WrapError (Some err) ''UpdatePipelineBuildCommits> Cannot get commits'')
            | Inr c \<Rightarrow> Inr c)
      else (case Branch client (app_RepositoryFullname app) (bnh_Branch cur) of
              Inl err \<Rightarrow> Inl (WrapError (Some err) ''UpdatePipelineBuildCommits> Cannot get branch'')
            | Inr None \<Rightarrow> Inr []
            | Inr (Some br) \<Rightarrow>
                if branch_LatestCommit br = []
                then Inl (WrapError (Some ErrNoBranch)
                            ''UpdatePipelineBuildCommits> Branch or lastest commit not found'')
                else (case Commit client (app_RepositoryFullname app) (branch_LatestCommit br) of
                        Inl errcm \<Rightarrow>
                          Inl (WrapError (Some errcm) ''UpdatePipelineBuildCommits> Cannot get commits'')
                      | Inr cm \<Rightarrow> Inr [cm])))"

definition UpdatePipelineBuildCommits ::
    "Ext \<Rightarrow> store \<Rightarrow> Project \<Rightarrow> Pipeline \<Rightarrow> Application \<Rightarrow> Environment \<Rightarrow> PipelineBuild
       \<Rightarrow> (error + VCSCommit list) \<times> store" where
  "UpdatePipelineBuildCommits X db p pip app env pb =
     (case app_RepositoriesManager app of
        None \<Rightarrow> (Inr [], db)
      | Some rm \<Rightarrow>
     (case AuthorizedClient X (proj_Key p) rm of
        Inl errclient \<Rightarrow>
          (Inl (WrapError (Some errclient) ''UpdatePipelineBuildCommits> Cannot get client''), db)
      | Inr client \<Rightarrow>
     (case CurrentAndPreviousPipelineBuildNumberAndHash db (pb_BuildNumber pb) (pip_ID pip)
             (app_ID app) (env_ID env) of
        (Inl errcurr, db1) \<Rightarrow>
          (Inl (WrapError (Some errcurr)
                  ''UpdatePipelineBuildCommits> Cannot get build number and hashes''), db1)
      | (Inr (cur, prev), db1) \<Rightarrow>
     (case commitsBetween client app cur prev of
        Inl e \<Rightarrow> (Inl e, db1)
      | Inr res \<Rightarrow>
     (case updatePipelineBuildCommits X db1 (pb_ID pb) res of
        (Some err, db2) \<Rightarrow>
          (Inl (WrapError (Some err)
                  ''UpdatePipelineBuildCommits> Unable to update pipeline build commit''), db2)
      | (None, db2) \<Rightarrow> (Inr res, db2))))))"

subsection \<open>The notions the properties are stated with\<close>

text \<open>
  The highest build number stored for a pipeline, application and environment, as the
  allocator of the specification reads it: 0 when the triple has no build.
\<close>

definition buildsOfTriple :: "store \<Rightarrow> int64 \<Rightarrow> int64 \<Rightarrow> int64 \<Rightarrow> pipeline_build_row list" where
  "buildsOfTriple db pipID appID envID =
     filter (\<lambda>r. c_pipeline_id r = pipID \<and> c_application_id r = appID \<and> c_environment_id r = envID)
       (pipeline_build db)"

definition spec_highestBuildNumber :: "store \<Rightarrow> int64 \<Rightarrow> int64 \<Rightarrow> int64 \<Rightarrow> int64" where
  "spec_highestBuildNumber db pipID appID envID =
     (if buildsOfTriple db pipID appID envID = [] then 0
      else word_of_int (Max (sint ` c_build_number ` set (buildsOfTriple db pipID appID envID))))"

definition buildKey :: "pipeline_build_row \<Rightarrow> int64 \<times> int64 \<times> int64 \<times> int64" where
  "buildKey r = (c_pipeline_id r, c_application_id r, c_environment_id r, c_build_number r)"

text \<open>
  The previous build on the same branch, as the glossary has it: among the builds of the
  triple with a lower number than the current one and its branch, the one with the
  highest number. \<open>earlierOnBranch\<close> lists the candidates of a current row.
\<close>

definition earlierOnBranch ::
    "store \<Rightarrow> int64 \<Rightarrow> int64 \<Rightarrow> int64 \<Rightarrow> pipeline_build_row \<Rightarrow> pipeline_build_row list" where
  "earlierOnBranch db pipID appID envID cur =
     filter (\<lambda>r. c_build_number r <s c_build_number cur \<and> c_vcs_changes_branch r \<noteq> None
                  \<and> c_vcs_changes_branch r = c_vcs_changes_branch cur)
       (buildsOfTriple db pipID appID envID)"




text \<open>
  The latest commit that the repositories manager reports for a branch: the entry of the
  map \<open>lastGitHash\<close> that \<open>InsertPipelineBuild\<close> fills from the branches of the
  repository. It is empty without a client and for a branch that the client does not
  list.
\<close>

definition lastGitHashOf :: "VCSClient option \<Rightarrow> Application \<Rightarrow> string \<Rightarrow> string" where
  "lastGitHashOf client app branch =
     (case client of
        None \<Rightarrow> []
      | Some c \<Rightarrow> snd (branchesLoop (fst (Branches c (app_RepositoryFullname app)))) branch)"

text \<open>
  A resolver of build variables keeps the names it is given when every name of the
  parameters of the build is the name of a value of the map it returns.
\<close>

definition keepsNames :: "Ext \<Rightarrow> bool" where
  "keepsNames X \<longleftrightarrow>
     (\<forall>pipelineParams applicationPipelineArgs buildArgs mapVar.
        ProcessPipelineBuildVariables X pipelineParams applicationPipelineArgs buildArgs = Inr mapVar
        \<longrightarrow> Name ` set buildArgs \<subseteq> Name ` snd ` set mapVar)"

text \<open>Whether the next statement that is sent to the database fails.\<close>

definition nextStatementFails :: "store \<Rightarrow> bool" where
  "nextStatementFails db \<longleftrightarrow> fst (driver db) \<noteq> None"

text \<open>The tables of a store, without the schedule of the driver.\<close>

definition tables :: "store \<Rightarrow> store" where
  "tables db = db\<lparr>faults := []\<rparr>"

text \<open>
  A Go runtime visits every entry of a map once: the order it picks is a permutation of
  the entries.
\<close>

definition validRange :: "Ext \<Rightarrow> bool" where
  "validRange X \<longleftrightarrow> (\<forall>m. mset (map_range X m) = mset m)"

subsection \<open>An environment for the examples\<close>

text \<open>
  Modelled from the spec: \<open>ProcessPipelineBuildVariables\<close> is defined in another file
  of the package. The resolver of the spec merges the pipeline defaults, the application
  overrides and the caller's parameters, lowest precedence first, and a later parameter
  wins over an earlier one of the same name. The result is the map from names to
  parameters, as the list of its entries.
\<close>

definition mergeVariables ::
    "Parameter list \<Rightarrow> Parameter list \<Rightarrow> Parameter list \<Rightarrow> error + (string \<times> Parameter) list" where
  "mergeVariables pipelineParams applicationPipelineArgs buildArgs =
     Inr (foldl (\<lambda>m a. AList.update (Name a) a m) []
            (pipelineParams @ applicationPipelineArgs @ buildArgs))"

text \<open>
  A wire format that stands for JSON in the examples, and a decoder that knows the
  values it is given.
\<close>

definition wireParams :: "Parameter list \<Rightarrow> string" where
  "wireParams ps = ''['' @ concat (map (\<lambda>p. Name p @ ''='' @ Value p @ '';'') ps) @ '']''"

definition wireStages :: "Stage list \<Rightarrow> string" where
  "wireStages ss =
     ''['' @ concat (map (\<lambda>s. stage_Name s @ ''='' @ Status_String (stage_Status s) @ '';'') ss) @ '']''"

definition wireCommits :: "VCSCommit list \<Rightarrow> string" where
  "wireCommits cs = ''['' @ concat (map (\<lambda>c. commit_Hash c @ '';'') cs) @ '']''"

definition decodeAmong :: "('a \<Rightarrow> string) \<Rightarrow> 'a list \<Rightarrow> string \<Rightarrow> error + 'a" where
  "decodeAmong enc known s =
     (case find (\<lambda>v. enc v = s) known of Some v \<Rightarrow> Inr v | None \<Rightarrow> Inl (JSONError s))"

definition exampleExt :: "Parameter list list \<Rightarrow> Stage list list \<Rightarrow> VCSCommit list list \<Rightarrow> Ext" where
  "exampleExt ps ss cs =
     \<lparr>Marshal_params = (\<lambda>v. Inr (wireParams v)),
      Unmarshal_params = decodeAmong wireParams ps,
      Marshal_stages = (\<lambda>v. Inr (wireStages v)),
      Unmarshal_stages = decodeAmong wireStages ss,
      Marshal_commits = (\<lambda>v. Inr (wireCommits v)),
      Unmarshal_commits = decodeAmong wireCommits cs,
      AuthorizedClient = (\<lambda>projectKey name. Inl (VCSError ''no client'')),
      LoadFromApplicationByID = (\<lambda>appID. ([], None)),
      LoadPipelineStage = (\<lambda>p. Inr (pip_Stages p)),
      ProcessPipelineBuildVariables = mergeVariables,
      map_range = (\<lambda>m. m),
      WrapError_nil = (\<lambda>msg. Some (WrapError None msg))\<rparr>"

definition exProject :: Project where
  "exProject = \<lparr>proj_ID = 1, proj_Key = ''P''\<rparr>"

definition exPipeline :: Pipeline where
  "exPipeline = \<lparr>pip_ID = 7, pip_Name = ''pip'', pip_Type = ''build'', pip_ProjectKey = ''P'',
     pip_ProjectID = 1, pip_Parameter = [],
     pip_Stages = [\<lparr>stage_Name = ''s1'', stage_Enabled = True, stage_Status = StatusUnknown,
                    stage_PipelineBuildJobs = []\<rparr>]\<rparr>"

definition exApplication :: Application where
  "exApplication = \<lparr>app_ID = 42, app_Name = ''app'', app_ProjectKey = ''P'',
     app_RepositoriesManager = None, app_RepositoryFullname = []\<rparr>"

definition exEnvironment :: Environment where
  "exEnvironment = \<lparr>env_ID = 3, env_Name = ''env'', env_ProjectKey = ''P'', env_ProjectID = 1\<rparr>"

definition exTrigger :: PipelineBuildTrigger where
  "exTrigger = \<lparr>trig_ManualTrigger = True, trig_ScheduledTrigger = False, trig_TriggeredBy = None,
     trig_ParentPipelineBuild = None, trig_VCSChangesBranch = [], trig_VCSChangesHash = [],
     trig_VCSChangesAuthor = []\<rparr>"

definition exStore :: store where
  "exStore = \<lparr>pipeline_build = [],
     tbl_application = [\<lparr>a_id = 42, a_name = ''app'', a_project_id = 1\<rparr>],
     tbl_pipeline = [\<lparr>p_id = 7, p_name = ''pip'', p_type = ''build''\<rparr>],
     tbl_environment = [\<lparr>e_id = 3, e_name = ''env''\<rparr>],
     tbl_project = [\<lparr>pr_id = 1, pr_projectkey = ''P''\<rparr>],
     tbl_user = [], pipeline_build_job = [], build_log = [], artifact = [],
     pipeline_test_result = [], next_id = 1, locked = [], faults = [], published = []\<rparr>"

definition exResult :: PipelineBuildDbResult where
  "exResult = \<lparr>res_ID = 1, res_ApplicationID = 42, res_PipelineID = 7, res_EnvironmentID = 3,
     res_ProjectID = 1, res_ApplicatioName = ''app'', res_PipelineName = ''pip'',
     res_PipelineType = ''build'', res_EnvironmentName = ''env'', res_ProjectKey = ''P'',
     res_BuildNumber = 1, res_Version = 1, res_Status = ''Success'', res_Args = ''[]'',
     res_Stages = ''[]'', res_Commits = [], res_Start = 100, res_Done = Some 200,
     res_ManualTrigger = True, res_TriggeredBy = None, res_VCSChangesBranch = Some ''main'',
     res_VCSChangesHash = Some ''a'', res_VCSChangesAuthor = None,
     res_ParentPipelineBuildID = None, res_Username = None, res_ScheduledTrigger = False\<rparr>"

text \<open>
  A store with three builds of pipeline 7, application 42 and environment 3: number 1 on
  branch \<open>main\<close>, number 2 on branch \<open>dev\<close>, number 3 on \<open>main\<close> again and still
  building; and build 3 as a loader returns it.
\<close>

definition exBranchParam :: "string \<Rightarrow> Parameter" where
  "exBranchParam b = \<lparr>Name = ''git.branch'', Type = ''string'', Value = b\<rparr>"

definition exRow :: "int64 \<Rightarrow> string \<Rightarrow> string \<Rightarrow> string \<Rightarrow> pipeline_build_row" where
  "exRow n status branch hash =
     \<lparr>c_id = n, c_pipeline_id = 7, c_build_number = n, c_version = n, c_status = status,
      c_args = wireParams [exBranchParam branch], c_start = 10, c_application_id = 42,
      c_environment_id = 3, c_done = Some 20, c_manual_trigger = True, c_triggered_by = None,
      c_parent_pipeline_build_id = None, c_vcs_changes_branch = Some branch,
      c_vcs_changes_hash = Some hash, c_vcs_changes_author = None, c_scheduled_trigger = False,
      c_stages = ''[]'', c_commits = ''[]''\<rparr>"

definition exHistory :: store where
  "exHistory = exStore\<lparr>pipeline_build :=
       [exRow 1 ''Success'' ''main'' ''a'', exRow 2 ''Success'' ''dev'' ''b'',
        exRow 3 ''Building'' ''main'' ''c''],
     next_id := 4\<rparr>"

definition exHistoryExt :: Ext where
  "exHistoryExt = exampleExt [[exBranchParam ''main''], [exBranchParam ''dev'']] [[]] [[]]"

definition exBuild3 :: PipelineBuild where
  "exBuild3 = \<lparr>pb_ID = 3, pb_BuildNumber = 3, pb_Version = 3,
     pb_Parameters = [exBranchParam ''main''], pb_Status = StatusBuilding, pb_Start = 10,
     pb_Done = 20, pb_Stages = [],
     pb_Pipeline = zeroPipeline\<lparr>pip_ID := 7, pip_Name := ''pip'', pip_Type := ''build'',
       pip_ProjectKey := ''P'', pip_ProjectID := 1\<rparr>,
     pb_Application = zeroApplication\<lparr>app_ID := 42, app_Name := ''app'', app_ProjectKey := ''P''\<rparr>,
     pb_Environment = zeroEnvironment\<lparr>env_ID := 3, env_Name := ''env'', env_ProjectKey := ''P'',
       env_ProjectID := 1\<rparr>,
     pb_Trigger = zeroTrigger\<lparr>trig_ManualTrigger := True, trig_VCSChangesBranch := ''main'',
       trig_VCSChangesHash := ''c''\<rparr>,
     pb_Commits = []\<rparr>"



text \<open>
  A version-control client that answers every call, and the environment that hands it
  out; the range of commits between two hashes is the one commit at the upper hash.
\<close>

definition exClient :: VCSClient where
  "exClient =
     \<lparr>RepoByFullname = (\<lambda>name. Inr \<lparr>repo_SSHCloneURL = ''ssh'', repo_HTTPCloneURL = ''http''\<rparr>),
      Branches = (\<lambda>name. ([\<lparr>branch_DisplayID = ''main'', branch_Default = True,
                               branch_LatestCommit = ''c''\<rparr>], None)),
      Branch = (\<lambda>name b. Inr (Some \<lparr>branch_DisplayID = b, branch_Default = True,
                                     branch_LatestCommit = ''c''\<rparr>)),
      Commit = (\<lambda>name h. Inr \<lparr>commit_Hash = h, commit_AuthorName = ''me'', commit_Message = ''m''\<rparr>),
      Commits = (\<lambda>name b since until.
                   Inr [\<lparr>commit_Hash = until, commit_AuthorName = ''me'', commit_Message = ''m''\<rparr>])\<rparr>"

definition exVCSExt :: Ext where
  "exVCSExt = exHistoryExt\<lparr>AuthorizedClient := (\<lambda>projectKey name. Inr exClient)\<rparr>"



text \<open>
  Application 42 bound to a repository, and two more stores: one whose builds 1 and 2 are
  on \<open>main\<close> at the same hash, one whose only build has no hash.
\<close>

definition exRepoApplication :: Application where
  "exRepoApplication = exApplication\<lparr>app_RepositoriesManager := Some ''github'',
     app_RepositoryFullname := ''o/r''\<rparr>"

definition exSameHashStore :: store where
  "exSameHashStore = exStore\<lparr>pipeline_build :=
       [exRow 1 ''Success'' ''main'' ''a'', exRow 2 ''Building'' ''main'' ''a''],
     next_id := 3\<rparr>"

definition exNoHashStore :: store where
  "exNoHashStore = exStore\<lparr>pipeline_build := [exRow 1 ''Building'' ''main'' []], next_id := 2\<rparr>"

definition exBuild :: "int64 \<Rightarrow> PipelineBuild" where
  "exBuild n = exBuild3\<lparr>pb_ID := n, pb_BuildNumber := n, pb_Version := n\<rparr>"

definition exCommitsRun :: "store \<Rightarrow> int64 \<Rightarrow> (error + VCSCommit list) \<times> store" where
  "exCommitsRun db n =
     UpdatePipelineBuildCommits exVCSExt db exProject exPipeline exRepoApplication exEnvironment
       (exBuild n)"

text \<open>A client that knows no branch.\<close>

definition exNoBranchExt :: Ext where
  "exNoBranchExt = exHistoryExt\<lparr>AuthorizedClient :=
     (\<lambda>projectKey name. Inr (exClient\<lparr>Branch := (\<lambda>name b. Inr None)\<rparr>))\<rparr>"

text \<open>
  A store whose only build, on branch \<open>main\<close>, has the parameters \<open>git.branch\<close> and
  \<open>git.hash\<close>; a trigger on \<open>main\<close> at hash \<open>b\<close>, the parameters of the build that
  it creates next on that store, and an environment that can decode both rows.
\<close>

definition exHashParam :: "string \<Rightarrow> Parameter" where
  "exHashParam h = \<lparr>Name = ''git.hash'', Type = ''string'', Value = h\<rparr>"

definition exPreviousStore :: store where
  "exPreviousStore = exStore\<lparr>pipeline_build :=
       [(exRow 1 ''Success'' ''main'' ''a'')
          \<lparr>c_args := wireParams [exBranchParam ''main'', exHashParam ''a'']\<rparr>],
     next_id := 2\<rparr>"

definition exSecondBuildParams :: "Parameter list" where
  "exSecondBuildParams =
     map (\<lambda>(n, v). \<lparr>Name = n, Type = ''string'', Value = v\<rparr>)
       [(''cds.pipeline'', ''pip''), (''cds.project'', ''P''), (''cds.application'', ''app''),
        (''cds.environment'', ''env''), (''cds.buildNumber'', ''2''), (''cds.version'', ''2''),
        (''git.branch'', ''main''), (''git.hash'', ''b'')]"

definition exMainTrigger :: PipelineBuildTrigger where
  "exMainTrigger = exTrigger\<lparr>trig_VCSChangesBranch := ''main'', trig_VCSChangesHash := ''b''\<rparr>"

definition exPreviousExt :: Ext where
  "exPreviousExt =
     exampleExt [[exBranchParam ''main'', exHashParam ''a''], exSecondBuildParams]
       [[], firstStageWaiting (pip_Stages exPipeline)] [[]]"

text \<open>
  A client that is bound and does not answer: it knows the repository, and its calls for
  the branches and the commits fail. And one whose call for the repository fails as well.
\<close>

definition exSilentClient :: VCSClient where
  "exSilentClient = exClient\<lparr>
     Branches := (\<lambda>name. ([], Some (VCSError ''timeout''))),
     Branch := (\<lambda>name b. Inl (VCSError ''timeout'')),
     Commit := (\<lambda>name h. Inl (VCSError ''timeout'')),
     Commits := (\<lambda>name b since until. Inl (VCSError ''timeout''))\<rparr>"

definition exSilentExt :: Ext where
  "exSilentExt = (exampleExt [] [] [])\<lparr>AuthorizedClient := (\<lambda>projectKey name. Inr exSilentClient)\<rparr>"

definition exDeadExt :: Ext where
  "exDeadExt = (exampleExt [] [] [])\<lparr>AuthorizedClient :=
     (\<lambda>projectKey name. Inr (exSilentClient\<lparr>RepoByFullname := (\<lambda>name. Inl (VCSError ''timeout''))\<rparr>))\<rparr>"

section \<open>Properties\<close>

subsection \<open>Loading a stored row\<close>

text \<open>
  C10. \<open>scanPipelineBuild\<close> returns an error when the args column does not decode, and
  when the stages column does not decode. A row whose args and stages decode and whose
  commits column is the empty string is accepted: the commits are not decoded at all, and
  the build comes back with no commits, with the decoded parameters and stages.
\<close>

theorem scanPipelineBuild_json_columns:
  "(Unmarshal_params X (res_Args r1) = Inl e1 \<longrightarrow> isl (scanPipelineBuild X r1))
   \<and> (Unmarshal_stages X (res_Stages r2) = Inl e2 \<longrightarrow> isl (scanPipelineBuild X r2))
   \<and> (Unmarshal_params X (res_Args r3) = Inr ps \<and> Unmarshal_stages X (res_Stages r3) = Inr ss
        \<and> res_Commits r3 = []
      \<longrightarrow> \<not> isl (scanPipelineBuild X r3) \<and> pb_Commits (projr (scanPipelineBuild X r3)) = []
          \<and> pb_Parameters (projr (scanPipelineBuild X r3)) = ps
          \<and> pb_Stages (projr (scanPipelineBuild X r3)) = ss)"
  by (auto simp: scanPipelineBuild_def Let_def zeroPipelineBuild_def split: sum.splits option.splits)

text \<open>
  The three cases at concrete rows; the decoder of the example rejects the empty string
  for the commits too, and the row is accepted all the same.
\<close>

theorem scanPipelineBuild_json_columns_witness:
  "Unmarshal_params (exampleExt [[]] [[]] [[]]) (res_Args (exResult\<lparr>res_Args := []\<rparr>)) = Inl (JSONError [])
   \<and> Unmarshal_stages (exampleExt [[]] [[]] [[]]) (res_Stages (exResult\<lparr>res_Stages := ''{''\<rparr>)) = Inl (JSONError ''{'')
   \<and> Unmarshal_params (exampleExt [[]] [[]] [[]]) (res_Args exResult) = Inr []
   \<and> Unmarshal_stages (exampleExt [[]] [[]] [[]]) (res_Stages exResult) = Inr []
   \<and> res_Commits exResult = []
   \<and> Unmarshal_commits (exampleExt [[]] [[]] [[]]) (res_Commits exResult) = Inl (JSONError [])
   \<and> isl (scanPipelineBuild (exampleExt [[]] [[]] [[]]) (exResult\<lparr>res_Args := []\<rparr>))
   \<and> isl (scanPipelineBuild (exampleExt [[]] [[]] [[]]) (exResult\<lparr>res_Stages := ''{''\<rparr>))
   \<and> \<not> isl (scanPipelineBuild (exampleExt [[]] [[]] [[]]) exResult)
   \<and> pb_Commits (projr (scanPipelineBuild (exampleExt [[]] [[]] [[]]) exResult)) = []"
proof -
  have a: "Unmarshal_params (exampleExt [[]] [[]] [[]]) (res_Args (exResult\<lparr>res_Args := []\<rparr>)) = Inl (JSONError [])"
    by (simp add: exampleExt_def decodeAmong_def wireParams_def)
  have b: "Unmarshal_stages (exampleExt [[]] [[]] [[]]) (res_Stages (exResult\<lparr>res_Stages := ''{''\<rparr>)) = Inl (JSONError ''{'')"
    by (simp add: exampleExt_def decodeAmong_def wireStages_def)
  have c: "Unmarshal_params (exampleExt [[]] [[]] [[]]) (res_Args exResult) = Inr []
     \<and> Unmarshal_stages (exampleExt [[]] [[]] [[]]) (res_Stages exResult) = Inr []
     \<and> res_Commits exResult = []"
    by (simp add: exampleExt_def decodeAmong_def wireStages_def wireParams_def exResult_def)
  have d: "Unmarshal_commits (exampleExt [[]] [[]] [[]]) (res_Commits exResult) = Inl (JSONError [])"
    by (simp add: exampleExt_def decodeAmong_def wireCommits_def exResult_def)
  from scanPipelineBuild_json_columns
         [of "exampleExt [[]] [[]] [[]]" "exResult\<lparr>res_Args := []\<rparr>" "JSONError []"
             "exResult\<lparr>res_Stages := ''{''\<rparr>" "JSONError ''{''" exResult "[]" "[]"]
       a b c d
  show ?thesis by simp
qed

subsection \<open>Helper facts about the store and the phases of InsertPipelineBuild\<close>


lemma driver_snd: "snd (driver db) = db\<lparr>faults := tl (faults db)\<rparr>"
  by (cases "faults db") (simp_all add: driver_def)

lemma driver_eq: "driver db = (r, db') \<Longrightarrow> db' = db\<lparr>faults := tl (faults db)\<rparr>"
  using driver_snd [of db] by simp

lemma sort_key_head:
  assumes "sort_key f xs = r # rs"
  shows "r \<in> set xs \<and> (\<forall>x\<in>set xs. f r \<le> f x)"
proof -
  have s: "set (sort_key f xs) = set xs" by simp
  have "sorted (map f (sort_key f xs))" by (rule sorted_sort_key)
  with assms have "\<forall>x\<in>set rs. f r \<le> f x" by simp
  moreover from s assms have "set xs = insert r (set rs)" by simp
  ultimately show ?thesis by auto
qed

lemma GetLastBuildNumber_result:
  assumes "GetLastBuildNumber db pipID appID envID = ((n, e), db')"
  shows "db' = db\<lparr>locked := locked db', faults := tl (faults db)\<rparr>"
    and "e \<noteq> Some ErrNoRows"
    and "e = None \<Longrightarrow> n = spec_highestBuildNumber db pipID appID envID"
    and "e = None \<Longrightarrow>
           (buildsOfTriple db pipID appID envID = [] \<and> locked db' = locked db)
           \<or> (\<exists>r\<in>set (buildsOfTriple db pipID appID envID).
                 c_build_number r = n \<and> locked db' = List.insert (c_id r) (locked db))"
proof -
  obtain f db1 where d: "driver db = (f, db1)" by (cases "driver db")
  then have db1: "db1 = db\<lparr>faults := tl (faults db)\<rparr>" by (rule driver_eq)
  let ?xs = "buildsOfTriple db pipID appID envID"
  have xs: "?xs = filter (\<lambda>r. c_pipeline_id r = pipID \<and> c_application_id r = appID
                             \<and> c_environment_id r = envID) (pipeline_build db1)"
    using db1 by (simp add: buildsOfTriple_def)
  from assms d show "db' = db\<lparr>locked := locked db', faults := tl (faults db)\<rparr>"
    using db1 by (cases f) (auto simp: GetLastBuildNumber_def split: list.splits)
  from assms d show "e \<noteq> Some ErrNoRows"
    by (cases f) (auto simp: GetLastBuildNumber_def split: list.splits)
  show "n = spec_highestBuildNumber db pipID appID envID" if "e = None"
  proof -
    from assms d that have fN: "f = None"
      by (cases f) (auto simp: GetLastBuildNumber_def)
    show ?thesis
    proof (cases "sort_key (\<lambda>r. - sint (c_build_number r)) ?xs")
      case Nil
      then have "?xs = []" by (metis length_sort list.size(3) length_0_conv)
      with assms d fN xs show ?thesis
        by (simp add: GetLastBuildNumber_def spec_highestBuildNumber_def)
    next
      case (Cons r rs)
      from sort_key_head [OF Cons]
      have rin: "r \<in> set ?xs" and le: "\<forall>x\<in>set ?xs. sint (c_build_number x) \<le> sint (c_build_number r)"
        by auto
      have "Max (sint ` c_build_number ` set ?xs) = sint (c_build_number r)"
        by (rule Max_eqI) (use rin le in auto)
      moreover from rin have "?xs \<noteq> []" by auto
      moreover from assms d fN xs Cons have "n = c_build_number r"
        by (simp add: GetLastBuildNumber_def)
      ultimately show ?thesis by (simp add: spec_highestBuildNumber_def)
    qed
  qed
  show "(?xs = [] \<and> locked db' = locked db)
        \<or> (\<exists>r\<in>set ?xs. c_build_number r = n \<and> locked db' = List.insert (c_id r) (locked db))"
    if "e = None"
  proof -
    from assms d that have fN: "f = None"
      by (cases f) (auto simp: GetLastBuildNumber_def)
    show ?thesis
    proof (cases "sort_key (\<lambda>r. - sint (c_build_number r)) ?xs")
      case Nil
      then have e: "?xs = []" by (metis length_sort list.size(3) length_0_conv)
      from assms d fN xs Nil db1 have "locked db' = locked db"
        by (auto simp: GetLastBuildNumber_def)
      with e show ?thesis by simp
    next
      case (Cons r rs)
      from sort_key_head [OF Cons] have rin: "r \<in> set ?xs" by simp
      from assms d fN xs Cons db1
      have "n = c_build_number r \<and> locked db' = List.insert (c_id r) (locked db)"
        by (auto simp: GetLastBuildNumber_def)
      with rin show ?thesis by blast
    qed
  qed
qed


lemma Load_snd:
  "snd (LoadPipelineBuildsByApplicationAndPipeline X db a p e l st b) = db\<lparr>faults := tl (faults db)\<rparr>"
proof -
  obtain f db1 where d: "driver db = (f, db1)" by (cases "driver db")
  then have "db1 = db\<lparr>faults := tl (faults db)\<rparr>" by (rule driver_eq)
  with d show ?thesis
    by (cases f) (simp_all add: LoadPipelineBuildsByApplicationAndPipeline_def Let_def)
qed

lemma InsertPipelineBuild_phases:
  assumes "InsertPipelineBuild X now tx project p app appArgs params env version trigger = (Inr pb, tx')"
  obtains buildNumber tx1 pb1 params1 pb2 argsFinal tx2 where
    "GetLastBuildNumber tx (pip_ID p) (app_ID app) (env_ID env) = ((buildNumber, None), tx1)"
    "pipeline_build tx1 = pipeline_build tx" "next_id tx1 = next_id tx"
    "published tx1 = published tx"
    "buildParameters (repositoryClient X project app) p app params env version trigger buildNumber
       = Inr (pb1, params1)"
    "storeBuild X now tx1 p app appArgs env None pb1 params1 = (Inr (pb2, argsFinal), tx2)"
    "notifyPrevious X tx2 pb2 argsFinal = (Inr pb, tx')"
proof -
  obtain buildNumber err tx1 where g:
    "GetLastBuildNumber tx (pip_ID p) (app_ID app) (env_ID env) = ((buildNumber, err), tx1)"
    by (metis surj_pair)
  from GetLastBuildNumber_result(1,2) [OF g]
  have tx1: "tx1 = tx\<lparr>locked := locked tx1, faults := tl (faults tx)\<rparr>"
    and nr: "err \<noteq> Some ErrNoRows" by auto
  have f: "pipeline_build tx1 = pipeline_build tx" "next_id tx1 = next_id tx"
    "published tx1 = published tx"
    by (subst tx1, simp)+
  from assms g nr have e: "err = None"
    by (cases err) (auto simp: InsertPipelineBuild_def Let_def split: if_splits)
  from assms g e f show ?thesis
    by (auto simp: InsertPipelineBuild_def Let_def intro: that split: sum.splits prod.splits)
qed

lemma insertPipelineBuild_success:
  assumes "insertPipelineBuild X now db args applicationID pipelineID pb envID stages commits = (None, db', pb')"
  shows "\<exists>row. pipeline_build db' = pipeline_build db @ [row]
           \<and> c_id row = next_id db \<and> pb' = pb\<lparr>pb_ID := next_id db\<rparr>
           \<and> c_pipeline_id row = pipelineID \<and> c_application_id row = applicationID
           \<and> c_environment_id row = envID \<and> c_build_number row = pb_BuildNumber pb
           \<and> c_version row = pb_Version pb \<and> c_status row = Status_String StatusBuilding
           \<and> c_done row = Some now \<and> c_start row = now \<and> c_args row = args \<and> c_stages row = stages
           \<and> published db' = published db \<and> locked db' = locked db"
proof -
  obtain f db1 where d: "driver db = (f, db1)" by (cases "driver db")
  then have "db1 = db\<lparr>faults := tl (faults db)\<rparr>" by (rule driver_eq)
  with assms d show ?thesis
    by (cases f) (auto simp: insertPipelineBuild_def Let_def split: sum.splits)
qed

lemma storeBuild_success:
  assumes "storeBuild X now tx p app appArgs env err pb params = (Inr (pb', argsFinal), tx')"
  shows "\<exists>row mapVar loaded.
           ProcessPipelineBuildVariables X (pip_Parameter p) appArgs params = Inr mapVar
           \<and> argsFinal = rangeValues X mapVar
           \<and> Marshal_params X argsFinal = Inr (c_args row)
           \<and> LoadPipelineStage X p = Inr loaded
           \<and> Marshal_stages X (firstStageWaiting loaded) = Inr (c_stages row)
           \<and> pipeline_build tx' = pipeline_build tx @ [row]
           \<and> c_id row = next_id tx
           \<and> c_pipeline_id row = pip_ID p \<and> c_application_id row = app_ID app
           \<and> c_environment_id row = env_ID env \<and> c_build_number row = pb_BuildNumber pb
           \<and> c_version row = pb_Version pb \<and> c_status row = Status_String StatusBuilding
           \<and> c_done row = Some now \<and> c_start row = now
           \<and> pb' = pb\<lparr>pb_ID := next_id tx, pb_Status := StatusBuilding,
                       pb_Pipeline := p\<lparr>pip_Stages := firstStageWaiting loaded\<rparr>,
                       pb_Parameters := params, pb_Application := app, pb_Environment := env\<rparr>
           \<and> published tx' = published tx \<and> locked tx' = locked tx"
  using assms
  by (auto simp: storeBuild_def Let_def split: sum.splits prod.splits option.splits
           dest!: insertPipelineBuild_success)

lemma notifyPrevious_success:
  assumes "notifyPrevious X tx pb argsFinal = (Inr pb', tx')"
  shows "pb' = pb
         \<and> (pipeline_build tx' = pipeline_build tx
            \<or> (\<exists>h json. h \<noteq> []
                  \<and> Marshal_params X (AddParameter argsFinal ''git.previousHash'' StringParameter h) = Inr json
                  \<and> pipeline_build tx' =
                      map (\<lambda>r. if c_id r = pb_ID pb then r\<lparr>c_args := json\<rparr> else r) (pipeline_build tx)))"
proof -
  let ?b = "case find (\<lambda>param. Name param = ''.git.branch'') (pb_Parameters pb) of
              Some param \<Rightarrow> Value param | None \<Rightarrow> []"
  let ?L = "LoadPipelineBuildsByApplicationAndPipeline X tx (app_ID (pb_Application pb))
              (pip_ID (pb_Pipeline pb)) (env_ID (pb_Environment pb)) 2 [] ?b"
  obtain history tx1 where l: "?L = (history, tx1)" by (cases ?L)
  from Load_snd [of X tx "app_ID (pb_Application pb)" "pip_ID (pb_Pipeline pb)"
                    "env_ID (pb_Environment pb)" 2 "[]" ?b] l
  have tx1: "tx1 = tx\<lparr>faults := tl (faults tx)\<rparr>" by simp
  show ?thesis
  proof (cases "previousOf (orNil history)")
    case None
    with assms l tx1 show ?thesis
      by (auto simp: notifyPrevious_def Let_def PublishPipelineBuild_def)
  next
    case (Some prev)
    obtain f tx2 where d: "driver tx1 = (f, tx2)" by (cases "driver tx1")
    then have tx2: "tx2 = tx1\<lparr>faults := tl (faults tx1)\<rparr>" by (rule driver_eq)
    from assms l Some d tx1 tx2 show ?thesis
      by (cases f)
         (auto simp: notifyPrevious_def Let_def PublishPipelineBuild_def
               split: sum.splits if_splits)
  qed
qed


lemma notifyPrevious_result:
  assumes "notifyPrevious X tx pb argsFinal = (Inr pb', tx')"
  shows "\<exists>previous. pb' = pb \<and> published tx' = published tx @ [(pb, previous)]
           \<and> locked tx' = locked tx
           \<and> (case previous of
                 None \<Rightarrow> pipeline_build tx' = pipeline_build tx
               | Some prev \<Rightarrow>
                   if ParameterValue (pb_Parameters prev) ''git.hash'' \<noteq> []
                   then (\<exists>json.
                           Marshal_params X (AddParameter argsFinal ''git.previousHash'' StringParameter
                              (ParameterValue (pb_Parameters prev) ''git.hash'')) = Inr json
                           \<and> pipeline_build tx' =
                               map (\<lambda>r. if c_id r = pb_ID pb then r\<lparr>c_args := json\<rparr> else r)
                                 (pipeline_build tx))
                   else pipeline_build tx' = pipeline_build tx)"
proof -
  let ?b = "case find (\<lambda>param. Name param = ''.git.branch'') (pb_Parameters pb) of
              Some param \<Rightarrow> Value param | None \<Rightarrow> []"
  let ?L = "LoadPipelineBuildsByApplicationAndPipeline X tx (app_ID (pb_Application pb))
              (pip_ID (pb_Pipeline pb)) (env_ID (pb_Environment pb)) 2 [] ?b"
  obtain history tx1 where l: "?L = (history, tx1)" by (cases ?L)
  from Load_snd [of X tx "app_ID (pb_Application pb)" "pip_ID (pb_Pipeline pb)"
                    "env_ID (pb_Environment pb)" 2 "[]" ?b] l
  have tx1: "tx1 = tx\<lparr>faults := tl (faults tx)\<rparr>" by simp
  show ?thesis
  proof (cases "previousOf (orNil history)")
    case None
    with assms l tx1 have "pb' = pb \<and> published tx' = published tx @ [(pb, None)]
        \<and> locked tx' = locked tx \<and> pipeline_build tx' = pipeline_build tx"
      by (auto simp: notifyPrevious_def Let_def PublishPipelineBuild_def)
    then show ?thesis by (intro exI [of _ None]) simp
  next
    case (Some prev)
    obtain f tx2 where d: "driver tx1 = (f, tx2)" by (cases "driver tx1")
    then have tx2: "tx2 = tx1\<lparr>faults := tl (faults tx1)\<rparr>" by (rule driver_eq)
    show ?thesis
    proof (cases "ParameterValue (pb_Parameters prev) ''git.hash'' \<noteq> []")
      case False
      with assms l Some tx1 have "pb' = pb \<and> published tx' = published tx @ [(pb, Some prev)]
          \<and> locked tx' = locked tx \<and> pipeline_build tx' = pipeline_build tx"
        by (auto simp: notifyPrevious_def Let_def PublishPipelineBuild_def)
      with False show ?thesis by (intro exI [of _ "Some prev"]) simp
    next
      case True
      with assms l Some d tx1 tx2 have "pb' = pb \<and> published tx' = published tx @ [(pb, Some prev)]
          \<and> locked tx' = locked tx
          \<and> (\<exists>json.
                Marshal_params X (AddParameter argsFinal ''git.previousHash'' StringParameter
                   (ParameterValue (pb_Parameters prev) ''git.hash'')) = Inr json
                \<and> pipeline_build tx' =
                    map (\<lambda>r. if c_id r = pb_ID pb then r\<lparr>c_args := json\<rparr> else r)
                      (pipeline_build tx))"
        by (cases f)
           (auto simp: notifyPrevious_def Let_def PublishPipelineBuild_def split: sum.splits)
      with True show ?thesis by (intro exI [of _ "Some prev"]) simp
    qed
  qed
qed


lemma buildParameters_success:
  assumes "buildParameters client p app params env version trigger buildNumber = Inr (pb, params')"
  shows "pb_BuildNumber pb = buildNumber + 1"
    and "pb_Version pb = resolveVersion version (buildNumber + 1) p app trigger"
  using assms
  by (auto simp: buildParameters_def Let_def split: sum.splits prod.splits)


lemma InsertPipelineBuild_args:
  assumes run: "InsertPipelineBuild X now tx project p app appArgs params env version trigger = (Inr pb, tx')"
  shows "\<exists>mapVar previous json.
           ProcessPipelineBuildVariables X (pip_Parameter p) appArgs (pb_Parameters pb) = Inr mapVar
           \<and> published tx' = published tx @ [(pb, previous)]
           \<and> Marshal_params X
                (case previous of
                   None \<Rightarrow> rangeValues X mapVar
                 | Some prev \<Rightarrow>
                     if ParameterValue (pb_Parameters prev) ''git.hash'' \<noteq> []
                     then AddParameter (rangeValues X mapVar) ''git.previousHash'' StringParameter
                            (ParameterValue (pb_Parameters prev) ''git.hash'')
                     else rangeValues X mapVar) = Inr json
           \<and> c_id (last (pipeline_build tx')) = pb_ID pb
           \<and> c_args (last (pipeline_build tx')) = json"
proof -
  from run obtain buildNumber tx1 pb1 params1 pb2 argsFinal tx2 where
    t1: "published tx1 = published tx" and
    s: "storeBuild X now tx1 p app appArgs env None pb1 params1 = (Inr (pb2, argsFinal), tx2)" and
    n: "notifyPrevious X tx2 pb2 argsFinal = (Inr pb, tx')"
    by (rule InsertPipelineBuild_phases)
  from storeBuild_success [OF s] obtain row mapVar where
    pv: "ProcessPipelineBuildVariables X (pip_Parameter p) appArgs params1 = Inr mapVar" and
    af: "argsFinal = rangeValues X mapVar" and
    ma: "Marshal_params X argsFinal = Inr (c_args row)" and
    rows: "pipeline_build tx2 = pipeline_build tx1 @ [row]" and
    rid: "c_id row = pb_ID pb2" and
    pp: "pb_Parameters pb2 = params1" and
    pu: "published tx2 = published tx1"
    by auto
  from notifyPrevious_result [OF n] obtain previous where
    pbeq: "pb = pb2" and
    ev: "published tx' = published tx2 @ [(pb2, previous)]" and
    cs: "case previous of
                 None \<Rightarrow> pipeline_build tx' = pipeline_build tx2
               | Some prev \<Rightarrow>
                   if ParameterValue (pb_Parameters prev) ''git.hash'' \<noteq> []
                   then (\<exists>json.
                           Marshal_params X (AddParameter argsFinal ''git.previousHash'' StringParameter
                              (ParameterValue (pb_Parameters prev) ''git.hash'')) = Inr json
                           \<and> pipeline_build tx' =
                               map (\<lambda>r. if c_id r = pb_ID pb2 then r\<lparr>c_args := json\<rparr> else r)
                                 (pipeline_build tx2))
                   else pipeline_build tx' = pipeline_build tx2"
    by blast
  let ?stored = "case previous of
                   None \<Rightarrow> rangeValues X mapVar
                 | Some prev \<Rightarrow>
                     if ParameterValue (pb_Parameters prev) ''git.hash'' \<noteq> []
                     then AddParameter (rangeValues X mapVar) ''git.previousHash'' StringParameter
                            (ParameterValue (pb_Parameters prev) ''git.hash'')
                     else rangeValues X mapVar"
  have st: "Marshal_params X ?stored = Inr (c_args (last (pipeline_build tx')))
            \<and> c_id (last (pipeline_build tx')) = pb_ID pb"
  proof (cases previous)
    case None
    with cs rows ma af rid pbeq show ?thesis by simp
  next
    case (Some prev)
    show ?thesis
    proof (cases "ParameterValue (pb_Parameters prev) ''git.hash'' \<noteq> []")
      case False
      with Some cs rows ma af rid pbeq show ?thesis by simp
    next
      case True
      with Some cs obtain json where
        "Marshal_params X (AddParameter argsFinal ''git.previousHash'' StringParameter
                              (ParameterValue (pb_Parameters prev) ''git.hash'')) = Inr json"
        "pipeline_build tx' = map (\<lambda>r. if c_id r = pb_ID pb2 then r\<lparr>c_args := json\<rparr> else r)
                                 (pipeline_build tx2)"
        by auto
      with Some True rows af rid pbeq show ?thesis by simp
    qed
  qed
  from ev pu t1 pbeq have ev': "published tx' = published tx @ [(pb, previous)]" by simp
  from pv pp pbeq have pv': "ProcessPipelineBuildVariables X (pip_Parameter p) appArgs (pb_Parameters pb)
      = Inr mapVar" by simp
  from pv' ev' st show ?thesis by blast
qed


lemma mset_rangeValues:
  "validRange X \<Longrightarrow> mset (rangeValues X m) = mset (map snd m)"
proof -
  assume "validRange X"
  then have "mset (map_range X m) = mset m" by (simp add: validRange_def)
  then have "image_mset snd (mset (map_range X m)) = image_mset snd (mset m)" by simp
  then show ?thesis by (simp add: rangeValues_def)
qed


lemma run_collapse: "\<not> isl (fst R) \<Longrightarrow> R = (Inr (projr (fst R)), snd R)"
  by (cases R; cases "fst R") auto

lemmas ex_defs = exampleExt_def exStore_def exProject_def exPipeline_def exApplication_def
  exEnvironment_def exTrigger_def

lemmas insert_defs = InsertPipelineBuild_def repositoryClient_def GetLastBuildNumber_def driver_def
  buildParameters_def Let_def zeroPipelineBuild_def resolveVersion_def canonicalParams_def
  AddParameter_def repoParams_def triggeredByParams_def gitBranchAndHash_def paramsLoop_def
  commitParams_def storeBuild_def mergeVariables_def rangeValues_def insertPipelineBuild_def
  notifyPrevious_def LoadPipelineBuildsByApplicationAndPipeline_def selectPipelineBuild_def
  List.map_filter_def scanPipelineBuild_def previousOf_def orNil_def PublishPipelineBuild_def
  firstStageWaiting_def wireParams_def wireStages_def wireCommits_def decodeAmong_def
  FormatInt_def StringParameter_def BuildPipeline_def

lemmas history_defs = exHistory_def exHistoryExt_def exBuild3_def exRow_def exBranchParam_def
  exampleExt_def exStore_def zeroPipeline_def zeroApplication_def zeroEnvironment_def
  zeroTrigger_def zeroPipelineBuild_def zeroTime_def

lemmas load_defs = LoadPipelineBuildsByApplicationAndPipeline_def
  LoadPipelineBuildByApplicationAndBranch_def selectPipelineBuild_def
  List.map_filter_def scanPipelineBuild_def previousOf_def orNil_def PublishPipelineBuild_def
  wireParams_def wireStages_def wireCommits_def decodeAmong_def driver_def Let_def
  StatusFromString_def word_sless_alt word_sle_eq

subsection \<open>Build numbers\<close>

text \<open>
  C1. A call of \<open>InsertPipelineBuild\<close> that creates a build gives it the highest build
  number stored for the pipeline, application and environment plus one (in \<open>int64\<close>
  arithmetic), the highest number of a triple without builds being 0, so that the first
  build gets number 1. The row with that number is inserted by the executor that read the
  maximum, in the transaction of the read: the keys of its table afterwards are the keys
  before, followed by the key of the new build, and when the function returns the
  transaction still holds the lock that the read took on a row with the highest number,
  so that it was neither committed nor rolled back in between. For a triple without
  builds there is no such row, and the read locks nothing.
\<close>

theorem InsertPipelineBuild_next_build_number:
  assumes "InsertPipelineBuild X now tx project p app appArgs params env version trigger = (Inr pb, tx')"
  shows "pb_BuildNumber pb = spec_highestBuildNumber tx (pip_ID p) (app_ID app) (env_ID env) + 1
         \<and> (buildsOfTriple tx (pip_ID p) (app_ID app) (env_ID env) = [] \<longrightarrow> pb_BuildNumber pb = 1)
         \<and> map buildKey (pipeline_build tx')
             = map buildKey (pipeline_build tx) @ [(pip_ID p, app_ID app, env_ID env, pb_BuildNumber pb)]
         \<and> ((buildsOfTriple tx (pip_ID p) (app_ID app) (env_ID env) = [] \<and> locked tx' = locked tx)
            \<or> (\<exists>r\<in>set (buildsOfTriple tx (pip_ID p) (app_ID app) (env_ID env)).
                  c_build_number r = spec_highestBuildNumber tx (pip_ID p) (app_ID app) (env_ID env)
                  \<and> locked tx' = List.insert (c_id r) (locked tx)))"
proof -
  from assms obtain buildNumber tx1 pb1 params1 pb2 argsFinal tx2 where
    g: "GetLastBuildNumber tx (pip_ID p) (app_ID app) (env_ID env) = ((buildNumber, None), tx1)" and
    t1: "pipeline_build tx1 = pipeline_build tx" and
    b: "buildParameters (repositoryClient X project app) p app params env version trigger buildNumber
         = Inr (pb1, params1)" and
    s: "storeBuild X now tx1 p app appArgs env None pb1 params1 = (Inr (pb2, argsFinal), tx2)" and
    n: "notifyPrevious X tx2 pb2 argsFinal = (Inr pb, tx')"
    by (rule InsertPipelineBuild_phases)
  from GetLastBuildNumber_result(3) [OF g]
  have bn: "buildNumber = spec_highestBuildNumber tx (pip_ID p) (app_ID app) (env_ID env)" by simp
  from GetLastBuildNumber_result(4) [OF g]
  have lk: "(buildsOfTriple tx (pip_ID p) (app_ID app) (env_ID env) = [] \<and> locked tx1 = locked tx)
           \<or> (\<exists>r\<in>set (buildsOfTriple tx (pip_ID p) (app_ID app) (env_ID env)).
                 c_build_number r = buildNumber \<and> locked tx1 = List.insert (c_id r) (locked tx))"
    by simp
  from buildParameters_success(1) [OF b] have b1: "pb_BuildNumber pb1 = buildNumber + 1" .
  from storeBuild_success [OF s] t1 obtain row where
    rows: "pipeline_build tx2 = pipeline_build tx @ [row]" and
    key: "buildKey row = (pip_ID p, app_ID app, env_ID env, pb_BuildNumber pb1)" and
    pb2: "pb_BuildNumber pb2 = pb_BuildNumber pb1" and
    l2: "locked tx2 = locked tx1"
    by (auto simp: buildKey_def)
  from notifyPrevious_result [OF n] have pbeq: "pb = pb2" and l3: "locked tx' = locked tx2"
    by auto
  from notifyPrevious_success [OF n]
  have keys: "map buildKey (pipeline_build tx') = map buildKey (pipeline_build tx2)"
    by (auto simp: buildKey_def o_def)
  have num: "pb_BuildNumber pb = spec_highestBuildNumber tx (pip_ID p) (app_ID app) (env_ID env) + 1"
    using pbeq pb2 b1 bn by simp
  moreover have "buildsOfTriple tx (pip_ID p) (app_ID app) (env_ID env) = [] \<longrightarrow> pb_BuildNumber pb = 1"
    using num by (simp add: spec_highestBuildNumber_def)
  moreover have "map buildKey (pipeline_build tx')
      = map buildKey (pipeline_build tx) @ [(pip_ID p, app_ID app, env_ID env, pb_BuildNumber pb)]"
    using keys rows key pbeq pb2 by simp
  moreover have "(buildsOfTriple tx (pip_ID p) (app_ID app) (env_ID env) = [] \<and> locked tx' = locked tx)
            \<or> (\<exists>r\<in>set (buildsOfTriple tx (pip_ID p) (app_ID app) (env_ID env)).
                  c_build_number r = spec_highestBuildNumber tx (pip_ID p) (app_ID app) (env_ID env)
                  \<and> locked tx' = List.insert (c_id r) (locked tx))"
    using lk l2 l3 bn by simp
  ultimately show ?thesis by blast
qed


text \<open>
  The first build of a triple gets number 1. On the store with the builds 1, 2 and 3 of
  the triple the new build gets number 4, and the transaction holds the lock on the row
  of build 3.
\<close>

theorem InsertPipelineBuild_next_build_number_witness:
  "\<not> isl (fst (InsertPipelineBuild (exampleExt [] [] []) 100 exStore exProject exPipeline
             exApplication [] [] exEnvironment 0 exTrigger))
   \<and> buildsOfTriple exStore (pip_ID exPipeline) (app_ID exApplication) (env_ID exEnvironment) = []
   \<and> pb_BuildNumber (projr (fst (InsertPipelineBuild (exampleExt [] [] []) 100 exStore exProject
        exPipeline exApplication [] [] exEnvironment 0 exTrigger))) = 1
   \<and> map buildKey (pipeline_build (snd (InsertPipelineBuild (exampleExt [] [] []) 100 exStore
        exProject exPipeline exApplication [] [] exEnvironment 0 exTrigger))) = [(7, 42, 3, 1)]
   \<and> locked (snd (InsertPipelineBuild (exampleExt [] [] []) 100 exStore
        exProject exPipeline exApplication [] [] exEnvironment 0 exTrigger)) = []
   \<and> \<not> isl (fst (InsertPipelineBuild exHistoryExt 100 exHistory exProject exPipeline
             exApplication [] [] exEnvironment 0 exTrigger))
   \<and> map (\<lambda>r. (c_id r, c_build_number r))
        (buildsOfTriple exHistory (pip_ID exPipeline) (app_ID exApplication) (env_ID exEnvironment))
       = [(1, 1), (2, 2), (3, 3)]
   \<and> spec_highestBuildNumber exHistory (pip_ID exPipeline) (app_ID exApplication)
        (env_ID exEnvironment) = 3
   \<and> pb_BuildNumber (projr (fst (InsertPipelineBuild exHistoryExt 100 exHistory exProject
        exPipeline exApplication [] [] exEnvironment 0 exTrigger))) = 4
   \<and> map buildKey (pipeline_build (snd (InsertPipelineBuild exHistoryExt 100 exHistory
        exProject exPipeline exApplication [] [] exEnvironment 0 exTrigger)))
       = [(7, 42, 3, 1), (7, 42, 3, 2), (7, 42, 3, 3), (7, 42, 3, 4)]
   \<and> locked exHistory = []
   \<and> locked (snd (InsertPipelineBuild exHistoryExt 100 exHistory
        exProject exPipeline exApplication [] [] exEnvironment 0 exTrigger)) = [3]"
proof -
  let ?R = "InsertPipelineBuild (exampleExt [] [] []) 100 exStore exProject exPipeline
              exApplication [] [] exEnvironment 0 exTrigger"
  let ?H = "InsertPipelineBuild exHistoryExt 100 exHistory exProject exPipeline
              exApplication [] [] exEnvironment 0 exTrigger"
  have ids: "pip_ID exPipeline = 7" "app_ID exApplication = 42" "env_ID exEnvironment = 3"
    by (simp_all add: exPipeline_def exApplication_def exEnvironment_def)
  \<comment> \<open>the first build of a triple\<close>
  have ok: "\<not> isl (fst ?R)"
    by (simp add: ex_defs insert_defs)
  have e: "buildsOfTriple exStore (pip_ID exPipeline) (app_ID exApplication) (env_ID exEnvironment) = []"
    by (simp add: buildsOfTriple_def exStore_def)
  have k: "map buildKey (pipeline_build exStore) = []" "locked exStore = []"
    by (simp_all add: exStore_def)
  note T = InsertPipelineBuild_next_build_number [OF run_collapse [OF ok]]
  from T e have one: "pb_BuildNumber (projr (fst ?R)) = 1" by blast
  from T have "map buildKey (pipeline_build (snd ?R))
      = map buildKey (pipeline_build exStore)
        @ [(pip_ID exPipeline, app_ID exApplication, env_ID exEnvironment, pb_BuildNumber (projr (fst ?R)))]"
    by blast
  with one k ids have keys: "map buildKey (pipeline_build (snd ?R)) = [(7, 42, 3, 1)]"
    by simp
  from T e k(2) have lk: "locked (snd ?R) = []" by auto
  \<comment> \<open>a triple that has builds\<close>
  have okH: "\<not> isl (fst ?H)"
    by (simp add: ex_defs insert_defs history_defs)
  have bs: "map (\<lambda>r. (c_id r, c_build_number r))
        (buildsOfTriple exHistory (pip_ID exPipeline) (app_ID exApplication) (env_ID exEnvironment))
       = [(1, 1), (2, 2), (3, 3)]"
    by (simp add: buildsOfTriple_def ids history_defs)
  have hi: "spec_highestBuildNumber exHistory (pip_ID exPipeline) (app_ID exApplication)
        (env_ID exEnvironment) = 3"
    by (simp add: spec_highestBuildNumber_def buildsOfTriple_def ids history_defs)
  have kH: "map buildKey (pipeline_build exHistory) = [(7, 42, 3, 1), (7, 42, 3, 2), (7, 42, 3, 3)]"
    "locked exHistory = []"
    by (simp_all add: buildKey_def history_defs)
  note TH = InsertPipelineBuild_next_build_number [OF run_collapse [OF okH]]
  from TH hi have four: "pb_BuildNumber (projr (fst ?H)) = 4" by simp
  from TH have "map buildKey (pipeline_build (snd ?H))
      = map buildKey (pipeline_build exHistory)
        @ [(pip_ID exPipeline, app_ID exApplication, env_ID exEnvironment, pb_BuildNumber (projr (fst ?H)))]"
    by blast
  with four kH ids have keysH: "map buildKey (pipeline_build (snd ?H))
       = [(7, 42, 3, 1), (7, 42, 3, 2), (7, 42, 3, 3), (7, 42, 3, 4)]"
    by simp
  from bs have ne: "buildsOfTriple exHistory (pip_ID exPipeline) (app_ID exApplication)
      (env_ID exEnvironment) \<noteq> []" by auto
  from TH ne obtain r where
    r: "r \<in> set (buildsOfTriple exHistory (pip_ID exPipeline) (app_ID exApplication) (env_ID exEnvironment))"
       "c_build_number r = 3" "locked (snd ?H) = List.insert (c_id r) (locked exHistory)"
    unfolding hi by blast
  from r(1) have "(c_id r, c_build_number r) \<in> set (map (\<lambda>r. (c_id r, c_build_number r))
      (buildsOfTriple exHistory (pip_ID exPipeline) (app_ID exApplication) (env_ID exEnvironment)))"
    by (simp only: set_map) (rule imageI)
  with r(2) have "c_id r = 3" unfolding bs by simp
  with r(3) kH(2) have lkH: "locked (snd ?H) = [3]" by simp
  from ok e one keys lk okH bs hi four keysH kH(2) lkH show ?thesis by (intro conjI)
qed

subsection \<open>Versions\<close>


lemma last_rows_after_notify:
  assumes n: "notifyPrevious X tx pb argsFinal = (Inr pb', tx')" and ne: "pipeline_build tx \<noteq> []"
  shows "c_version (last (pipeline_build tx')) = c_version (last (pipeline_build tx))"
    and "c_build_number (last (pipeline_build tx')) = c_build_number (last (pipeline_build tx))"
    and "c_status (last (pipeline_build tx')) = c_status (last (pipeline_build tx))"
    and "c_done (last (pipeline_build tx')) = c_done (last (pipeline_build tx))"
  using notifyPrevious_success [OF n] ne by (auto simp: last_map)


text \<open>
  C2, as stated, fails. A child whose parent is in the same application, on a pipeline of
  type \<open>build\<close>, created with version 5 as the first build of its triple: the claim
  gives it its build number as version, and the code stores the supplied version 5 with
  build number 1.
\<close>

theorem InsertPipelineBuild_version_counterexample:
  "\<not> isl (fst (InsertPipelineBuild (exampleExt [] [] []) 100 exStore exProject exPipeline
             exApplication [] [] exEnvironment 5
             (exTrigger\<lparr>trig_ParentPipelineBuild := Some \<lparr>parent_ID = 9, parent_ApplicationID = 42\<rparr>\<rparr>)))
   \<and> app_ID exApplication = 42 \<and> pip_Type exPipeline = ''build''
   \<and> pb_BuildNumber (projr (fst (InsertPipelineBuild (exampleExt [] [] []) 100 exStore exProject
        exPipeline exApplication [] [] exEnvironment 5
        (exTrigger\<lparr>trig_ParentPipelineBuild := Some \<lparr>parent_ID = 9, parent_ApplicationID = 42\<rparr>\<rparr>)))) = 1
   \<and> pb_Version (projr (fst (InsertPipelineBuild (exampleExt [] [] []) 100 exStore exProject
        exPipeline exApplication [] [] exEnvironment 5
        (exTrigger\<lparr>trig_ParentPipelineBuild := Some \<lparr>parent_ID = 9, parent_ApplicationID = 42\<rparr>\<rparr>)))) = 5
   \<and> map c_version (pipeline_build (snd (InsertPipelineBuild (exampleExt [] [] []) 100 exStore
        exProject exPipeline exApplication [] [] exEnvironment 5
        (exTrigger\<lparr>trig_ParentPipelineBuild := Some \<lparr>parent_ID = 9, parent_ApplicationID = 42\<rparr>\<rparr>)))) = [5]"
  by (simp add: ex_defs insert_defs word_sle_eq)


text \<open>
  C2, amended. A build created with a positive supplied version has its build number as
  version when it has no parent, and when its parent belongs to another application and
  the pipeline is of type \<open>build\<close>; in every other case, that is with a parent in the
  same application or with a pipeline of another type, it keeps the supplied version. The
  inserted row carries that version and the build number.
\<close>

theorem InsertPipelineBuild_version:
  assumes run: "InsertPipelineBuild X now tx project p app appArgs params env version trigger = (Inr pb, tx')"
    and pos: "0 <s version"
  shows "pb_Version pb =
           (case trig_ParentPipelineBuild trigger of
              None \<Rightarrow> pb_BuildNumber pb
            | Some parent \<Rightarrow>
                if app_ID app \<noteq> parent_ApplicationID parent \<and> pip_Type p = BuildPipeline
                then pb_BuildNumber pb else version)
         \<and> c_version (last (pipeline_build tx')) = pb_Version pb
         \<and> c_build_number (last (pipeline_build tx')) = pb_BuildNumber pb"
proof -
  from run obtain buildNumber tx1 pb1 params1 pb2 argsFinal tx2 where
    t1: "pipeline_build tx1 = pipeline_build tx" and
    b: "buildParameters (repositoryClient X project app) p app params env version trigger buildNumber
         = Inr (pb1, params1)" and
    s: "storeBuild X now tx1 p app appArgs env None pb1 params1 = (Inr (pb2, argsFinal), tx2)" and
    n: "notifyPrevious X tx2 pb2 argsFinal = (Inr pb, tx')"
    by (rule InsertPipelineBuild_phases)
  from pos have np: "\<not> version \<le>s 0"
    by (simp add: word_sle_eq word_sless_alt)
  from buildParameters_success [OF b] np
  have v1: "pb_Version pb1 =
           (case trig_ParentPipelineBuild trigger of
              None \<Rightarrow> pb_BuildNumber pb1
            | Some parent \<Rightarrow>
                if app_ID app \<noteq> parent_ApplicationID parent \<and> pip_Type p = BuildPipeline
                then pb_BuildNumber pb1 else version)"
    by (simp add: resolveVersion_def split: option.splits)
  from storeBuild_success [OF s] t1 obtain row where
    rows: "pipeline_build tx2 = pipeline_build tx @ [row]" and
    rv: "c_version row = pb_Version pb1" "c_build_number row = pb_BuildNumber pb1" and
    pb2: "pb_Version pb2 = pb_Version pb1" "pb_BuildNumber pb2 = pb_BuildNumber pb1"
    by auto
  from rows have ne: "pipeline_build tx2 \<noteq> []" by simp
  from notifyPrevious_success [OF n] have pbeq: "pb = pb2" by simp
  from last_rows_after_notify(1,2) [OF n ne] rows rv
  have "c_version (last (pipeline_build tx')) = pb_Version pb1"
       "c_build_number (last (pipeline_build tx')) = pb_BuildNumber pb1"
    by simp_all
  moreover from pbeq pb2 have "pb_Version pb = pb_Version pb1" "pb_BuildNumber pb = pb_BuildNumber pb1"
    by simp_all
  ultimately show ?thesis using v1 by (simp split: option.splits)
qed


text \<open>A child of a build of another application on a deployment pipeline keeps version 5.\<close>

theorem InsertPipelineBuild_version_witness:
  "\<not> isl (fst (InsertPipelineBuild (exampleExt [] [] []) 100 exStore exProject
             (exPipeline\<lparr>pip_Type := ''deployment''\<rparr>) exApplication [] [] exEnvironment 5
             (exTrigger\<lparr>trig_ParentPipelineBuild := Some \<lparr>parent_ID = 9, parent_ApplicationID = 43\<rparr>\<rparr>)))
   \<and> (0::int64) <s 5
   \<and> pb_Version (projr (fst (InsertPipelineBuild (exampleExt [] [] []) 100 exStore exProject
        (exPipeline\<lparr>pip_Type := ''deployment''\<rparr>) exApplication [] [] exEnvironment 5
        (exTrigger\<lparr>trig_ParentPipelineBuild := Some \<lparr>parent_ID = 9, parent_ApplicationID = 43\<rparr>\<rparr>)))) = 5
   \<and> c_version (last (pipeline_build (snd (InsertPipelineBuild (exampleExt [] [] []) 100 exStore
        exProject (exPipeline\<lparr>pip_Type := ''deployment''\<rparr>) exApplication [] [] exEnvironment 5
        (exTrigger\<lparr>trig_ParentPipelineBuild := Some \<lparr>parent_ID = 9, parent_ApplicationID = 43\<rparr>\<rparr>))))) = 5"
proof -
  let ?t = "exTrigger\<lparr>trig_ParentPipelineBuild := Some \<lparr>parent_ID = 9, parent_ApplicationID = 43\<rparr>\<rparr>"
  let ?p = "exPipeline\<lparr>pip_Type := ''deployment''\<rparr>"
  let ?R = "InsertPipelineBuild (exampleExt [] [] []) 100 exStore exProject ?p
              exApplication [] [] exEnvironment 5 ?t"
  have ok: "\<not> isl (fst ?R)"
    by (simp add: ex_defs insert_defs word_sle_eq)
  have pos: "(0::int64) <s 5" by (simp add: word_sless_alt)
  have par: "trig_ParentPipelineBuild ?t = Some \<lparr>parent_ID = 9, parent_ApplicationID = 43\<rparr>"
    by simp
  have ty: "pip_Type ?p \<noteq> BuildPipeline" by (simp add: BuildPipeline_def)
  note T = InsertPipelineBuild_version [OF run_collapse [OF ok] pos]
  from T par ty have v: "pb_Version (projr (fst ?R)) = 5" by simp
  from T v have "c_version (last (pipeline_build (snd ?R))) = 5" by simp
  with ok pos v show ?thesis by simp
qed


subsection \<open>The done timestamp\<close>

text \<open>
  C3. The claim wants a freshly inserted build, whose status is Building, to have no done
  timestamp. The row that \<open>InsertPipelineBuild\<close> inserts at instant 100 has status
  Building, which is not terminal, and the done column set to that instant.
\<close>

theorem insert_done_is_set:
  "c_status (last (pipeline_build (snd (InsertPipelineBuild (exampleExt [] [] []) 100 exStore
      exProject exPipeline exApplication [] [] exEnvironment 0 exTrigger)))) = Status_String StatusBuilding
   \<and> c_done (last (pipeline_build (snd (InsertPipelineBuild (exampleExt [] [] []) 100 exStore
      exProject exPipeline exApplication [] [] exEnvironment 0 exTrigger)))) = Some 100
   \<and> pb_Status (projr (fst (InsertPipelineBuild (exampleExt [] [] []) 100 exStore
      exProject exPipeline exApplication [] [] exEnvironment 0 exTrigger))) = StatusBuilding
   \<and> \<not> terminal StatusBuilding"
  by (simp add: ex_defs insert_defs terminal_def)

subsection \<open>The parameters of a created build\<close>


lemma set_AddParameter [simp]:
  "set (AddParameter ps n t v) = insert \<lparr>Name = n, Type = t, Value = v\<rparr> (set ps)"
  by (simp add: AddParameter_def)

lemma names_AddParameter:
  "Name ` set (AddParameter ps n t v) = insert n (Name ` set ps)"
  by simp

lemma paramsLoop_found_aux:
  "foldl (\<lambda>(found, hashFound, t) p.
              (let (found, t) = (if Name p = ''git.branch'' \<and> Value p \<noteq> []
                                 then (True, t\<lparr>trig_VCSChangesBranch := Value p\<rparr>) else (found, t));
                   (hashFound, t) = (if Name p = ''git.hash'' \<and> Value p \<noteq> []
                                     then (True, t\<lparr>trig_VCSChangesHash := Value p\<rparr>) else (hashFound, t))
               in (found, hashFound, t)))
       (f0, h0, t0) ps = (found, hashFound, t)
   \<Longrightarrow> found \<Longrightarrow> f0 \<or> ''git.branch'' \<in> Name ` set ps"
proof (induction ps arbitrary: f0 h0 t0)
  case Nil
  then show ?case by simp
next
  case (Cons p ps)
  then show ?case
    by (fastforce simp: Let_def split: if_splits)
qed

lemma paramsLoop_found:
  "paramsLoop ps t0 = (True, hashFound, t) \<Longrightarrow> ''git.branch'' \<in> Name ` set ps"
  unfolding paramsLoop_def using paramsLoop_found_aux [of False False t0 ps True hashFound t]
  by simp

lemma gitBranchAndHash_names:
  assumes "gitBranchAndHash client app ps trigger = (ps', trigger')"
  shows "set ps \<subseteq> set ps'"
    and "''git.branch'' \<in> Name ` set ps'"
    and "trig_VCSChangesBranch trigger \<noteq> [] \<Longrightarrow> ''git.hash'' \<in> Name ` set ps'"
proof -
  obtain found hashFound t where pl: "paramsLoop ps trigger = (found, hashFound, t)"
    by (metis surj_pair)
  obtain d l where dl: "(case client of
                  None \<Rightarrow> (''master'', \<lambda>k. [])
                | Some c \<Rightarrow> branchesLoop (fst (Branches c (app_RepositoryFullname app)))) = (d, l)"
    by (metis surj_pair)
  from assms pl dl show "set ps \<subseteq> set ps'"
    by (auto simp: gitBranchAndHash_def Let_def split: if_splits)
  from assms pl dl paramsLoop_found [of ps trigger hashFound t]
  show "''git.branch'' \<in> Name ` set ps'"
    by (cases found) (auto simp: gitBranchAndHash_def Let_def split: if_splits)
  from assms show "''git.hash'' \<in> Name ` set ps'" if "trig_VCSChangesBranch trigger \<noteq> []"
    using that by (auto simp: gitBranchAndHash_def)
qed

lemma commitParams_names:
  "commitParams client app ps trigger = (ps', trigger') \<Longrightarrow> set ps \<subseteq> set ps'"
  by (auto simp: commitParams_def split: option.splits if_splits sum.splits)

lemma repoParams_names:
  "repoParams client app ps = Inr ps' \<Longrightarrow> set ps \<subseteq> set ps'"
  by (auto simp: repoParams_def split: option.splits sum.splits)

lemma triggeredByParams_names:
  "set ps \<subseteq> set (triggeredByParams trigger ps)"
  by (auto simp: triggeredByParams_def Let_def split: option.splits)

lemma canonicalParams_names:
  "set ps \<subseteq> set (canonicalParams ps p app env pb)"
  "{''cds.pipeline'', ''cds.project'', ''cds.application'', ''cds.environment'',
    ''cds.buildNumber'', ''cds.version''} \<subseteq> Name ` set (canonicalParams ps p app env pb)"
  by (simp_all add: canonicalParams_def Let_def subset_insertI2)

lemma buildParameters_names:
  assumes "buildParameters client p app params env version trigger buildNumber = Inr (pb, params')"
  shows "set params \<subseteq> set params'"
    and "{''cds.pipeline'', ''cds.project'', ''cds.application'', ''cds.environment'',
          ''cds.buildNumber'', ''cds.version'', ''git.branch''} \<subseteq> Name ` set params'"
    and "trig_VCSChangesBranch trigger \<noteq> [] \<Longrightarrow> ''git.hash'' \<in> Name ` set params'"
proof -
  let ?pb = "zeroPipelineBuild\<lparr>pb_BuildNumber := buildNumber + 1, pb_Trigger := trigger,
               pb_Version := resolveVersion version (buildNumber + 1) p app trigger\<rparr>"
  let ?c = "canonicalParams params p app env ?pb"
  from assms obtain r where r: "repoParams client app ?c = Inr r"
    by (auto simp: buildParameters_def Let_def split: sum.splits)
  obtain g tg where g: "gitBranchAndHash client app (triggeredByParams trigger r) trigger = (g, tg)"
    by (metis surj_pair)
  obtain c tc where c: "commitParams client app g tg = (c, tc)"
    by (metis surj_pair)
  from assms r g c have res: "params' = c"
    by (simp add: buildParameters_def Let_def)
  have chain: "set ?c \<subseteq> set params'"
    using repoParams_names [OF r] triggeredByParams_names [of r trigger]
      gitBranchAndHash_names(1) [OF g] commitParams_names [OF c] res by blast
  have gsub: "set g \<subseteq> set params'"
    using commitParams_names [OF c] res by blast
  from chain canonicalParams_names(1) [of params p app env ?pb]
  show "set params \<subseteq> set params'" by blast
  from chain canonicalParams_names(2) [of params p app env ?pb]
    gitBranchAndHash_names(2) [OF g] gsub
  show "{''cds.pipeline'', ''cds.project'', ''cds.application'', ''cds.environment'',
          ''cds.buildNumber'', ''cds.version'', ''git.branch''} \<subseteq> Name ` set params'"
  proof -
    have a: "Name ` set ?c \<subseteq> Name ` set params'" using chain by (rule image_mono)
    have b: "Name ` set g \<subseteq> Name ` set params'" using gsub by (rule image_mono)
    from canonicalParams_names(2) [of params p app env ?pb] a
    have "{''cds.pipeline'', ''cds.project'', ''cds.application'', ''cds.environment'',
          ''cds.buildNumber'', ''cds.version''} \<subseteq> Name ` set params'" by (rule subset_trans)
    moreover from gitBranchAndHash_names(2) [OF g] b have "''git.branch'' \<in> Name ` set params'"
      by (rule subsetD [rotated])
    ultimately show ?thesis by (simp only: insert_subset)
  qed
  show "''git.hash'' \<in> Name ` set params'" if "trig_VCSChangesBranch trigger \<noteq> []"
    using gitBranchAndHash_names(3) [OF g that] gsub by blast
qed

lemma paramsLoop_hashFound_aux:
  "foldl (\<lambda>(found, hashFound, t) p.
              (let (found, t) = (if Name p = ''git.branch'' \<and> Value p \<noteq> []
                                 then (True, t\<lparr>trig_VCSChangesBranch := Value p\<rparr>) else (found, t));
                   (hashFound, t) = (if Name p = ''git.hash'' \<and> Value p \<noteq> []
                                     then (True, t\<lparr>trig_VCSChangesHash := Value p\<rparr>) else (hashFound, t))
               in (found, hashFound, t)))
       (f0, h0, t0) ps = (found, hashFound, t)
   \<Longrightarrow> hashFound \<Longrightarrow> h0 \<or> ''git.hash'' \<in> Name ` set ps"
proof (induction ps arbitrary: f0 h0 t0)
  case Nil
  then show ?case by simp
next
  case (Cons p ps)
  then show ?case
    by (fastforce simp: Let_def split: if_splits)
qed

lemma paramsLoop_hashFound:
  "paramsLoop ps t0 = (found, True, t) \<Longrightarrow> ''git.hash'' \<in> Name ` set ps"
  unfolding paramsLoop_def using paramsLoop_hashFound_aux [of False False t0 ps found True t]
  by simp

lemma gitBranchAndHash_hash:
  assumes "gitBranchAndHash client app ps trigger = (ps', trigger')"
  shows "''git.hash'' \<in> Name ` set ps' \<longleftrightarrow>
           trig_VCSChangesBranch trigger \<noteq> [] \<or> ''git.hash'' \<in> Name ` set ps
           \<or> lastGitHashOf client app (trig_VCSChangesBranch trigger') \<noteq> []"
proof (cases "trig_VCSChangesBranch trigger \<noteq> []")
  case True
  with assms show ?thesis by (auto simp: gitBranchAndHash_def)
next
  case False
  obtain found hashFound t where pl: "paramsLoop ps trigger = (found, hashFound, t)"
    by (metis surj_pair)
  obtain d l where dl: "(case client of
                  None \<Rightarrow> (''master'', \<lambda>k. [])
                | Some c \<Rightarrow> branchesLoop (fst (Branches c (app_RepositoryFullname app)))) = (d, l)"
    by (metis surj_pair)
  have l: "lastGitHashOf client app b = l b" for b
    using dl by (cases client) (auto simp: lastGitHashOf_def)
  show ?thesis
  proof (cases found)
    case nf: False
    with assms False pl dl show ?thesis
      by (auto simp: gitBranchAndHash_def Let_def l split: if_splits)
  next
    case f: True
    show ?thesis
    proof (cases hashFound)
      case True
      with pl have "''git.hash'' \<in> Name ` set ps" by (simp add: paramsLoop_hashFound)
      moreover from assms have "set ps \<subseteq> set ps'" by (rule gitBranchAndHash_names(1))
      ultimately show ?thesis by auto
    next
      case nh: False
      with assms False pl dl f show ?thesis
        by (auto simp: gitBranchAndHash_def Let_def l split: if_splits)
    qed
  qed
qed

lemma commitParams_hash:
  assumes "commitParams client app ps trigger = (ps', trigger')"
  shows "''git.hash'' \<in> Name ` set ps' \<longleftrightarrow> ''git.hash'' \<in> Name ` set ps"
    and "trig_VCSChangesBranch trigger' = trig_VCSChangesBranch trigger"
  using assms by (auto simp: commitParams_def split: option.splits if_splits sum.splits)

lemma repoParams_hash:
  "repoParams client app ps = Inr ps' \<Longrightarrow>
     ''git.hash'' \<in> Name ` set ps' \<longleftrightarrow> ''git.hash'' \<in> Name ` set ps"
  by (auto simp: repoParams_def split: option.splits sum.splits)

lemma triggeredByParams_hash:
  "''git.hash'' \<in> Name ` set (triggeredByParams trigger ps) \<longleftrightarrow> ''git.hash'' \<in> Name ` set ps"
  by (auto simp: triggeredByParams_def Let_def split: option.splits)

lemma canonicalParams_hash:
  "''git.hash'' \<in> Name ` set (canonicalParams ps p app env pb) \<longleftrightarrow> ''git.hash'' \<in> Name ` set ps"
  by (auto simp: canonicalParams_def Let_def)

lemma buildParameters_hash:
  assumes "buildParameters client p app params env version trigger buildNumber = Inr (pb, params')"
  shows "''git.hash'' \<in> Name ` set params' \<longleftrightarrow>
           trig_VCSChangesBranch trigger \<noteq> [] \<or> ''git.hash'' \<in> Name ` set params
           \<or> lastGitHashOf client app (trig_VCSChangesBranch (pb_Trigger pb)) \<noteq> []"
proof -
  let ?pb = "zeroPipelineBuild\<lparr>pb_BuildNumber := buildNumber + 1, pb_Trigger := trigger,
               pb_Version := resolveVersion version (buildNumber + 1) p app trigger\<rparr>"
  let ?c = "canonicalParams params p app env ?pb"
  from assms obtain r where r: "repoParams client app ?c = Inr r"
    by (auto simp: buildParameters_def Let_def split: sum.splits)
  obtain g tg where g: "gitBranchAndHash client app (triggeredByParams trigger r) trigger = (g, tg)"
    by (metis surj_pair)
  obtain c tc where c: "commitParams client app g tg = (c, tc)"
    by (metis surj_pair)
  from assms r g c have res: "params' = c" "pb_Trigger pb = tc"
    by (auto simp: buildParameters_def Let_def)
  have "''git.hash'' \<in> Name ` set params' \<longleftrightarrow> ''git.hash'' \<in> Name ` set g"
    using commitParams_hash(1) [OF c] res by simp
  also have "\<dots> \<longleftrightarrow> trig_VCSChangesBranch trigger \<noteq> []
       \<or> ''git.hash'' \<in> Name ` set (triggeredByParams trigger r)
       \<or> lastGitHashOf client app (trig_VCSChangesBranch tg) \<noteq> []"
    by (rule gitBranchAndHash_hash [OF g])
  also have "''git.hash'' \<in> Name ` set (triggeredByParams trigger r) \<longleftrightarrow> ''git.hash'' \<in> Name ` set params"
    using triggeredByParams_hash [of trigger r] repoParams_hash [OF r]
      canonicalParams_hash [of params p app env ?pb] by simp
  also have "trig_VCSChangesBranch tg = trig_VCSChangesBranch (pb_Trigger pb)"
    using commitParams_hash(2) [OF c] res by simp
  finally show ?thesis .
qed

lemma set_update_subset: "set (AList.update k v al) \<subseteq> insert (k, v) (set al)"
  by (induct al) auto

lemma foldl_update_names:
  assumes "\<forall>(k, v)\<in>set m. Name v = k"
  shows "(\<forall>(k, v)\<in>set (foldl (\<lambda>m a. AList.update (Name a) a m) m xs). Name v = k)
         \<and> fst ` set (foldl (\<lambda>m a. AList.update (Name a) a m) m xs) = fst ` set m \<union> Name ` set xs"
  using assms
proof (induction xs arbitrary: m)
  case Nil
  then show ?case by simp
next
  case (Cons a xs)
  have "\<forall>(k, v)\<in>set (AList.update (Name a) a m). Name v = k"
    using Cons.prems set_update_subset [of "Name a" a m] by auto
  from Cons.IH [OF this] show ?case
    by (simp add: dom_update Un_insert_left insert_commute)
qed

lemma mergeVariables_keepsNames:
  assumes "ProcessPipelineBuildVariables X = mergeVariables"
  shows "keepsNames X"
  unfolding keepsNames_def
proof (intro allI impI)
  fix pp aa ps mapVar
  assume "ProcessPipelineBuildVariables X pp aa ps = Inr mapVar"
  with assms have m: "mapVar = foldl (\<lambda>m a. AList.update (Name a) a m) [] (pp @ aa @ ps)"
    by (simp add: mergeVariables_def)
  have e: "\<forall>(k, v)\<in>set ([] :: (string \<times> Parameter) list). Name v = k" by simp
  from foldl_update_names [OF e, of "pp @ aa @ ps"] m
  have v: "\<forall>(k, v)\<in>set mapVar. Name v = k" and k: "fst ` set mapVar = Name ` set (pp @ aa @ ps)"
    by simp_all
  show "Name ` set ps \<subseteq> Name ` snd ` set mapVar"
  proof
    fix n assume "n \<in> Name ` set ps"
    then have "n \<in> fst ` set mapVar" using k by auto
    then obtain e where e: "e \<in> set mapVar" "fst e = n" by auto
    with v have "Name (snd e) = n" by (cases e) auto
    with e(1) show "n \<in> Name ` snd ` set mapVar" by force
  qed
qed

lemma set_rangeValues: "validRange X \<Longrightarrow> set (rangeValues X m) = snd ` set m"
proof -
  assume "validRange X"
  then have "mset (rangeValues X m) = mset (map snd m)" by (rule mset_rangeValues)
  then have "set (rangeValues X m) = set (map snd m)" by (rule mset_eq_setD)
  then show ?thesis by simp
qed

lemmas client_defs = exVCSExt_def exHistoryExt_def exSilentExt_def exDeadExt_def exClient_def
  exSilentClient_def exRepoApplication_def branchesLoop_def exBranchParam_def


text \<open>
  C8, as stated, fails. An application without repositories manager, a trigger without
  branch and no parameter from the caller: the build is created, and its parameters, in the
  returned build and in the stored row, are the six \<open>cds\<close> keys and \<open>git.branch\<close>;
  \<open>git.hash\<close> is not among them. The same with an application bound to a repository
  whose client knows the repository and answers no other call.
\<close>

theorem InsertPipelineBuild_parameters_counterexample:
  "\<not> isl (fst (InsertPipelineBuild (exampleExt [] [] []) 100 exStore exProject exPipeline
             exApplication [] [] exEnvironment 0 exTrigger))
   \<and> app_RepositoriesManager exApplication = None
   \<and> ''git.hash'' \<notin> Name ` set (pb_Parameters (projr (fst (InsertPipelineBuild (exampleExt [] [] [])
         100 exStore exProject exPipeline exApplication [] [] exEnvironment 0 exTrigger))))
   \<and> map c_args (pipeline_build (snd (InsertPipelineBuild (exampleExt [] [] []) 100 exStore exProject
         exPipeline exApplication [] [] exEnvironment 0 exTrigger)))
       = [''[cds.pipeline=pip;cds.project=P;cds.application=app;cds.environment=env;cds.buildNumber=1;cds.version=1;git.branch=master;]'']
   \<and> \<not> isl (fst (InsertPipelineBuild exSilentExt 100 exStore exProject exPipeline
             exRepoApplication [] [] exEnvironment 0 exTrigger))
   \<and> repositoryClient exSilentExt exProject exRepoApplication = Some exSilentClient
   \<and> ''git.hash'' \<notin> Name ` set (pb_Parameters (projr (fst (InsertPipelineBuild exSilentExt
         100 exStore exProject exPipeline exRepoApplication [] [] exEnvironment 0 exTrigger))))
   \<and> map c_args (pipeline_build (snd (InsertPipelineBuild exSilentExt 100 exStore exProject
         exPipeline exRepoApplication [] [] exEnvironment 0 exTrigger)))
       = [''[cds.pipeline=pip;cds.project=P;cds.application=app;cds.environment=env;cds.buildNumber=1;cds.version=1;git.url=ssh;git.http_url=http;git.branch=master;]'']"
  by (simp add: ex_defs insert_defs client_defs)


text \<open>
  C8, amended. Every build created by \<open>InsertPipelineBuild\<close> has a parameter list that
  contains \<open>cds.pipeline\<close>, \<open>cds.project\<close>, \<open>cds.application\<close>, \<open>cds.environment\<close>,
  \<open>cds.buildNumber\<close>, \<open>cds.version\<close> and \<open>git.branch\<close>, whatever the version-control
  collaborator does and also without one. It contains \<open>git.hash\<close> exactly when the
  trigger names a branch, or a parameter of the caller has that name, or the collaborator
  reports a latest commit for the branch of the build. The parameters of the caller are
  kept. The list stored in the row of the build has every name of that list, when the
  resolver of build variables keeps the names it is given and the runtime visits every
  entry of its map.
\<close>

theorem InsertPipelineBuild_parameters:
  assumes run: "InsertPipelineBuild X now tx project p app appArgs params env version trigger = (Inr pb, tx')"
  shows "{''cds.pipeline'', ''cds.project'', ''cds.application'', ''cds.environment'',
          ''cds.buildNumber'', ''cds.version'', ''git.branch''} \<subseteq> Name ` set (pb_Parameters pb)
         \<and> (''git.hash'' \<in> Name ` set (pb_Parameters pb) \<longleftrightarrow>
               trig_VCSChangesBranch trigger \<noteq> [] \<or> ''git.hash'' \<in> Name ` set params
               \<or> lastGitHashOf (repositoryClient X project app) app
                     (trig_VCSChangesBranch (pb_Trigger pb)) \<noteq> [])
         \<and> set params \<subseteq> set (pb_Parameters pb)
         \<and> (keepsNames X \<and> validRange X \<longrightarrow>
               (\<exists>stored. Marshal_params X stored = Inr (c_args (last (pipeline_build tx')))
                  \<and> c_id (last (pipeline_build tx')) = pb_ID pb
                  \<and> Name ` set (pb_Parameters pb) \<subseteq> Name ` set stored))"
proof -
  from run obtain buildNumber tx1 pb1 params1 pb2 argsFinal tx2 where
    b: "buildParameters (repositoryClient X project app) p app params env version trigger buildNumber
         = Inr (pb1, params1)" and
    s: "storeBuild X now tx1 p app appArgs env None pb1 params1 = (Inr (pb2, argsFinal), tx2)" and
    n: "notifyPrevious X tx2 pb2 argsFinal = (Inr pb, tx')"
    by (rule InsertPipelineBuild_phases)
  from storeBuild_success [OF s] have "pb_Parameters pb2 = params1" "pb_Trigger pb2 = pb_Trigger pb1"
    by auto
  moreover from notifyPrevious_success [OF n] have "pb = pb2" by simp
  ultimately have pp: "pb_Parameters pb = params1" and pt: "pb_Trigger pb = pb_Trigger pb1" by simp_all
  have A: "{''cds.pipeline'', ''cds.project'', ''cds.application'', ''cds.environment'',
          ''cds.buildNumber'', ''cds.version'', ''git.branch''} \<subseteq> Name ` set (pb_Parameters pb)"
    and C: "set params \<subseteq> set (pb_Parameters pb)"
    using buildParameters_names(1,2) [OF b] pp by simp_all
  have B: "''git.hash'' \<in> Name ` set (pb_Parameters pb) \<longleftrightarrow>
               trig_VCSChangesBranch trigger \<noteq> [] \<or> ''git.hash'' \<in> Name ` set params
               \<or> lastGitHashOf (repositoryClient X project app) app
                     (trig_VCSChangesBranch (pb_Trigger pb)) \<noteq> []"
    using buildParameters_hash [OF b] pp pt by simp
  have D: "\<exists>stored. Marshal_params X stored = Inr (c_args (last (pipeline_build tx')))
                  \<and> c_id (last (pipeline_build tx')) = pb_ID pb
                  \<and> Name ` set (pb_Parameters pb) \<subseteq> Name ` set stored"
    if k: "keepsNames X" and v: "validRange X"
  proof -
    from InsertPipelineBuild_args [OF run] obtain mapVar previous json where
      pv: "ProcessPipelineBuildVariables X (pip_Parameter p) appArgs (pb_Parameters pb) = Inr mapVar" and
      "published tx' = published tx @ [(pb, previous)]" and
      m: "Marshal_params X
         (case previous of
            None \<Rightarrow> rangeValues X mapVar
          | Some prev \<Rightarrow>
              if ParameterValue (pb_Parameters prev) ''git.hash'' \<noteq> []
              then AddParameter (rangeValues X mapVar) ''git.previousHash'' StringParameter
                     (ParameterValue (pb_Parameters prev) ''git.hash'')
              else rangeValues X mapVar) = Inr json" and
      i: "c_id (last (pipeline_build tx')) = pb_ID pb" and
      a: "c_args (last (pipeline_build tx')) = json"
      by blast
    let ?stored = "case previous of
            None \<Rightarrow> rangeValues X mapVar
          | Some prev \<Rightarrow>
              if ParameterValue (pb_Parameters prev) ''git.hash'' \<noteq> []
              then AddParameter (rangeValues X mapVar) ''git.previousHash'' StringParameter
                     (ParameterValue (pb_Parameters prev) ''git.hash'')
              else rangeValues X mapVar"
    from k pv have "Name ` set (pb_Parameters pb) \<subseteq> Name ` snd ` set mapVar"
      unfolding keepsNames_def by blast
    also have "snd ` set mapVar = set (rangeValues X mapVar)"
      using set_rangeValues [OF v, of mapVar] by simp
    also have "Name ` set (rangeValues X mapVar) \<subseteq> Name ` set ?stored"
      by (auto split: option.splits)
    finally have "Name ` set (pb_Parameters pb) \<subseteq> Name ` set ?stored" .
    with m i a show ?thesis by blast
  qed
  from A B C D show ?thesis by blast
qed


text \<open>
  A trigger on branch \<open>main\<close> at hash \<open>abc\<close>, without client: all eight keys are
  there. A client that answers, and a trigger without branch: the branch is the default
  branch \<open>main\<close> of the repository, \<open>git.hash\<close> is its latest commit \<open>c\<close>, and the
  stored list has the names of the list of the build. A client that does not answer:
  the seven keys, and no \<open>git.hash\<close>. A parameter \<open>git.hash\<close> of the caller, without
  client. When the client does not find the repository either, no build is created.
\<close>

theorem InsertPipelineBuild_parameters_witness:
  "\<not> isl (fst (InsertPipelineBuild (exampleExt [] [] []) 100 exStore exProject exPipeline
             exApplication [] [] exEnvironment 0
             (exTrigger\<lparr>trig_VCSChangesBranch := ''main'', trig_VCSChangesHash := ''abc''\<rparr>)))
   \<and> {''cds.pipeline'', ''cds.project'', ''cds.application'', ''cds.environment'',
       ''cds.buildNumber'', ''cds.version'', ''git.branch'', ''git.hash''}
      \<subseteq> Name ` set (pb_Parameters (projr (fst (InsertPipelineBuild (exampleExt [] [] []) 100 exStore
            exProject exPipeline exApplication [] [] exEnvironment 0
            (exTrigger\<lparr>trig_VCSChangesBranch := ''main'', trig_VCSChangesHash := ''abc''\<rparr>)))))
   \<and> \<not> isl (fst (InsertPipelineBuild exVCSExt 100 exStore exProject exPipeline
             exRepoApplication [] [] exEnvironment 0 exTrigger))
   \<and> trig_VCSChangesBranch exTrigger = []
   \<and> lastGitHashOf (repositoryClient exVCSExt exProject exRepoApplication) exRepoApplication
        (trig_VCSChangesBranch (pb_Trigger (projr (fst (InsertPipelineBuild exVCSExt 100 exStore
           exProject exPipeline exRepoApplication [] [] exEnvironment 0 exTrigger))))) = ''c''
   \<and> {''cds.pipeline'', ''cds.project'', ''cds.application'', ''cds.environment'',
       ''cds.buildNumber'', ''cds.version'', ''git.branch'', ''git.hash''}
      \<subseteq> Name ` set (pb_Parameters (projr (fst (InsertPipelineBuild exVCSExt 100 exStore
            exProject exPipeline exRepoApplication [] [] exEnvironment 0 exTrigger))))
   \<and> keepsNames exVCSExt \<and> validRange exVCSExt
   \<and> (\<exists>stored. Marshal_params exVCSExt stored
          = Inr (c_args (last (pipeline_build (snd (InsertPipelineBuild exVCSExt 100 exStore
               exProject exPipeline exRepoApplication [] [] exEnvironment 0 exTrigger)))))
        \<and> Name ` set (pb_Parameters (projr (fst (InsertPipelineBuild exVCSExt 100 exStore
               exProject exPipeline exRepoApplication [] [] exEnvironment 0 exTrigger))))
           \<subseteq> Name ` set stored)
   \<and> map c_args (pipeline_build (snd (InsertPipelineBuild exVCSExt 100 exStore exProject
         exPipeline exRepoApplication [] [] exEnvironment 0 exTrigger)))
       = [''[cds.pipeline=pip;cds.project=P;cds.application=app;cds.environment=env;cds.buildNumber=1;cds.version=1;git.url=ssh;git.http_url=http;git.branch=main;git.hash=c;git.author=me;git.message=m;]'']
   \<and> \<not> isl (fst (InsertPipelineBuild exSilentExt 100 exStore exProject exPipeline
             exRepoApplication [] [] exEnvironment 0 exTrigger))
   \<and> {''cds.pipeline'', ''cds.project'', ''cds.application'', ''cds.environment'',
       ''cds.buildNumber'', ''cds.version'', ''git.branch''}
      \<subseteq> Name ` set (pb_Parameters (projr (fst (InsertPipelineBuild exSilentExt 100 exStore
            exProject exPipeline exRepoApplication [] [] exEnvironment 0 exTrigger))))
   \<and> ''git.hash'' \<notin> Name ` set (pb_Parameters (projr (fst (InsertPipelineBuild exSilentExt
         100 exStore exProject exPipeline exRepoApplication [] [] exEnvironment 0 exTrigger))))
   \<and> \<not> isl (fst (InsertPipelineBuild (exampleExt [] [] []) 100 exStore exProject exPipeline
             exApplication [] [exHashParam ''d''] exEnvironment 0 exTrigger))
   \<and> ''git.hash'' \<in> Name ` set (pb_Parameters (projr (fst (InsertPipelineBuild (exampleExt [] [] [])
         100 exStore exProject exPipeline exApplication [] [exHashParam ''d''] exEnvironment 0 exTrigger))))
   \<and> isl (fst (InsertPipelineBuild exDeadExt 100 exStore exProject exPipeline
             exRepoApplication [] [] exEnvironment 0 exTrigger))"
proof -
  let ?t = "exTrigger\<lparr>trig_VCSChangesBranch := ''main'', trig_VCSChangesHash := ''abc''\<rparr>"
  let ?R1 = "InsertPipelineBuild (exampleExt [] [] []) 100 exStore exProject exPipeline
              exApplication [] [] exEnvironment 0 ?t"
  let ?R2 = "InsertPipelineBuild exVCSExt 100 exStore exProject exPipeline
              exRepoApplication [] [] exEnvironment 0 exTrigger"
  let ?R3 = "InsertPipelineBuild exSilentExt 100 exStore exProject exPipeline
              exRepoApplication [] [] exEnvironment 0 exTrigger"
  let ?R4 = "InsertPipelineBuild (exampleExt [] [] []) 100 exStore exProject exPipeline
              exApplication [] [exHashParam ''d''] exEnvironment 0 exTrigger"
  have nb: "trig_VCSChangesBranch exTrigger = []" by (simp add: exTrigger_def)
  \<comment> \<open>the trigger names a branch\<close>
  have ok1: "\<not> isl (fst ?R1)"
    by (simp add: ex_defs insert_defs)
  have br: "trig_VCSChangesBranch ?t \<noteq> []" by simp
  note T1 = InsertPipelineBuild_parameters [OF run_collapse [OF ok1]]
  from T1 [THEN conjunct2, THEN conjunct1] br
  have h1: "''git.hash'' \<in> Name ` set (pb_Parameters (projr (fst ?R1)))" by simp
  from T1 [THEN conjunct1] have s1: "{''cds.pipeline'', ''cds.project'', ''cds.application'', ''cds.environment'',
       ''cds.buildNumber'', ''cds.version'', ''git.branch''}
      \<subseteq> Name ` set (pb_Parameters (projr (fst ?R1)))" .
  from s1 h1 have e1: "{''cds.pipeline'', ''cds.project'', ''cds.application'', ''cds.environment'',
       ''cds.buildNumber'', ''cds.version'', ''git.branch'', ''git.hash''}
      \<subseteq> Name ` set (pb_Parameters (projr (fst ?R1)))" by (simp only: insert_subset)
  \<comment> \<open>a client that answers\<close>
  have ok2: "\<not> isl (fst ?R2)
     \<and> trig_VCSChangesBranch (pb_Trigger (projr (fst ?R2))) = ''main''
     \<and> map c_args (pipeline_build (snd ?R2))
       = [''[cds.pipeline=pip;cds.project=P;cds.application=app;cds.environment=env;cds.buildNumber=1;cds.version=1;git.url=ssh;git.http_url=http;git.branch=main;git.hash=c;git.author=me;git.message=m;]'']"
    by (simp add: ex_defs insert_defs client_defs)
  then have o2: "\<not> isl (fst ?R2)" by simp
  have l2: "lastGitHashOf (repositoryClient exVCSExt exProject exRepoApplication) exRepoApplication
        (trig_VCSChangesBranch (pb_Trigger (projr (fst ?R2)))) = ''c''"
    using ok2 by (simp add: lastGitHashOf_def repositoryClient_def client_defs ex_defs)
  have k2: "keepsNames exVCSExt"
    by (rule mergeVariables_keepsNames) (simp add: client_defs exampleExt_def)
  have v2: "validRange exVCSExt"
    by (simp add: validRange_def client_defs exampleExt_def)
  note T2 = InsertPipelineBuild_parameters [OF run_collapse [OF o2]]
  from T2 [THEN conjunct2, THEN conjunct1] l2
  have h2: "''git.hash'' \<in> Name ` set (pb_Parameters (projr (fst ?R2)))" by simp
  from T2 [THEN conjunct1] have s2: "{''cds.pipeline'', ''cds.project'', ''cds.application'', ''cds.environment'',
       ''cds.buildNumber'', ''cds.version'', ''git.branch''}
      \<subseteq> Name ` set (pb_Parameters (projr (fst ?R2)))" .
  from s2 h2 have e2: "{''cds.pipeline'', ''cds.project'', ''cds.application'', ''cds.environment'',
       ''cds.buildNumber'', ''cds.version'', ''git.branch'', ''git.hash''}
      \<subseteq> Name ` set (pb_Parameters (projr (fst ?R2)))" by (simp only: insert_subset)
  from T2 [THEN conjunct2, THEN conjunct2, THEN conjunct2] k2 v2
  obtain stored where "Marshal_params exVCSExt stored
          = Inr (c_args (last (pipeline_build (snd ?R2))))"
        "Name ` set (pb_Parameters (projr (fst ?R2))) \<subseteq> Name ` set stored"
    by (elim impE exE conjE) (rule conjI)
  then have st2: "\<exists>stored. Marshal_params exVCSExt stored
          = Inr (c_args (last (pipeline_build (snd ?R2))))
        \<and> Name ` set (pb_Parameters (projr (fst ?R2))) \<subseteq> Name ` set stored"
    by (intro exI conjI)
  \<comment> \<open>a client that does not answer\<close>
  have o3: "\<not> isl (fst ?R3)"
    by (simp add: ex_defs insert_defs client_defs)
  have l3: "lastGitHashOf (repositoryClient exSilentExt exProject exRepoApplication) exRepoApplication b = []"
    for b
    by (simp add: lastGitHashOf_def repositoryClient_def client_defs ex_defs)
  note T3 = InsertPipelineBuild_parameters [OF run_collapse [OF o3]]
  from T3 [THEN conjunct1] have s3: "{''cds.pipeline'', ''cds.project'', ''cds.application'', ''cds.environment'',
       ''cds.buildNumber'', ''cds.version'', ''git.branch''}
      \<subseteq> Name ` set (pb_Parameters (projr (fst ?R3)))" .
  from T3 [THEN conjunct2, THEN conjunct1] nb l3
  have h3: "''git.hash'' \<notin> Name ` set (pb_Parameters (projr (fst ?R3)))" by simp
  \<comment> \<open>a parameter of the caller\<close>
  have o4: "\<not> isl (fst ?R4)"
    by (simp add: ex_defs insert_defs exHashParam_def)
  note T4 = InsertPipelineBuild_parameters [OF run_collapse [OF o4]]
  from T4 [THEN conjunct2, THEN conjunct1]
  have h4: "''git.hash'' \<in> Name ` set (pb_Parameters (projr (fst ?R4)))"
    by (simp add: exHashParam_def)
  have d: "isl (fst (InsertPipelineBuild exDeadExt 100 exStore exProject exPipeline
             exRepoApplication [] [] exEnvironment 0 exTrigger))"
    by (simp add: ex_defs insert_defs client_defs)
  from ok2 have c2: "map c_args (pipeline_build (snd ?R2))
       = [''[cds.pipeline=pip;cds.project=P;cds.application=app;cds.environment=env;cds.buildNumber=1;cds.version=1;git.url=ssh;git.http_url=http;git.branch=main;git.hash=c;git.author=me;git.message=m;]'']"
    by (elim conjE)
  from ok1 e1 o2 nb l2 e2 k2 v2 st2 c2 o3 s3 h3 o4 h4 d show ?thesis
    by (intro conjI)
qed

lemmas previous_defs = exPreviousExt_def exPreviousStore_def exMainTrigger_def exRow_def
  exBranchParam_def exHashParam_def exSecondBuildParams_def ParameterValue_def zeroPipeline_def
  zeroApplication_def zeroEnvironment_def zeroTrigger_def zeroPipelineBuild_def zeroTime_def
  StatusFromString_def word_sless_alt word_sle_eq


text \<open>
  C9, as stated, fails. Two runs on the same store with the same pipeline, application,
  environment, trigger and caller parameters \<open>a\<close>, \<open>b\<close>, which differ only in the order
  in which the runtime visits the map of resolved variables (both orders are
  permutations of its entries): the stored lists differ, and the second run stores \<open>b\<close>
  before \<open>a\<close>.
\<close>

theorem InsertPipelineBuild_stored_parameters_counterexample:
  "validRange (exampleExt [] [] []) \<and> validRange ((exampleExt [] [] [])\<lparr>map_range := rev\<rparr>)
   \<and> \<not> isl (fst (InsertPipelineBuild (exampleExt [] [] []) 100 exStore exProject exPipeline exApplication []
        [\<lparr>Name = ''a'', Type = ''string'', Value = ''1''\<rparr>, \<lparr>Name = ''b'', Type = ''string'', Value = ''2''\<rparr>]
        exEnvironment 0 exTrigger))
   \<and> \<not> isl (fst (InsertPipelineBuild ((exampleExt [] [] [])\<lparr>map_range := rev\<rparr>) 100 exStore exProject exPipeline exApplication []
        [\<lparr>Name = ''a'', Type = ''string'', Value = ''1''\<rparr>, \<lparr>Name = ''b'', Type = ''string'', Value = ''2''\<rparr>]
        exEnvironment 0 exTrigger))
   \<and> map c_args (pipeline_build (snd (InsertPipelineBuild (exampleExt [] [] []) 100 exStore exProject exPipeline exApplication []
        [\<lparr>Name = ''a'', Type = ''string'', Value = ''1''\<rparr>, \<lparr>Name = ''b'', Type = ''string'', Value = ''2''\<rparr>]
        exEnvironment 0 exTrigger)))
       = [''[a=1;b=2;cds.pipeline=pip;cds.project=P;cds.application=app;cds.environment=env;cds.buildNumber=1;cds.version=1;git.branch=master;]'']
   \<and> map c_args (pipeline_build (snd (InsertPipelineBuild ((exampleExt [] [] [])\<lparr>map_range := rev\<rparr>) 100 exStore exProject exPipeline exApplication []
        [\<lparr>Name = ''a'', Type = ''string'', Value = ''1''\<rparr>, \<lparr>Name = ''b'', Type = ''string'', Value = ''2''\<rparr>]
        exEnvironment 0 exTrigger)))
       = [''[git.branch=master;cds.version=1;cds.buildNumber=1;cds.environment=env;cds.application=app;cds.project=P;cds.pipeline=pip;b=2;a=1;]'']"
proof -
  have "validRange (exampleExt [] [] [])"
    by (simp add: validRange_def exampleExt_def)
  moreover have "validRange ((exampleExt [] [] [])\<lparr>map_range := rev\<rparr>)"
    by (simp add: validRange_def exampleExt_def)
  moreover have "\<not> isl (fst (InsertPipelineBuild (exampleExt [] [] []) 100 exStore exProject exPipeline exApplication []
        [\<lparr>Name = ''a'', Type = ''string'', Value = ''1''\<rparr>, \<lparr>Name = ''b'', Type = ''string'', Value = ''2''\<rparr>]
        exEnvironment 0 exTrigger))
     \<and> map c_args (pipeline_build (snd (InsertPipelineBuild (exampleExt [] [] []) 100 exStore exProject exPipeline exApplication []
        [\<lparr>Name = ''a'', Type = ''string'', Value = ''1''\<rparr>, \<lparr>Name = ''b'', Type = ''string'', Value = ''2''\<rparr>]
        exEnvironment 0 exTrigger)))
       = [''[a=1;b=2;cds.pipeline=pip;cds.project=P;cds.application=app;cds.environment=env;cds.buildNumber=1;cds.version=1;git.branch=master;]'']"
    by (simp add: ex_defs insert_defs)
  moreover have "\<not> isl (fst (InsertPipelineBuild ((exampleExt [] [] [])\<lparr>map_range := rev\<rparr>) 100 exStore exProject exPipeline exApplication []
        [\<lparr>Name = ''a'', Type = ''string'', Value = ''1''\<rparr>, \<lparr>Name = ''b'', Type = ''string'', Value = ''2''\<rparr>]
        exEnvironment 0 exTrigger))
     \<and> map c_args (pipeline_build (snd (InsertPipelineBuild ((exampleExt [] [] [])\<lparr>map_range := rev\<rparr>) 100 exStore exProject exPipeline exApplication []
        [\<lparr>Name = ''a'', Type = ''string'', Value = ''1''\<rparr>, \<lparr>Name = ''b'', Type = ''string'', Value = ''2''\<rparr>]
        exEnvironment 0 exTrigger)))
       = [''[git.branch=master;cds.version=1;cds.buildNumber=1;cds.environment=env;cds.application=app;cds.project=P;cds.pipeline=pip;b=2;a=1;]'']"
    by (simp add: ex_defs insert_defs)
  ultimately show ?thesis by blast
qed


text \<open>
  C9, amended. The list that \<open>InsertPipelineBuild\<close> serializes and stores is, up to its
  order, a function of the inputs. It holds the values of the map that
  \<open>ProcessPipelineBuildVariables\<close> returns for the pipeline defaults, the application
  overrides and the parameters of the build, each once, in the order in which the runtime
  visits the map. It is followed by \<open>git.previousHash\<close> exactly when the previous build
  that the function loads, the one that the published event carries, has a \<open>git.hash\<close>
  parameter that is not empty, and \<open>git.previousHash\<close> has that value. Nothing is said
  of the order of the values of the map, nor of which build the function takes for the
  previous one.
\<close>

theorem InsertPipelineBuild_stored_parameters:
  assumes run: "InsertPipelineBuild X now tx project p app appArgs params env version trigger = (Inr pb, tx')"
    and valid: "validRange X"
  shows "\<exists>mapVar previous json.
           ProcessPipelineBuildVariables X (pip_Parameter p) appArgs (pb_Parameters pb) = Inr mapVar
           \<and> mset (rangeValues X mapVar) = mset (map snd mapVar)
           \<and> published tx' = published tx @ [(pb, previous)]
           \<and> Marshal_params X
                (case previous of
                   None \<Rightarrow> rangeValues X mapVar
                 | Some prev \<Rightarrow>
                     if ParameterValue (pb_Parameters prev) ''git.hash'' \<noteq> []
                     then AddParameter (rangeValues X mapVar) ''git.previousHash'' StringParameter
                            (ParameterValue (pb_Parameters prev) ''git.hash'')
                     else rangeValues X mapVar) = Inr json
           \<and> c_id (last (pipeline_build tx')) = pb_ID pb
           \<and> c_args (last (pipeline_build tx')) = json"
proof -
  from InsertPipelineBuild_args [OF run] obtain mapVar previous json where
    "ProcessPipelineBuildVariables X (pip_Parameter p) appArgs (pb_Parameters pb) = Inr mapVar"
    "published tx' = published tx @ [(pb, previous)]"
    "Marshal_params X
       (case previous of
          None \<Rightarrow> rangeValues X mapVar
        | Some prev \<Rightarrow>
            if ParameterValue (pb_Parameters prev) ''git.hash'' \<noteq> []
            then AddParameter (rangeValues X mapVar) ''git.previousHash'' StringParameter
                   (ParameterValue (pb_Parameters prev) ''git.hash'')
            else rangeValues X mapVar) = Inr json"
    "c_id (last (pipeline_build tx')) = pb_ID pb"
    "c_args (last (pipeline_build tx')) = json"
    by blast
  with mset_rangeValues [OF valid, of mapVar] show ?thesis by blast
qed


text \<open>
  The first of the two runs above, on a store without builds: nothing follows the values
  of the map. And a build on branch \<open>main\<close> created on a store whose only build, on
  \<open>main\<close>, has the hash \<open>a\<close>: \<open>git.previousHash\<close> follows, with the value \<open>a\<close>.
\<close>

theorem InsertPipelineBuild_stored_parameters_witness:
  "validRange (exampleExt [] [] []) \<and> validRange exPreviousExt
   \<and> \<not> isl (fst (InsertPipelineBuild (exampleExt [] [] []) 100 exStore exProject exPipeline exApplication []
        [\<lparr>Name = ''a'', Type = ''string'', Value = ''1''\<rparr>, \<lparr>Name = ''b'', Type = ''string'', Value = ''2''\<rparr>]
        exEnvironment 0 exTrigger))
   \<and> map snd (published (snd (InsertPipelineBuild (exampleExt [] [] []) 100 exStore exProject exPipeline exApplication []
        [\<lparr>Name = ''a'', Type = ''string'', Value = ''1''\<rparr>, \<lparr>Name = ''b'', Type = ''string'', Value = ''2''\<rparr>]
        exEnvironment 0 exTrigger))) = [None]
   \<and> map c_args (pipeline_build (snd (InsertPipelineBuild (exampleExt [] [] []) 100 exStore exProject exPipeline exApplication []
        [\<lparr>Name = ''a'', Type = ''string'', Value = ''1''\<rparr>, \<lparr>Name = ''b'', Type = ''string'', Value = ''2''\<rparr>]
        exEnvironment 0 exTrigger)))
       = [''[a=1;b=2;cds.pipeline=pip;cds.project=P;cds.application=app;cds.environment=env;cds.buildNumber=1;cds.version=1;git.branch=master;]'']
   \<and> \<not> isl (fst (InsertPipelineBuild exPreviousExt 100 exPreviousStore exProject exPipeline
        exApplication [] [] exEnvironment 0 exMainTrigger))
   \<and> map (\<lambda>(b, previous). (pb_BuildNumber b, map_option pb_BuildNumber previous,
              map_option (\<lambda>pv. ParameterValue (pb_Parameters pv) ''git.hash'') previous))
        (published (snd (InsertPipelineBuild exPreviousExt 100 exPreviousStore exProject exPipeline
           exApplication [] [] exEnvironment 0 exMainTrigger)))
       = [(2, Some 1, Some ''a'')]
   \<and> map c_args (pipeline_build (snd (InsertPipelineBuild exPreviousExt 100 exPreviousStore exProject
        exPipeline exApplication [] [] exEnvironment 0 exMainTrigger)))
       = [''[git.branch=main;git.hash=a;]'',
          ''[cds.pipeline=pip;cds.project=P;cds.application=app;cds.environment=env;cds.buildNumber=2;cds.version=2;git.branch=main;git.hash=b;git.previousHash=a;]'']
   \<and> (\<exists>mapVar previous json.
         ProcessPipelineBuildVariables exPreviousExt (pip_Parameter exPipeline) []
           (pb_Parameters (projr (fst (InsertPipelineBuild exPreviousExt 100 exPreviousStore exProject
              exPipeline exApplication [] [] exEnvironment 0 exMainTrigger)))) = Inr mapVar
         \<and> mset (rangeValues exPreviousExt mapVar) = mset (map snd mapVar)
         \<and> published (snd (InsertPipelineBuild exPreviousExt 100 exPreviousStore exProject
              exPipeline exApplication [] [] exEnvironment 0 exMainTrigger))
             = published exPreviousStore
               @ [(projr (fst (InsertPipelineBuild exPreviousExt 100 exPreviousStore exProject
                     exPipeline exApplication [] [] exEnvironment 0 exMainTrigger)), previous)]
         \<and> Marshal_params exPreviousExt
              (case previous of
                 None \<Rightarrow> rangeValues exPreviousExt mapVar
               | Some prev \<Rightarrow>
                   if ParameterValue (pb_Parameters prev) ''git.hash'' \<noteq> []
                   then AddParameter (rangeValues exPreviousExt mapVar) ''git.previousHash''
                          StringParameter (ParameterValue (pb_Parameters prev) ''git.hash'')
                   else rangeValues exPreviousExt mapVar) = Inr json
         \<and> c_id (last (pipeline_build (snd (InsertPipelineBuild exPreviousExt 100 exPreviousStore
              exProject exPipeline exApplication [] [] exEnvironment 0 exMainTrigger))))
             = pb_ID (projr (fst (InsertPipelineBuild exPreviousExt 100 exPreviousStore exProject
                 exPipeline exApplication [] [] exEnvironment 0 exMainTrigger)))
         \<and> c_args (last (pipeline_build (snd (InsertPipelineBuild exPreviousExt 100 exPreviousStore
              exProject exPipeline exApplication [] [] exEnvironment 0 exMainTrigger)))) = json)"
proof -
  let ?R1 = "InsertPipelineBuild (exampleExt [] [] []) 100 exStore exProject exPipeline exApplication []
        [\<lparr>Name = ''a'', Type = ''string'', Value = ''1''\<rparr>, \<lparr>Name = ''b'', Type = ''string'', Value = ''2''\<rparr>]
        exEnvironment 0 exTrigger"
  let ?R2 = "InsertPipelineBuild exPreviousExt 100 exPreviousStore exProject exPipeline
        exApplication [] [] exEnvironment 0 exMainTrigger"
  have v1: "validRange (exampleExt [] [] [])"
    by (simp add: validRange_def exampleExt_def)
  have v2: "validRange exPreviousExt"
    by (simp add: validRange_def exPreviousExt_def exampleExt_def)
  have a1: "\<not> isl (fst ?R1) \<and> map snd (published (snd ?R1)) = [None]
     \<and> map c_args (pipeline_build (snd ?R1))
       = [''[a=1;b=2;cds.pipeline=pip;cds.project=P;cds.application=app;cds.environment=env;cds.buildNumber=1;cds.version=1;git.branch=master;]'']"
    by (simp add: ex_defs insert_defs)
  have a2: "\<not> isl (fst ?R2)
     \<and> map (\<lambda>(b, previous). (pb_BuildNumber b, map_option pb_BuildNumber previous,
              map_option (\<lambda>pv. ParameterValue (pb_Parameters pv) ''git.hash'') previous))
        (published (snd ?R2)) = [(2, Some 1, Some ''a'')]
     \<and> map c_args (pipeline_build (snd ?R2))
       = [''[git.branch=main;git.hash=a;]'',
          ''[cds.pipeline=pip;cds.project=P;cds.application=app;cds.environment=env;cds.buildNumber=2;cds.version=2;git.branch=main;git.hash=b;git.previousHash=a;]'']"
    by (simp add: ex_defs insert_defs previous_defs)
  then have ok2: "\<not> isl (fst ?R2)" by simp
  note T = InsertPipelineBuild_stored_parameters [OF run_collapse [OF ok2] v2]
  from v1 v2 a1 a2 T show ?thesis by blast
qed

subsection \<open>Restart\<close>







lemma tables_fields [simp]:
  "pipeline_build (tables db) = pipeline_build db"
  "build_log (tables db) = build_log db"
  "artifact (tables db) = artifact db"
  "pipeline_test_result (tables db) = pipeline_test_result db"
  "pipeline_build_job (tables db) = pipeline_build_job db"
  "published (tables db) = published db"
  "next_id (tables db) = next_id db"
  "locked (tables db) = locked db"
  by (simp_all add: tables_def)

lemma tables_driver: "driver db = (r, db') \<Longrightarrow> tables db' = tables db"
  by (drule driver_eq) (simp add: tables_def)








































subsection \<open>Status events\<close>

text \<open>
  C7. Builds 1 and 3 of the triple are on branch \<open>main\<close>, build 2 is on \<open>dev\<close>. When
  build 3 goes from Building to Success one event is published, and the previous build it
  carries is build 2, of branch \<open>dev\<close>: the lookup reads the parameter \<open>.git.branch\<close>,
  which no build has, so the history is not filtered by branch. The claim wants build 1,
  the most recent earlier build on \<open>main\<close>.
\<close>

theorem update_status_previous_of_other_branch:
  "fst (UpdatePipelineBuildStatusAndStage exHistoryExt exHistory exBuild3 StatusSuccess) = None
   \<and> map (\<lambda>r. (c_build_number r, c_vcs_changes_branch r)) (buildsOfTriple exHistory 7 42 3)
       = [(1, Some ''main''), (2, Some ''dev''), (3, Some ''main'')]
   \<and> pb_BuildNumber exBuild3 = 3
   \<and> trig_VCSChangesBranch (pb_Trigger exBuild3) = ''main''
   \<and> ParameterValue (pb_Parameters exBuild3) ''git.branch'' = ''main''
   \<and> map (\<lambda>(pb, previous). (pb_BuildNumber pb, pb_Status pb, map_option pb_BuildNumber previous,
              map_option (\<lambda>b. trig_VCSChangesBranch (pb_Trigger b)) previous))
        (published (fst (snd (UpdatePipelineBuildStatusAndStage exHistoryExt exHistory exBuild3
           StatusSuccess))))
       = [(3, StatusSuccess, Some 2, Some ''dev'')]"
  by (simp add: history_defs load_defs UpdatePipelineBuildStatusAndStage_def buildsOfTriple_def
      ParameterValue_def)

subsection \<open>Branch purge\<close>

text \<open>
  C5. Application 42 has two builds on branch \<open>main\<close>: build 1, which succeeded, and
  build 3, which is building. \<open>DeleteBranchBuilds\<close> for that application and branch
  stops and deletes build 3 and returns without an error; build 1, which matches the pair
  as well, is still in the table. The claim wants every matching build deleted.
\<close>

theorem delete_branch_keeps_finished_build:
  "fst (DeleteBranchBuilds exHistoryExt exHistory 42 ''main'') = None
   \<and> map (\<lambda>r. (c_id r, c_application_id r, c_vcs_changes_branch r, c_status r)) (pipeline_build exHistory)
       = [(1, 42, Some ''main'', ''Success''), (2, 42, Some ''dev'', ''Success''),
          (3, 42, Some ''main'', ''Building'')]
   \<and> map (\<lambda>r. (c_id r, c_application_id r, c_vcs_changes_branch r, c_status r))
        (pipeline_build (snd (DeleteBranchBuilds exHistoryExt exHistory 42 ''main'')))
       = [(1, 42, Some ''main'', ''Success''), (2, 42, Some ''dev'', ''Success'')]"
  by (simp add: history_defs load_defs DeleteBranchBuilds_def StopPipelineBuild_def
      StopBuildingPipelineBuildJob_def DeletePipelineBuildByID_def
      DeleteBuildLogsByPipelineBuildID_def DeletePipelineBuildJob_def)

subsection \<open>The commits of a build\<close>


lemma CurrentAndPrevious_snd:
  "snd (CurrentAndPreviousPipelineBuildNumberAndHash db n p a e) = db\<lparr>faults := tl (faults db)\<rparr>"
proof -
  obtain f db1 where d: "driver db = (f, db1)" by (cases "driver db")
  then have "db1 = db\<lparr>faults := tl (faults db)\<rparr>" by (rule driver_eq)
  with d show ?thesis
    by (cases f)
       (auto simp: CurrentAndPreviousPipelineBuildNumberAndHash_def Let_def
             split: list.splits prod.splits option.splits)
qed

lemma updatePipelineBuildCommits_ok:
  assumes "updatePipelineBuildCommits X db pbID commits = (None, db')"
  shows "\<exists>commitsB. Marshal_commits X commits = Inr commitsB
           \<and> (if nextStatementFails db
               then WrapError_nil X ''insertPipelineBuild> Unable to update pipeline_build'' = None
                    \<and> pipeline_build db' = pipeline_build db
               else pipeline_build db' =
                      map (\<lambda>r. if c_id r = pbID then r\<lparr>c_commits := commitsB\<rparr> else r)
                        (pipeline_build db))"
proof -
  from assms obtain b where m: "Marshal_commits X commits = Inr b"
    by (auto simp: updatePipelineBuildCommits_def split: sum.splits)
  obtain f db1 where d: "driver db = (f, db1)" by (cases "driver db")
  from assms m d driver_eq [OF d] show ?thesis
    by (cases f) (auto simp: updatePipelineBuildCommits_def nextStatementFails_def)
qed


lemma commitsBetween_cases:
  assumes "commitsBetween client app cur prev = Inr res"
  shows "(\<forall>pv. prev = Some pv \<and> bnh_Hash cur = bnh_Hash pv \<longrightarrow> res = [])
     \<and> (\<forall>pv. prev = Some pv \<and> bnh_Hash cur \<noteq> bnh_Hash pv \<and> bnh_Hash cur \<noteq> [] \<and> bnh_Hash pv \<noteq> []
            \<longrightarrow> Commits client (app_RepositoryFullname app) (bnh_Branch cur) (bnh_Hash pv)
                  (bnh_Hash cur) = Inr res)
     \<and> (bnh_Hash cur \<noteq> [] \<and> (prev = None \<or> (\<exists>pv. prev = Some pv \<and> bnh_Hash pv = []))
            \<longrightarrow> Commits client (app_RepositoryFullname app) (bnh_Branch cur) [] (bnh_Hash cur) = Inr res)
     \<and> (bnh_Hash cur = [] \<and> (prev = None \<or> (\<exists>pv. prev = Some pv \<and> bnh_Hash pv \<noteq> []))
            \<longrightarrow> (Branch client (app_RepositoryFullname app) (bnh_Branch cur) = Inr None \<and> res = [])
                \<or> (\<exists>br cm. Branch client (app_RepositoryFullname app) (bnh_Branch cur) = Inr (Some br)
                      \<and> branch_LatestCommit br \<noteq> []
                      \<and> Commit client (app_RepositoryFullname app) (branch_LatestCommit br) = Inr cm
                      \<and> res = [cm]))"
proof (cases prev)
  case None
  with assms show ?thesis
    by (cases "bnh_Hash cur = []")
       (auto simp: commitsBetween_def split: sum.splits option.splits if_splits)
next
  case (Some pv)
  show ?thesis
  proof (cases "bnh_Hash cur = bnh_Hash pv")
    case True
    with assms Some show ?thesis by (auto simp: commitsBetween_def)
  next
    case False
    with assms Some show ?thesis
      by (cases "bnh_Hash cur = []"; cases "bnh_Hash pv = []")
         (auto simp: commitsBetween_def split: sum.splits option.splits if_splits)
  qed
qed



lemma join_member:
  "(c', pr) \<in> set (case ms of [] \<Rightarrow> [(c, None)] | prevs \<Rightarrow> map (\<lambda>prev. (c, Some prev)) prevs)
   \<Longrightarrow> c' = c \<and> ((pr = None \<and> ms = []) \<or> (\<exists>r. pr = Some r \<and> r \<in> set ms))"
  by (cases ms) auto

lemma join_member_Some:
  "r \<in> set ms \<Longrightarrow>
   (c, Some r) \<in> set (case ms of [] \<Rightarrow> [(c, None)] | prevs \<Rightarrow> map (\<lambda>prev. (c, Some prev)) prevs)"
  by (cases ms) auto

lemma query_previous_on_branch:
  assumes q: "CurrentAndPreviousPipelineBuildNumberAndHash db n p a e = (Inr (cur, prev), db')"
  shows "\<exists>c\<in>set (buildsOfTriple db p a e).
           c_build_number c = n \<and> cur = bnhOfRow c
           \<and> (case prev of
                 None \<Rightarrow> earlierOnBranch db p a e c = []
               | Some pv \<Rightarrow>
                   (\<exists>r\<in>set (earlierOnBranch db p a e c).
                      pv = bnhOfRow r
                      \<and> (\<forall>r'\<in>set (earlierOnBranch db p a e c).
                            sint (c_build_number r') \<le> sint (c_build_number r))))"
proof -
  obtain f db1 where d: "driver db = (f, db1)" by (cases "driver db")
  then have db1: "db1 = db\<lparr>faults := tl (faults db)\<rparr>" by (rule driver_eq)
  from q d have f: "f = None"
    by (cases f) (auto simp: CurrentAndPreviousPipelineBuildNumberAndHash_def)
  let ?T = "\<lambda>r. c_pipeline_id r = p \<and> c_application_id r = a \<and> c_environment_id r = e"
  let ?current = "filter (\<lambda>r. c_build_number r = n \<and> ?T r) (pipeline_build db)"
  let ?previous = "sort_key (\<lambda>r. - sint (c_build_number r))
                     (filter (\<lambda>r. c_build_number r <s n \<and> ?T r) (pipeline_build db))"
  let ?m = "\<lambda>c. filter (\<lambda>prev. c_pipeline_id prev = c_pipeline_id c
                                  \<and> c_vcs_changes_branch prev \<noteq> None
                                  \<and> c_vcs_changes_branch prev = c_vcs_changes_branch c) ?previous"
  let ?j = "\<lambda>c. case ?m c of [] \<Rightarrow> [(c, None)] | prevs \<Rightarrow> map (\<lambda>prev. (c, Some prev)) prevs"
  let ?joined = "concat (map ?j ?current)"
  let ?key = "\<lambda>(c, prev). case prev of None \<Rightarrow> - (2 ^ 64) | Some r \<Rightarrow> - sint (c_build_number r)"
  have pb1: "pipeline_build db1 = pipeline_build db" using db1 by simp
  have rows: "currentAndPreviousRows db1 n p a e = sort_key ?key ?joined"
    unfolding currentAndPreviousRows_def Let_def pb1 by (rule refl)
  from q d f obtain c pr rest where
    o: "currentAndPreviousRows db1 n p a e = (c, pr) # rest" and
    cur: "cur = bnhOfRow c" and
    prev: "prev = map_option bnhOfRow pr"
    by (auto simp: CurrentAndPreviousPipelineBuildNumberAndHash_def Let_def
             split: list.splits option.splits)
  from o rows have o2: "sort_key ?key ?joined = (c, pr) # rest" by simp
  from sort_key_head [OF o2] have cin: "(c, pr) \<in> set ?joined"
    and least: "\<forall>x\<in>set ?joined. ?key (c, pr) \<le> ?key x"
    by blast+
  from cin obtain c' where cc': "c' \<in> set ?current" and cj': "(c, pr) \<in> set (?j c')"
    unfolding set_concat set_map by blast
  from join_member [OF cj'] have ceq: "c = c'"
    and alt: "(pr = None \<and> ?m c' = []) \<or> (\<exists>r. pr = Some r \<and> r \<in> set (?m c'))"
    by blast+
  from cc' ceq have cc: "c \<in> set ?current" by simp
  from alt ceq have alt': "(pr = None \<and> ?m c = []) \<or> (\<exists>r. pr = Some r \<and> r \<in> set (?m c))"
    by simp
  from cc have ct: "c \<in> set (buildsOfTriple db p a e)" and cn: "c_build_number c = n"
    by (auto simp: buildsOfTriple_def)
  from cc have me: "set (?m c) = set (earlierOnBranch db p a e c)"
    by (auto simp: earlierOnBranch_def buildsOfTriple_def)
  have "case prev of
          None \<Rightarrow> earlierOnBranch db p a e c = []
        | Some pv \<Rightarrow>
            (\<exists>r\<in>set (earlierOnBranch db p a e c).
               pv = bnhOfRow r
               \<and> (\<forall>r'\<in>set (earlierOnBranch db p a e c).
                     sint (c_build_number r') \<le> sint (c_build_number r)))"
  proof (cases pr)
    case None
    with alt' have mc: "?m c = []" by blast
    have "set (earlierOnBranch db p a e c) = set (?m c)" by (rule me [symmetric])
    also have "\<dots> = {}" unfolding mc by simp
    finally have "earlierOnBranch db p a e c = []" by simp
    with None prev show ?thesis by simp
  next
    case (Some r)
    with alt' have rin: "r \<in> set (?m c)" by blast
    have mx: "\<forall>r'\<in>set (?m c). sint (c_build_number r') \<le> sint (c_build_number r)"
    proof
      fix r' assume r': "r' \<in> set (?m c)"
      from join_member_Some [OF r', of c] have "(c, Some r') \<in> set (?j c)" .
      with cc have "(c, Some r') \<in> set ?joined" unfolding set_concat set_map by blast
      with least have "?key (c, pr) \<le> ?key (c, Some r')" by blast
      with Some show "sint (c_build_number r') \<le> sint (c_build_number r)" by simp
    qed
    note rin' = rin [unfolded me] and mx' = mx [unfolded me]
    from Some prev have "prev = Some (bnhOfRow r)" by simp
    with rin' mx' show ?thesis by auto
  qed
  with ct cn cur show ?thesis by blast
qed


lemmas commits_defs = exCommitsRun_def UpdatePipelineBuildCommits_def
  CurrentAndPreviousPipelineBuildNumberAndHash_def currentAndPreviousRows_def bnhOfRow_def
  commitsBetween_def updatePipelineBuildCommits_def exVCSExt_def exNoBranchExt_def exClient_def
  exRepoApplication_def exApplication_def exBuild_def exSameHashStore_def exNoHashStore_def
  exProject_def exPipeline_def exEnvironment_def nextStatementFails_def


text \<open>
  C6, as stated, fails. Build 3 is on \<open>main\<close> at hash \<open>c\<close>, the previous build on
  \<open>main\<close> is build 1 at hash \<open>a\<close>, and the range between the two hashes is one
  commit; for the application without repositories manager
  \<open>UpdatePipelineBuildCommits\<close> returns no commit and leaves the store as it is. And for
  the bound application, a build without hash and without previous build, and a client
  that finds no branch, it returns the empty list, not the latest commit of the branch.
\<close>

theorem UpdatePipelineBuildCommits_counterexample:
  "app_RepositoriesManager exApplication = None
   \<and> fst (CurrentAndPreviousPipelineBuildNumberAndHash exHistory 3 7 42 3)
       = Inr (\<lparr>bnh_BuildNumber = 3, bnh_Hash = ''c'', bnh_Branch = ''main''\<rparr>,
              Some \<lparr>bnh_BuildNumber = 1, bnh_Hash = ''a'', bnh_Branch = ''main''\<rparr>)
   \<and> Commits exClient (app_RepositoryFullname exApplication) ''main'' ''a'' ''c''
       = Inr [\<lparr>commit_Hash = ''c'', commit_AuthorName = ''me'', commit_Message = ''m''\<rparr>]
   \<and> UpdatePipelineBuildCommits exVCSExt exHistory exProject exPipeline exApplication exEnvironment
        (exBuild 3) = (Inr [], exHistory)
   \<and> app_RepositoriesManager exRepoApplication = Some ''github''
   \<and> fst (CurrentAndPreviousPipelineBuildNumberAndHash exNoHashStore 1 7 42 3)
       = Inr (\<lparr>bnh_BuildNumber = 1, bnh_Hash = [], bnh_Branch = ''main''\<rparr>, None)
   \<and> fst (UpdatePipelineBuildCommits exNoBranchExt exNoHashStore exProject exPipeline
        exRepoApplication exEnvironment (exBuild 1)) = Inr []"
  by (simp add: commits_defs history_defs load_defs)


text \<open>
  C6, amended. Without repositories manager \<open>UpdatePipelineBuildCommits\<close> returns no
  commit and leaves the store as it is. With a repositories manager, the list it returns
  comes from a case analysis on the current build and the previous build on the same
  branch (among the earlier builds of the triple on the branch of the current one, one
  with the highest number): it is empty when a previous build exists and has the hash of
  the current one; it is the range of commits between the previous and the current hash
  when both are known and differ; it is the commits up to the current hash when the
  current hash is known and there is no previous build or the previous build has no
  hash; and when the current hash is empty (and no previous build has an empty hash too)
  it is the single latest commit of the branch, or empty when the client finds no branch.
  The list is written to the commits column of the build when the update statement does
  not fail; when it fails the list is returned only if \<open>sdk.WrapError\<close> turns the nil
  error it is handed into nil, and the table is then as it was.
\<close>

theorem UpdatePipelineBuildCommits_cases:
  assumes run: "UpdatePipelineBuildCommits X db p pip app env pb = (Inr res, db')"
  shows "(app_RepositoriesManager app = None \<longrightarrow> res = [] \<and> db' = db)
   \<and> (\<forall>rm. app_RepositoriesManager app = Some rm \<longrightarrow>
     (\<exists>client cur prev commitsB.
       AuthorizedClient X (proj_Key p) rm = Inr client
     \<and> fst (CurrentAndPreviousPipelineBuildNumberAndHash db (pb_BuildNumber pb) (pip_ID pip)
              (app_ID app) (env_ID env)) = Inr (cur, prev)
     \<and> (\<exists>c\<in>set (buildsOfTriple db (pip_ID pip) (app_ID app) (env_ID env)).
           c_build_number c = pb_BuildNumber pb \<and> cur = bnhOfRow c
           \<and> (case prev of
                 None \<Rightarrow> earlierOnBranch db (pip_ID pip) (app_ID app) (env_ID env) c = []
               | Some pv \<Rightarrow>
                   (\<exists>r\<in>set (earlierOnBranch db (pip_ID pip) (app_ID app) (env_ID env) c).
                      pv = bnhOfRow r
                      \<and> (\<forall>r'\<in>set (earlierOnBranch db (pip_ID pip) (app_ID app) (env_ID env) c).
                            sint (c_build_number r') \<le> sint (c_build_number r)))))
     \<and> (\<forall>pv. prev = Some pv \<and> bnh_Hash cur = bnh_Hash pv \<longrightarrow> res = [])
     \<and> (\<forall>pv. prev = Some pv \<and> bnh_Hash cur \<noteq> bnh_Hash pv \<and> bnh_Hash cur \<noteq> [] \<and> bnh_Hash pv \<noteq> []
            \<longrightarrow> Commits client (app_RepositoryFullname app) (bnh_Branch cur) (bnh_Hash pv)
                  (bnh_Hash cur) = Inr res)
     \<and> (bnh_Hash cur \<noteq> [] \<and> (prev = None \<or> (\<exists>pv. prev = Some pv \<and> bnh_Hash pv = []))
            \<longrightarrow> Commits client (app_RepositoryFullname app) (bnh_Branch cur) [] (bnh_Hash cur) = Inr res)
     \<and> (bnh_Hash cur = [] \<and> (prev = None \<or> (\<exists>pv. prev = Some pv \<and> bnh_Hash pv \<noteq> []))
            \<longrightarrow> (Branch client (app_RepositoryFullname app) (bnh_Branch cur) = Inr None \<and> res = [])
                \<or> (\<exists>br cm. Branch client (app_RepositoryFullname app) (bnh_Branch cur) = Inr (Some br)
                      \<and> branch_LatestCommit br \<noteq> []
                      \<and> Commit client (app_RepositoryFullname app) (branch_LatestCommit br) = Inr cm
                      \<and> res = [cm]))
     \<and> Marshal_commits X res = Inr commitsB
     \<and> (if nextStatementFails (snd (CurrentAndPreviousPipelineBuildNumberAndHash db
              (pb_BuildNumber pb) (pip_ID pip) (app_ID app) (env_ID env)))
        then WrapError_nil X ''insertPipelineBuild> Unable to update pipeline_build'' = None
             \<and> pipeline_build db' = pipeline_build db
        else pipeline_build db' =
               map (\<lambda>r. if c_id r = pb_ID pb then r\<lparr>c_commits := commitsB\<rparr> else r)
                 (pipeline_build db))))"
proof (rule conjI)
  show "app_RepositoriesManager app = None \<longrightarrow> res = [] \<and> db' = db"
  proof
    assume "app_RepositoriesManager app = None"
    with run show "res = [] \<and> db' = db"
      by (auto simp: UpdatePipelineBuildCommits_def)
  qed
next
  show "\<forall>rm. app_RepositoriesManager app = Some rm \<longrightarrow>
     (\<exists>client cur prev commitsB.
       AuthorizedClient X (proj_Key p) rm = Inr client
     \<and> fst (CurrentAndPreviousPipelineBuildNumberAndHash db (pb_BuildNumber pb) (pip_ID pip)
              (app_ID app) (env_ID env)) = Inr (cur, prev)
     \<and> (\<exists>c\<in>set (buildsOfTriple db (pip_ID pip) (app_ID app) (env_ID env)).
           c_build_number c = pb_BuildNumber pb \<and> cur = bnhOfRow c
           \<and> (case prev of
                 None \<Rightarrow> earlierOnBranch db (pip_ID pip) (app_ID app) (env_ID env) c = []
               | Some pv \<Rightarrow>
                   (\<exists>r\<in>set (earlierOnBranch db (pip_ID pip) (app_ID app) (env_ID env) c).
                      pv = bnhOfRow r
                      \<and> (\<forall>r'\<in>set (earlierOnBranch db (pip_ID pip) (app_ID app) (env_ID env) c).
                            sint (c_build_number r') \<le> sint (c_build_number r)))))
     \<and> (\<forall>pv. prev = Some pv \<and> bnh_Hash cur = bnh_Hash pv \<longrightarrow> res = [])
     \<and> (\<forall>pv. prev = Some pv \<and> bnh_Hash cur \<noteq> bnh_Hash pv \<and> bnh_Hash cur \<noteq> [] \<and> bnh_Hash pv \<noteq> []
            \<longrightarrow> Commits client (app_RepositoryFullname app) (bnh_Branch cur) (bnh_Hash pv)
                  (bnh_Hash cur) = Inr res)
     \<and> (bnh_Hash cur \<noteq> [] \<and> (prev = None \<or> (\<exists>pv. prev = Some pv \<and> bnh_Hash pv = []))
            \<longrightarrow> Commits client (app_RepositoryFullname app) (bnh_Branch cur) [] (bnh_Hash cur) = Inr res)
     \<and> (bnh_Hash cur = [] \<and> (prev = None \<or> (\<exists>pv. prev = Some pv \<and> bnh_Hash pv \<noteq> []))
            \<longrightarrow> (Branch client (app_RepositoryFullname app) (bnh_Branch cur) = Inr None \<and> res = [])
                \<or> (\<exists>br cm. Branch client (app_RepositoryFullname app) (bnh_Branch cur) = Inr (Some br)
                      \<and> branch_LatestCommit br \<noteq> []
                      \<and> Commit client (app_RepositoryFullname app) (branch_LatestCommit br) = Inr cm
                      \<and> res = [cm]))
     \<and> Marshal_commits X res = Inr commitsB
     \<and> (if nextStatementFails (snd (CurrentAndPreviousPipelineBuildNumberAndHash db
              (pb_BuildNumber pb) (pip_ID pip) (app_ID app) (env_ID env)))
        then WrapError_nil X ''insertPipelineBuild> Unable to update pipeline_build'' = None
             \<and> pipeline_build db' = pipeline_build db
        else pipeline_build db' =
               map (\<lambda>r. if c_id r = pb_ID pb then r\<lparr>c_commits := commitsB\<rparr> else r)
                 (pipeline_build db)))"
  proof (intro allI impI)
  fix rm
  assume rm: "app_RepositoriesManager app = Some rm"
  let ?Q = "CurrentAndPreviousPipelineBuildNumberAndHash db (pb_BuildNumber pb) (pip_ID pip)
              (app_ID app) (env_ID env)"
  from run rm obtain client where c: "AuthorizedClient X (proj_Key p) rm = Inr client"
    by (auto simp: UpdatePipelineBuildCommits_def split: sum.splits)
  obtain q db1 where q: "?Q = (q, db1)" by (cases ?Q)
  from CurrentAndPrevious_snd [of db "pb_BuildNumber pb" "pip_ID pip" "app_ID app" "env_ID env"] q
  have db1: "db1 = db\<lparr>faults := tl (faults db)\<rparr>" by simp
  from run rm c q obtain cur prev where qr: "q = Inr (cur, prev)"
    by (cases q) (auto simp: UpdatePipelineBuildCommits_def)
  from run rm c q qr have cb: "commitsBetween client app cur prev = Inr res"
    and up: "updatePipelineBuildCommits X db1 (pb_ID pb) res = (None, db')"
    by (auto simp: UpdatePipelineBuildCommits_def split: sum.splits prod.splits option.splits)
  from q have sq: "snd ?Q = db1" by simp
  have pb1: "pipeline_build db1 = pipeline_build db" by (simp add: db1)
  from updatePipelineBuildCommits_ok [OF up] obtain commitsB where
    m: "Marshal_commits X res = Inr commitsB" and
    rows: "if nextStatementFails (snd ?Q)
           then WrapError_nil X ''insertPipelineBuild> Unable to update pipeline_build'' = None
                \<and> pipeline_build db' = pipeline_build db
           else pipeline_build db' =
                  map (\<lambda>r. if c_id r = pb_ID pb then r\<lparr>c_commits := commitsB\<rparr> else r)
                    (pipeline_build db)"
    unfolding sq pb1 by blast
  from q qr have fq: "fst ?Q = Inr (cur, prev)" by simp
  from q qr have "?Q = (Inr (cur, prev), db1)" by simp
  note qp = query_previous_on_branch [OF this]
  from c fq qp commitsBetween_cases [OF cb] m rows
  show "\<exists>client cur prev commitsB.
       AuthorizedClient X (proj_Key p) rm = Inr client
     \<and> fst ?Q = Inr (cur, prev)
     \<and> (\<exists>c\<in>set (buildsOfTriple db (pip_ID pip) (app_ID app) (env_ID env)).
           c_build_number c = pb_BuildNumber pb \<and> cur = bnhOfRow c
           \<and> (case prev of
                 None \<Rightarrow> earlierOnBranch db (pip_ID pip) (app_ID app) (env_ID env) c = []
               | Some pv \<Rightarrow>
                   (\<exists>r\<in>set (earlierOnBranch db (pip_ID pip) (app_ID app) (env_ID env) c).
                      pv = bnhOfRow r
                      \<and> (\<forall>r'\<in>set (earlierOnBranch db (pip_ID pip) (app_ID app) (env_ID env) c).
                            sint (c_build_number r') \<le> sint (c_build_number r)))))
     \<and> (\<forall>pv. prev = Some pv \<and> bnh_Hash cur = bnh_Hash pv \<longrightarrow> res = [])
     \<and> (\<forall>pv. prev = Some pv \<and> bnh_Hash cur \<noteq> bnh_Hash pv \<and> bnh_Hash cur \<noteq> [] \<and> bnh_Hash pv \<noteq> []
            \<longrightarrow> Commits client (app_RepositoryFullname app) (bnh_Branch cur) (bnh_Hash pv)
                  (bnh_Hash cur) = Inr res)
     \<and> (bnh_Hash cur \<noteq> [] \<and> (prev = None \<or> (\<exists>pv. prev = Some pv \<and> bnh_Hash pv = []))
            \<longrightarrow> Commits client (app_RepositoryFullname app) (bnh_Branch cur) [] (bnh_Hash cur) = Inr res)
     \<and> (bnh_Hash cur = [] \<and> (prev = None \<or> (\<exists>pv. prev = Some pv \<and> bnh_Hash pv \<noteq> []))
            \<longrightarrow> (Branch client (app_RepositoryFullname app) (bnh_Branch cur) = Inr None \<and> res = [])
                \<or> (\<exists>br cm. Branch client (app_RepositoryFullname app) (bnh_Branch cur) = Inr (Some br)
                      \<and> branch_LatestCommit br \<noteq> []
                      \<and> Commit client (app_RepositoryFullname app) (branch_LatestCommit br) = Inr cm
                      \<and> res = [cm]))
     \<and> Marshal_commits X res = Inr commitsB
     \<and> (if nextStatementFails (snd ?Q)
        then WrapError_nil X ''insertPipelineBuild> Unable to update pipeline_build'' = None
             \<and> pipeline_build db' = pipeline_build db
        else pipeline_build db' =
               map (\<lambda>r. if c_id r = pb_ID pb then r\<lparr>c_commits := commitsB\<rparr> else r)
                 (pipeline_build db))"
    by blast
  qed
qed


text \<open>
  One run for each of the four cases, for the application bound to a repository: equal
  hashes, two different hashes, no previous build on the branch, no hash; each list is
  written to the commits column. The run for the application without repositories
  manager. And a run whose update statement fails, with a \<open>sdk.WrapError\<close> that turns
  the nil error into nil: the commit is returned and the table is as it was.
\<close>


theorem UpdatePipelineBuildCommits_cases_witness:
  "app_RepositoriesManager exRepoApplication = Some ''github''
   \<and> fst (exCommitsRun exSameHashStore 2) = Inr []
   \<and> (\<exists>commitsB. Marshal_commits exVCSExt (projr (fst (exCommitsRun exSameHashStore 2))) = Inr commitsB
         \<and> pipeline_build (snd (exCommitsRun exSameHashStore 2))
             = map (\<lambda>r. if c_id r = pb_ID (exBuild 2) then r\<lparr>c_commits := commitsB\<rparr> else r)
                 (pipeline_build exSameHashStore))
   \<and> fst (exCommitsRun exHistory 3) = Inr [\<lparr>commit_Hash = ''c'', commit_AuthorName = ''me'', commit_Message = ''m''\<rparr>]
   \<and> (\<exists>commitsB. Marshal_commits exVCSExt (projr (fst (exCommitsRun exHistory 3))) = Inr commitsB
         \<and> pipeline_build (snd (exCommitsRun exHistory 3))
             = map (\<lambda>r. if c_id r = pb_ID (exBuild 3) then r\<lparr>c_commits := commitsB\<rparr> else r)
                 (pipeline_build exHistory))
   \<and> fst (exCommitsRun exHistory 2) = Inr [\<lparr>commit_Hash = ''b'', commit_AuthorName = ''me'', commit_Message = ''m''\<rparr>]
   \<and> (\<exists>commitsB. Marshal_commits exVCSExt (projr (fst (exCommitsRun exHistory 2))) = Inr commitsB
         \<and> pipeline_build (snd (exCommitsRun exHistory 2))
             = map (\<lambda>r. if c_id r = pb_ID (exBuild 2) then r\<lparr>c_commits := commitsB\<rparr> else r)
                 (pipeline_build exHistory))
   \<and> fst (exCommitsRun exNoHashStore 1) = Inr [\<lparr>commit_Hash = ''c'', commit_AuthorName = ''me'', commit_Message = ''m''\<rparr>]
   \<and> (\<exists>commitsB. Marshal_commits exVCSExt (projr (fst (exCommitsRun exNoHashStore 1))) = Inr commitsB
         \<and> pipeline_build (snd (exCommitsRun exNoHashStore 1))
             = map (\<lambda>r. if c_id r = pb_ID (exBuild 1) then r\<lparr>c_commits := commitsB\<rparr> else r)
                 (pipeline_build exNoHashStore))
   \<and> app_RepositoriesManager exApplication = None
   \<and> \<not> isl (fst (UpdatePipelineBuildCommits exVCSExt exHistory exProject exPipeline exApplication
                  exEnvironment (exBuild 3)))
   \<and> projr (fst (UpdatePipelineBuildCommits exVCSExt exHistory exProject exPipeline exApplication
                  exEnvironment (exBuild 3))) = []
   \<and> snd (UpdatePipelineBuildCommits exVCSExt exHistory exProject exPipeline exApplication
                  exEnvironment (exBuild 3)) = exHistory
   \<and> nextStatementFails (snd (CurrentAndPreviousPipelineBuildNumberAndHash
          (exHistory\<lparr>faults := [None, Some ''down'']\<rparr>) 3 7 42 3))
   \<and> fst (UpdatePipelineBuildCommits (exVCSExt\<lparr>WrapError_nil := (\<lambda>msg. None)\<rparr>)
             (exHistory\<lparr>faults := [None, Some ''down'']\<rparr>) exProject exPipeline exRepoApplication
             exEnvironment (exBuild 3))
       = Inr [\<lparr>commit_Hash = ''c'', commit_AuthorName = ''me'', commit_Message = ''m''\<rparr>]
   \<and> pipeline_build (snd (UpdatePipelineBuildCommits (exVCSExt\<lparr>WrapError_nil := (\<lambda>msg. None)\<rparr>)
             (exHistory\<lparr>faults := [None, Some ''down'']\<rparr>) exProject exPipeline exRepoApplication
             exEnvironment (exBuild 3)))
       = pipeline_build exHistory"
proof -
  have rm: "app_RepositoriesManager exRepoApplication = Some ''github''"
    by (simp add: exRepoApplication_def)
  have W: "\<exists>commitsB. Marshal_commits exVCSExt (projr (fst (exCommitsRun db n))) = Inr commitsB
         \<and> pipeline_build (snd (exCommitsRun db n))
             = map (\<lambda>r. if c_id r = pb_ID (exBuild n) then r\<lparr>c_commits := commitsB\<rparr> else r)
                 (pipeline_build db)"
    if ok: "\<not> isl (fst (exCommitsRun db n))" and nf: "faults db = []" for db n
  proof -
    have "\<not> nextStatementFails (snd (CurrentAndPreviousPipelineBuildNumberAndHash db
              (pb_BuildNumber (exBuild n)) (pip_ID exPipeline) (app_ID exRepoApplication)
              (env_ID exEnvironment)))"
      unfolding CurrentAndPrevious_snd using nf by (simp add: nextStatementFails_def driver_def)
    with UpdatePipelineBuildCommits_cases [OF run_collapse [OF ok, unfolded exCommitsRun_def]] rm
    show ?thesis
      unfolding exCommitsRun_def by auto
  qed
  have nf: "faults exSameHashStore = []" "faults exHistory = []" "faults exNoHashStore = []"
    by (simp_all add: exSameHashStore_def exHistory_def exNoHashStore_def exStore_def)
  have r1: "fst (exCommitsRun exSameHashStore 2) = Inr []"
    by (simp add: commits_defs history_defs load_defs)
  have r2: "fst (exCommitsRun exHistory 3) = Inr [\<lparr>commit_Hash = ''c'', commit_AuthorName = ''me'', commit_Message = ''m''\<rparr>]"
    by (simp add: commits_defs history_defs load_defs)
  have r3: "fst (exCommitsRun exHistory 2) = Inr [\<lparr>commit_Hash = ''b'', commit_AuthorName = ''me'', commit_Message = ''m''\<rparr>]"
    by (simp add: commits_defs history_defs load_defs)
  have r4: "fst (exCommitsRun exNoHashStore 1) = Inr [\<lparr>commit_Hash = ''c'', commit_AuthorName = ''me'', commit_Message = ''m''\<rparr>]"
    by (simp add: commits_defs history_defs load_defs)
  from r1 have o1: "\<not> isl (fst (exCommitsRun exSameHashStore 2))" by simp
  from r2 have o2: "\<not> isl (fst (exCommitsRun exHistory 3))" by simp
  from r3 have o3: "\<not> isl (fst (exCommitsRun exHistory 2))" by simp
  from r4 have o4: "\<not> isl (fst (exCommitsRun exNoHashStore 1))" by simp
  let ?N = "UpdatePipelineBuildCommits exVCSExt exHistory exProject exPipeline exApplication
                  exEnvironment (exBuild 3)"
  have rmN: "app_RepositoriesManager exApplication = None" by (simp add: exApplication_def)
  have oN: "\<not> isl (fst ?N)"
    by (simp add: UpdatePipelineBuildCommits_def exApplication_def)
  from UpdatePipelineBuildCommits_cases [OF run_collapse [OF oN]] rmN
  have N: "projr (fst ?N) = []" "snd ?N = exHistory" by blast+
  let ?F = "UpdatePipelineBuildCommits (exVCSExt\<lparr>WrapError_nil := (\<lambda>msg. None)\<rparr>)
             (exHistory\<lparr>faults := [None, Some ''down'']\<rparr>) exProject exPipeline exRepoApplication
             exEnvironment (exBuild 3)"
  have ids: "pb_BuildNumber (exBuild 3) = 3" "pip_ID exPipeline = 7" "app_ID exRepoApplication = 42"
    "env_ID exEnvironment = 3"
    by (simp_all add: exBuild_def exBuild3_def exPipeline_def exRepoApplication_def
          exApplication_def exEnvironment_def)
  have fl: "nextStatementFails (snd (CurrentAndPreviousPipelineBuildNumberAndHash
          (exHistory\<lparr>faults := [None, Some ''down'']\<rparr>) 3 7 42 3))"
    unfolding CurrentAndPrevious_snd by (simp add: nextStatementFails_def driver_def)
  have rF: "fst ?F = Inr [\<lparr>commit_Hash = ''c'', commit_AuthorName = ''me'', commit_Message = ''m''\<rparr>]"
    by (simp add: commits_defs history_defs load_defs)
  then have oF: "\<not> isl (fst ?F)" by simp
  from UpdatePipelineBuildCommits_cases [OF run_collapse [OF oF]] rm fl
  have F: "pipeline_build (snd ?F) = pipeline_build exHistory"
    unfolding ids by auto
  from rm r1 r2 r3 r4 W [OF o1 nf(1)] W [OF o2 nf(2)] W [OF o3 nf(2)] W [OF o4 nf(3)] rmN oN N
    fl rF F
  show ?thesis
    by (intro conjI)
qed

end
